theory Spec2Isabelle
  imports Main
begin

unbundle bit_operations_syntax

section \<open>JavaScript values\<close>

text \<open>
  The values that flow through \<^verbatim>\<open>vnode.ts\<close> as keys, children and prop values.
  Numbers are the integers plus \<open>NaN\<close>; the bitwise operators of the source are the
  bitwise operators of \<open>int\<close> (every flag of the source fits in 32 bits). A value of a
  reference type carries its identity (a natural number) next to its content, and
  \<open>===\<close> on two such values compares the identities only.
  \<^item> \<open>JFun i c r\<close> is a function with identity \<open>i\<close>, whose \<^verbatim>\<open>_c\<close> marker is \<open>c\<close> and
    which returns \<open>r\<close> when it is called without arguments;
  \<^item> \<open>JSlots i d f ctx b\<close> is an object with the properties \<^verbatim>\<open>default\<close> (\<open>d\<close>),
    \<^verbatim>\<open>_\<close> (\<open>f\<close>) and \<^verbatim>\<open>_ctx\<close> (\<open>ctx\<close>), for which \<^verbatim>\<open>isInternalObject\<close> answers \<open>b\<close>;
  \<^item> \<open>JRef\<close> is a \<^verbatim>\<open>Ref\<close> (\<^verbatim>\<open>isRef\<close> holds of it), \<open>JVNode a\<close> the vnode stored at
    address \<open>a\<close>, \<open>JObj\<close> any other object, which has none of the properties that
    the module reads;
  \<^item> \<open>JClone i\<close> is the object that \<^verbatim>\<open>cloneVNode\<close> builds from a value that is not a
    vnode: its \<^verbatim>\<open>__v_isVNode\<close> is \<^verbatim>\<open>true\<close>, and every property that the literal copies
    from the value is \<^verbatim>\<open>undefined\<close>, as are its \<^verbatim>\<open>props\<close> and its \<^verbatim>\<open>key\<close>.
\<close>

datatype jsval =
    JUndefined
  | JNull
  | JBool bool
  | JNum int
  | JNaN
  | JStr string
  | JSym nat string
  | JArr nat "jsval list"
  | JFun nat bool jsval
  | JSlots nat jsval jsval "nat option" bool
  | JRef nat
  | JVNode nat
  | JObj nat
  | JClone nat

text \<open>Truthiness, as \<^verbatim>\<open>if (x)\<close>, \<^verbatim>\<open>x && y\<close> and \<^verbatim>\<open>x || y\<close> read a value.\<close>

fun truthy :: "jsval \<Rightarrow> bool" where
  "truthy JUndefined = False"
| "truthy JNull = False"
| "truthy (JBool b) = b"
| "truthy (JNum n) = (n \<noteq> 0)"
| "truthy JNaN = False"
| "truthy (JStr s) = (s \<noteq> [])"
| "truthy _ = True"

text \<open>\<^verbatim>\<open>x == null\<close>: true of \<^verbatim>\<open>null\<close> and \<^verbatim>\<open>undefined\<close> only.\<close>

fun nullish :: "jsval \<Rightarrow> bool" where
  "nullish JUndefined = True"
| "nullish JNull = True"
| "nullish _ = False"

text \<open>
  Strict equality \<^verbatim>\<open>===\<close>: two symbols or two references of the same kind are equal
  when their identities are (\<open>ref_id\<close> gives kind and identity), two primitives when
  they are the same value, except that \<open>NaN\<close> equals nothing.
\<close>

fun ref_id :: "jsval \<Rightarrow> (nat \<times> nat) option" where
  "ref_id (JSym i _) = Some (0, i)"
| "ref_id (JArr i _) = Some (1, i)"
| "ref_id (JFun i _ _) = Some (2, i)"
| "ref_id (JSlots i _ _ _ _) = Some (3, i)"
| "ref_id (JRef i) = Some (4, i)"
| "ref_id (JVNode i) = Some (5, i)"
| "ref_id (JObj i) = Some (6, i)"
| "ref_id (JClone i) = Some (7, i)"
| "ref_id _ = None"

definition strict_eq :: "jsval \<Rightarrow> jsval \<Rightarrow> bool" where
  "strict_eq a b =
     (case ref_id a of
        Some i \<Rightarrow> ref_id b = Some i
      | None \<Rightarrow> a \<noteq> JNaN \<and> a = b)"

text \<open>\<^verbatim>\<open>Array.prototype.includes\<close> compares with SameValueZero, under which \<open>NaN\<close> is itself.\<close>

definition same_value_zero :: "jsval \<Rightarrow> jsval \<Rightarrow> bool" where
  "same_value_zero a b = (strict_eq a b \<or> (a = JNaN \<and> b = JNaN))"

fun isString :: "jsval \<Rightarrow> bool" where
  "isString (JStr _) = True"
| "isString _ = False"

fun isFunction :: "jsval \<Rightarrow> bool" where
  "isFunction (JFun _ _ _) = True"
| "isFunction _ = False"

fun isArray :: "jsval \<Rightarrow> bool" where
  "isArray (JArr _ _) = True"
| "isArray _ = False"

fun isRef :: "jsval \<Rightarrow> bool" where
  "isRef (JRef _) = True"
| "isRef _ = False"

text \<open>\<^verbatim>\<open>typeof x === 'object'\<close> (which holds of \<^verbatim>\<open>null\<close> and of arrays too).\<close>

fun typeof_object :: "jsval \<Rightarrow> bool" where
  "typeof_object JNull = True"
| "typeof_object (JArr _ _) = True"
| "typeof_object (JSlots _ _ _ _ _) = True"
| "typeof_object (JRef _) = True"
| "typeof_object (JVNode _) = True"
| "typeof_object (JObj _) = True"
| "typeof_object (JClone _) = True"
| "typeof_object _ = False"

text \<open>\<^verbatim>\<open>isObject\<close> of \<^verbatim>\<open>@vue/shared\<close>: \<^verbatim>\<open>val !== null && typeof val === 'object'\<close>.\<close>

definition isObject :: "jsval \<Rightarrow> bool" where
  "isObject v = (v \<noteq> JNull \<and> typeof_object v)"

text \<open>
  The decimal digits of an integer: what \<^verbatim>\<open>String(n)\<close> is for an integer \<open>n\<close> below
  \<open>2\<^sup>5\<^sup>3\<close> in magnitude.
\<close>

fun digits :: "nat \<Rightarrow> string" where
  "digits n =
     (if n < 10 then [char_of (48 + n)]
      else digits (n div 10) @ [char_of (48 + n mod 10)])"

definition string_of_int :: "int \<Rightarrow> string" where
  "string_of_int i = (if i < 0 then CHR ''-'' # digits (nat (- i)) else digits (nat i))"

section \<open>Virtual nodes\<close>

text \<open>
  \<^verbatim>\<open>VNodeTypes\<close>: what the \<^verbatim>\<open>type\<close> argument of \<^verbatim>\<open>createVNode\<close> can be at run time.
  The constructors are the cases the source tells apart: a string (a host tag), one of
  the symbols, the \<^verbatim>\<open>Teleport\<close> and \<^verbatim>\<open>Suspense\<close> objects (\<^verbatim>\<open>isTeleport\<close>,
  \<^verbatim>\<open>isSuspense\<close>), a component options object (\<open>TComponent i p\<close>: identity \<open>i\<close>, and
  \<open>p\<close> when it is the reactive proxy of the object), a function, a class component
  (\<open>TClass f o\<close>: the function \<open>f\<close> whose \<^verbatim>\<open>__vccOpts\<close> is the options object \<open>o\<close>), an
  existing vnode (its address), and the values outside the declared type that the
  source guards against with \<^verbatim>\<open>!type\<close>.
\<close>

datatype sym = Fragment | Text | Comment | Static | NULL_DYNAMIC_COMPONENT

datatype vtype =
    TNull
  | TUndefined
  | TBool bool
  | TNum int
  | TTag string
  | TSymbol sym
  | TTeleport
  | TSuspense
  | TComponent nat bool
  | TFunctional nat
  | TClass nat nat
  | TVNode nat

text \<open>\<^verbatim>\<open>!type\<close> holds of the falsy values.\<close>

fun falsy_type :: "vtype \<Rightarrow> bool" where
  "falsy_type TNull = True"
| "falsy_type TUndefined = True"
| "falsy_type (TBool b) = (\<not> b)"
| "falsy_type (TNum n) = (n = 0)"
| "falsy_type (TTag s) = (s = [])"
| "falsy_type _ = False"

text \<open>
  A props object: its own enumerable properties in insertion order, whether
  \<^verbatim>\<open>isProxy(props) || isInternalObject(props)\<close> holds of it, and the names of the
  properties to which an assignment fails (all of them when the object is frozen).
  Reading a property that is absent gives \<^verbatim>\<open>undefined\<close>.
\<close>

record props =
  guarded :: bool
  entries :: "(string \<times> jsval) list"
  readonly :: "string list"

definition get_prop :: "props \<Rightarrow> string \<Rightarrow> jsval" where
  "get_prop p k = (case map_of (entries p) k of None \<Rightarrow> JUndefined | Some v \<Rightarrow> v)"

text \<open>
  \<^verbatim>\<open>ret[key] = v\<close> on the properties of an object: an existing property keeps its
  place, a new one is added at the end.
\<close>

fun set_entry :: "string \<Rightarrow> jsval \<Rightarrow> (string \<times> jsval) list \<Rightarrow> (string \<times> jsval) list" where
  "set_entry k v [] = [(k, v)]"
| "set_entry k v ((k', v') # es) =
     (if k' = k then (k, v) # es else (k', v') # set_entry k v es)"

text \<open>
  \<^verbatim>\<open>VNodeNormalizedRef\<close>: \<^verbatim>\<open>null\<close>, an atom \<^verbatim>\<open>{ i, r, k, f }\<close>, any other value that
  was passed as \<^verbatim>\<open>ref\<close>, or an array of refs.
\<close>

datatype vref =
    RNull
  | RAtom "nat option" jsval jsval bool
  | RRaw jsval
  | RArr "vref list"

text \<open>
  \<^verbatim>\<open>vnode.dynamicChildren\<close>: \<^verbatim>\<open>null\<close>, the shared constant \<^verbatim>\<open>EMPTY_ARR\<close>, or a
  reference to one of the arrays that \<^verbatim>\<open>openBlock\<close> creates.
\<close>

datatype dynref = DynNull | EMPTY_ARR | DynArr nat

text \<open>
  The \<^verbatim>\<open>VNode\<close> interface. Vnodes, component instances, host nodes, transition hooks
  and app contexts are objects: a field that refers to one holds its address or
  identity.
\<close>

record vnode =
  type :: vtype
  props :: "props option"
  key :: jsval
  ref :: vref
  scopeId :: "string option"
  slotScopeIds :: "string list option"
  children :: jsval
  component :: "nat option"
  suspense :: "nat option"
  ssContent :: "nat option"
  ssFallback :: "nat option"
  dirs :: "nat option"
  transition :: "nat option"
  el :: "nat option"
  anchor :: "nat option"
  target :: "nat option"
  targetStart :: "nat option"
  targetAnchor :: "nat option"
  staticCount :: int
  shapeFlag :: int
  patchFlag :: int
  dynamicProps :: "string list option"
  dynamicChildren :: dynref
  appContext :: "nat option"
  ctx :: "nat option"
  ce :: "nat option"

section \<open>The module state of \<^verbatim>\<open>vnode.ts\<close>\<close>

text \<open>
  The arrays that collect dynamic children are shared: \<^verbatim>\<open>currentBlock\<close> and the top of
  \<^verbatim>\<open>blockStack\<close> are the same array, and \<^verbatim>\<open>setupBlock\<close> stores that array, not a
  copy, on the block vnode. So the state has a store of arrays (\<open>arrays\<close>, an array's
  address is its index) and \<^verbatim>\<open>blockStack\<close> and \<^verbatim>\<open>currentBlock\<close> hold addresses.
  Vnodes are mutated after they were created, so they live in a store too (\<open>vnodes\<close>)
  and an array holds the addresses of its vnodes. \<open>nextId\<close> is the identity that the
  next object or array literal of the module gets, and \<open>warnings\<close> collects the
  messages of \<^verbatim>\<open>warn\<close>.
\<close>

record block =
  items :: "nat list"
  hasOnce :: bool

record vstate =
  vnodes :: "vnode list"
  arrays :: "block list"
  blockStack :: "nat option list"
  currentBlock :: "nat option"
  isBlockTreeEnabled :: int
  currentRenderingInstance :: "nat option"
  currentScopeId :: "string option"
  hmrDirtyComponents :: "(vtype \<times> nat list) list"
  nextId :: nat
  warnings :: "string list"

text \<open>The state of the module when it has been loaded.\<close>

definition init_vstate :: vstate where
  "init_vstate =
     \<lparr> vnodes = [], arrays = [], blockStack = [], currentBlock = None,
       isBlockTreeEnabled = 1, currentRenderingInstance = None, currentScopeId = None,
       hmrDirtyComponents = [], nextId = 0, warnings = [] \<rparr>"

section \<open>Constants and functions that \<^verbatim>\<open>vnode.ts\<close> imports\<close>

text \<open>
  The enums \<^verbatim>\<open>ShapeFlags\<close>, \<^verbatim>\<open>PatchFlags\<close> and \<^verbatim>\<open>SlotFlags\<close> of \<^verbatim>\<open>@vue/shared\<close>, the
  build flags and the functions of other modules are parameters of the model: every
  function below takes them in an environment, and a theorem that does not restrict
  the environment holds whatever their values are.
\<close>

record shape_flags =
  ELEMENT :: int
  FUNCTIONAL_COMPONENT :: int
  STATEFUL_COMPONENT :: int
  TEXT_CHILDREN :: int
  ARRAY_CHILDREN :: int
  SLOTS_CHILDREN :: int
  TELEPORT :: int
  SUSPENSE :: int
  COMPONENT_SHOULD_KEEP_ALIVE :: int
  COMPONENT_KEPT_ALIVE :: int
  COMPONENT :: int

record patch_flags =
  FULL_PROPS :: int
  NEED_HYDRATION :: int
  DYNAMIC_SLOTS :: int
  CACHED :: int
  BAIL :: int

record slot_flags =
  STABLE :: int
  DYNAMIC :: int
  FORWARDED :: int

text \<open>
  \<^item> \<open>DEV\<close>, \<open>COMPAT\<close>, \<open>FEATURE_SUSPENSE\<close>: the build flags \<^verbatim>\<open>__DEV__\<close>, \<^verbatim>\<open>__COMPAT__\<close>
    and \<^verbatim>\<open>__FEATURE_SUSPENSE__\<close>;
  \<^item> \<open>normalizeClass\<close>, \<open>normalizeStyle\<close>, \<open>isOn\<close>: of \<^verbatim>\<open>@vue/shared\<close>;
  \<^item> \<open>isProxy\<close>: of \<^verbatim>\<open>@vue/reactivity\<close>; \<open>extend_plain v\<close> is \<^verbatim>\<open>extend({}, v)\<close>;
  \<^item> \<open>instance_slots_flag i\<close> is \<^verbatim>\<open>i.slots._\<close> of the component instance \<open>i\<close>;
  \<^item> \<open>Suspense_normalize a\<close> is \<^verbatim>\<open>SuspenseImpl.normalize\<close> on the vnode at \<open>a\<close>;
  \<^item> \<open>convertLegacyComponent\<close>, \<open>convertLegacyVModelProps\<close> and
    \<open>defineLegacyVNodeProperties\<close>: the hooks of the compat build;
  \<^item> \<open>setTransitionHooks a h\<close> and \<open>transition_clone h a\<close> (\<^verbatim>\<open>h.clone(vnode)\<close>): of
    \<^verbatim>\<open>BaseTransition\<close>;
  \<^item> \<open>callStackLimit\<close>: how deep \<^verbatim>\<open>cloneVNode\<close> may recurse before the engine raises
    \<^verbatim>\<open>RangeError\<close>.

  Two operations of the language are parameters as well:
  \<^item> \<open>Number_toString n\<close> is the text that the engine prints for the number \<open>n\<close>
    (\<^verbatim>\<open>String(n)\<close>, \<^verbatim>\<open>'' + n\<close>);
  \<^item> \<open>can_assign v k\<close> says whether the assignment \<^verbatim>\<open>v[k] = x\<close> succeeds on the object
    \<open>v\<close>. It fails when \<open>v\<close> has no property \<open>k\<close> and is not extensible, and when the
    property is read-only, as on a frozen object; the code of the module is strict,
    so a failed assignment raises \<^verbatim>\<open>TypeError\<close>.
\<close>

record env =
  DEV :: bool
  COMPAT :: bool
  FEATURE_SUSPENSE :: bool
  ShapeFlags :: shape_flags
  PatchFlags :: patch_flags
  SlotFlags :: slot_flags
  normalizeClass :: "jsval \<Rightarrow> jsval"
  normalizeStyle :: "jsval \<Rightarrow> jsval"
  isOn :: "string \<Rightarrow> bool"
  isProxy :: "jsval \<Rightarrow> bool"
  extend_plain :: "jsval \<Rightarrow> jsval"
  instance_slots_flag :: "nat \<Rightarrow> jsval"
  Suspense_normalize :: "nat \<Rightarrow> vstate \<Rightarrow> vstate"
  convertLegacyComponent :: "vtype \<Rightarrow> nat option \<Rightarrow> vtype"
  convertLegacyVModelProps :: "nat \<Rightarrow> vstate \<Rightarrow> vstate"
  defineLegacyVNodeProperties :: "nat \<Rightarrow> vstate \<Rightarrow> vstate"
  setTransitionHooks :: "nat \<Rightarrow> nat \<Rightarrow> vstate \<Rightarrow> vstate"
  transition_clone :: "nat \<Rightarrow> nat \<Rightarrow> nat"
  callStackLimit :: nat
  Number_toString :: "int \<Rightarrow> string"
  can_assign :: "jsval \<Rightarrow> string \<Rightarrow> bool"

datatype error = TypeError | RangeError

text \<open>
  \<^verbatim>\<open>String(x)\<close> on the primitives and symbols. The source applies it only after it has
  ruled out \<^verbatim>\<open>null\<close>, \<^verbatim>\<open>undefined\<close>, arrays, objects and functions; on those the
  model answers with the text JavaScript gives for a plain object.
\<close>

fun String_js :: "env \<Rightarrow> jsval \<Rightarrow> string" where
  "String_js e (JBool b) = (if b then ''true'' else ''false'')"
| "String_js e (JNum n) = Number_toString e n"
| "String_js e JNaN = ''NaN''"
| "String_js e (JStr s) = s"
| "String_js e (JSym _ d) = ''Symbol('' @ d @ '')''"
| "String_js e JUndefined = ''undefined''"
| "String_js e JNull = ''null''"
| "String_js e _ = ''[object Object]''"

section \<open>The block stack\<close>

text \<open>\<^verbatim>\<open>blockStack.push((currentBlock = disableTracking ? null : []))\<close>\<close>

definition openBlock :: "bool \<Rightarrow> vstate \<Rightarrow> vstate" where
  "openBlock disableTracking s =
     (if disableTracking
      then s\<lparr> currentBlock := None, blockStack := blockStack s @ [None] \<rparr>
      else let a = length (arrays s) in
           s\<lparr> arrays := arrays s @ [\<lparr> items = [], hasOnce = False \<rparr>],
              currentBlock := Some a,
              blockStack := blockStack s @ [Some a] \<rparr>)"

text \<open>
  \<^verbatim>\<open>blockStack.pop(); currentBlock = blockStack[blockStack.length - 1] || null\<close>.
  \<^verbatim>\<open>pop\<close> on the empty array does nothing, and reading index \<open>-1\<close> of it gives
  \<^verbatim>\<open>undefined\<close>; an array is truthy, also when it is empty.
\<close>

definition closeBlock :: "vstate \<Rightarrow> vstate" where
  "closeBlock s =
     (let st = butlast (blockStack s) in
      s\<lparr> blockStack := st, currentBlock := (if st = [] then None else last st) \<rparr>)"

definition setBlockTracking :: "int \<Rightarrow> vstate \<Rightarrow> vstate" where
  "setBlockTracking v s =
     (let s1 = s\<lparr> isBlockTreeEnabled := isBlockTreeEnabled s + v \<rparr> in
      if v < 0 then
        (case currentBlock s1 of
           Some b \<Rightarrow> s1\<lparr> arrays := (arrays s1)[b := (arrays s1 ! b)\<lparr> hasOnce := True \<rparr>] \<rparr>
         | None \<Rightarrow> s1)
      else s1)"

text \<open>\<^verbatim>\<open>block.push(vnode)\<close> on the array at address \<open>b\<close>.\<close>

definition push_block :: "nat \<Rightarrow> nat \<Rightarrow> vstate \<Rightarrow> vstate" where
  "push_block b a s =
     s\<lparr> arrays := (arrays s)[b := (arrays s ! b)\<lparr> items := items (arrays s ! b) @ [a] \<rparr>] \<rparr>"

text \<open>An assignment to fields of the vnode at address \<open>a\<close>.\<close>

definition update_vnode :: "nat \<Rightarrow> (vnode \<Rightarrow> vnode) \<Rightarrow> vstate \<Rightarrow> vstate" where
  "update_vnode a f s = s\<lparr> vnodes := (vnodes s)[a := f (vnodes s ! a)] \<rparr>"

definition setupBlock :: "nat \<Rightarrow> vstate \<Rightarrow> nat \<times> vstate" where
  "setupBlock a s =
     (let s1 = update_vnode a (\<lambda>v. v\<lparr> dynamicChildren :=
                  (if isBlockTreeEnabled s > 0
                   then (case currentBlock s of Some b \<Rightarrow> DynArr b | None \<Rightarrow> EMPTY_ARR)
                   else DynNull) \<rparr>) s;
          s2 = closeBlock s1
      in (a, if isBlockTreeEnabled s2 > 0
             then (case currentBlock s2 of Some p \<Rightarrow> push_block p a s2 | None \<Rightarrow> s2)
             else s2))"

text \<open>What \<^verbatim>\<open>vnode.dynamicChildren\<close> holds: the elements of the array it refers to.\<close>

definition dynamicChildren_of :: "vstate \<Rightarrow> nat \<Rightarrow> nat list option" where
  "dynamicChildren_of s a =
     (case dynamicChildren (vnodes s ! a) of
        DynNull \<Rightarrow> None
      | EMPTY_ARR \<Rightarrow> Some []
      | DynArr b \<Rightarrow> Some (items (arrays s ! b)))"

section \<open>Creating vnodes\<close>

text \<open>\<^verbatim>\<open>({ key }) => key != null ? key : null\<close>\<close>

definition normalizeKey :: "props \<Rightarrow> jsval" where
  "normalizeKey p = (let k = get_prop p ''key'' in if \<not> nullish k then k else JNull)"

text \<open>\<^verbatim>\<open>typeof ref === 'number'\<close> holds of \<open>NaN\<close> too.\<close>

definition normalizeRef :: "env \<Rightarrow> props \<Rightarrow> nat option \<Rightarrow> vref" where
  "normalizeRef e p cri =
     (let ref0 = get_prop p ''ref'';
          ref_key = get_prop p ''ref_key'';
          ref_for = get_prop p ''ref_for'';
          r = (case ref0 of
                 JNum n \<Rightarrow> JStr ([] @ String_js e ref0)
               | JNaN \<Rightarrow> JStr ([] @ String_js e ref0)
               | _ \<Rightarrow> ref0)
      in if \<not> nullish r
         then (if isString r \<or> isRef r \<or> isFunction r
               then RAtom cri r ref_key (truthy ref_for)
               else RRaw r)
         else RNull)"

text \<open>
  \<^verbatim>\<open>guardReactiveProps\<close>: \<^verbatim>\<open>extend({}, props)\<close> is a new plain object with the same
  properties, all of them writable.
\<close>

definition guardReactiveProps :: "props option \<Rightarrow> props option" where
  "guardReactiveProps po =
     (case po of
        None \<Rightarrow> None
      | Some p \<Rightarrow>
          if guarded p then Some \<lparr> guarded = False, entries = entries p, readonly = [] \<rparr>
          else Some p)"

text \<open>
  \<^verbatim>\<open>mergeProps\<close>. \<open>merge_entry\<close> is the body of the inner loop, \<open>merge_entries\<close> the
  inner loop over the properties of one argument, \<open>merge_args\<close> the outer loop over the arguments; the number threaded
  through is the identity for the next array that \<^verbatim>\<open>[].concat\<close> creates. The
  arrays passed to \<^verbatim>\<open>normalizeClass\<close> and \<^verbatim>\<open>normalizeStyle\<close> are temporaries, with
  the identity that was next when they were built.
\<close>

definition entry :: "(string \<times> jsval) list \<Rightarrow> string \<Rightarrow> jsval" where
  "entry es k = (case map_of es k of None \<Rightarrow> JUndefined | Some v \<Rightarrow> v)"

fun array_includes :: "jsval \<Rightarrow> jsval \<Rightarrow> bool" where
  "array_includes (JArr _ xs) v = list_ex (\<lambda>x. same_value_zero x v) xs"
| "array_includes _ v = False"

text \<open>The elements that \<^verbatim>\<open>concat\<close> takes from an argument: an array is spread.\<close>

fun concat_elems :: "jsval \<Rightarrow> jsval list" where
  "concat_elems (JArr _ xs) = xs"
| "concat_elems v = [v]"

definition merge_entry ::
  "env \<Rightarrow> string \<Rightarrow> jsval \<Rightarrow> (string \<times> jsval) list \<times> nat \<Rightarrow> (string \<times> jsval) list \<times> nat"
where
  "merge_entry e k v acc =
     (let ret = fst acc; n = snd acc in
      if k = ''class'' then
        (if \<not> strict_eq (entry ret ''class'') v
         then (set_entry ''class'' (normalizeClass e (JArr n [entry ret ''class'', v])) ret, n)
         else (ret, n))
      else if k = ''style'' then
        (set_entry ''style'' (normalizeStyle e (JArr n [entry ret ''style'', v])) ret, n)
      else if isOn e k then
        (let existing = entry ret k; incoming = v in
         if truthy incoming \<and> \<not> strict_eq existing incoming
            \<and> \<not> (isArray existing \<and> array_includes existing incoming)
         then (if truthy existing
               then (set_entry k (JArr n (concat_elems existing @ concat_elems incoming)) ret,
                     Suc n)
               else (set_entry k incoming ret, n))
         else (ret, n))
      else if k \<noteq> [] then (set_entry k v ret, n)
      else (ret, n))"

fun merge_entries ::
  "env \<Rightarrow> (string \<times> jsval) list \<Rightarrow> (string \<times> jsval) list \<times> nat \<Rightarrow> (string \<times> jsval) list \<times> nat"
where
  "merge_entries e [] acc = acc"
| "merge_entries e ((k, v) # toMerge) acc = merge_entries e toMerge (merge_entry e k v acc)"

fun merge_args ::
  "env \<Rightarrow> props list \<Rightarrow> (string \<times> jsval) list \<times> nat \<Rightarrow> (string \<times> jsval) list \<times> nat"
where
  "merge_args e [] acc = acc"
| "merge_args e (a # as) acc = merge_args e as (merge_entries e (entries a) acc)"

definition mergeProps :: "env \<Rightarrow> props list \<Rightarrow> nat \<Rightarrow> props \<times> nat" where
  "mergeProps e args n =
     (let (ret, n') = merge_args e args ([], n)
      in (\<lparr> guarded = False, entries = ret, readonly = [] \<rparr>, n'))"

text \<open>
  \<^verbatim>\<open>normalizeChildren\<close>. The properties of an object that the function reads: on a
  vnode, a ref or another object that is not a slots object, \<^verbatim>\<open>default\<close> and \<^verbatim>\<open>_\<close> are
  \<^verbatim>\<open>undefined\<close>, and the write to \<^verbatim>\<open>_ctx\<close> is to a property the model does not keep.
  \<open>assign_ctx\<close> and \<open>assign_flag\<close> are the assignments \<^verbatim>\<open>children._ctx = c\<close> and
  \<^verbatim>\<open>children._ = f\<close>, which raise \<^verbatim>\<open>TypeError\<close> on an object that does not accept them.
\<close>

fun obj_default :: "jsval \<Rightarrow> jsval" where
  "obj_default (JSlots _ d _ _ _) = d"
| "obj_default _ = JUndefined"

fun obj_flag :: "jsval \<Rightarrow> jsval" where
  "obj_flag (JSlots _ _ f _ _) = f"
| "obj_flag _ = JUndefined"

fun isInternalObject :: "jsval \<Rightarrow> bool" where
  "isInternalObject (JSlots _ _ _ _ b) = b"
| "isInternalObject _ = False"

fun set_ctx :: "nat option \<Rightarrow> jsval \<Rightarrow> jsval" where
  "set_ctx c (JSlots i d f _ b) = JSlots i d f c b"
| "set_ctx c v = v"

fun set_flag :: "jsval \<Rightarrow> jsval \<Rightarrow> jsval" where
  "set_flag f (JSlots i d _ c b) = JSlots i d f c b"
| "set_flag f v = v"

definition assign_ctx :: "env \<Rightarrow> nat option \<Rightarrow> jsval \<Rightarrow> error + jsval" where
  "assign_ctx e c v = (if can_assign e v ''_ctx'' then Inr (set_ctx c v) else Inl TypeError)"

definition assign_flag :: "env \<Rightarrow> jsval \<Rightarrow> jsval \<Rightarrow> error + jsval" where
  "assign_flag e f v = (if can_assign e v ''_'' then Inr (set_flag f v) else Inl TypeError)"

text \<open>The last two statements: \<^verbatim>\<open>vnode.children = children; vnode.shapeFlag |= type\<close>.\<close>

definition store_children :: "nat \<Rightarrow> jsval \<Rightarrow> int \<Rightarrow> vstate \<Rightarrow> vstate" where
  "store_children a ch ty s =
     update_vnode a (\<lambda>v. v\<lparr> children := ch, shapeFlag := shapeFlag v OR ty \<rparr>) s"

text \<open>
  The body of \<^verbatim>\<open>normalizeChildren(vnode, children)\<close>, for the vnode at address \<open>a\<close>.
  \<open>rec\<close> is the outcome of the recursive call \<^verbatim>\<open>normalizeChildren(vnode, slot())\<close>, and
  \<open>mk\<close> is \<^verbatim>\<open>createTextVNode\<close> with its second argument left out. A call of
  \<^verbatim>\<open>slot()\<close> where \<^verbatim>\<open>slot\<close> is not a function raises \<^verbatim>\<open>TypeError\<close>. The call of a
  function gives the value that the function carries and does nothing else. The
  marker \<^verbatim>\<open>slot._d\<close>, cleared before the call and set after it, is not kept.
\<close>

definition normalizeChildren_body ::
  "(error + vstate) \<Rightarrow> (string \<Rightarrow> vstate \<Rightarrow> error + nat \<times> vstate) \<Rightarrow> env \<Rightarrow> nat \<Rightarrow> jsval
     \<Rightarrow> vstate \<Rightarrow> error + vstate"
where
  "normalizeChildren_body rec mk e a ch s =
     (let sf = shapeFlag (vnodes s ! a); cri = currentRenderingInstance s in
      if nullish ch then Inr (store_children a JNull 0 s)
      else if isArray ch then Inr (store_children a ch (ARRAY_CHILDREN (ShapeFlags e)) s)
      else if typeof_object ch then
        (if sf AND (ELEMENT (ShapeFlags e) OR TELEPORT (ShapeFlags e)) \<noteq> 0 then
           (let slot = obj_default ch in
            if truthy slot then (if isFunction slot then rec else Inl TypeError)
            else Inr s)
         else
           (let ty = SLOTS_CHILDREN (ShapeFlags e); slotFlag = obj_flag ch in
            if \<not> truthy slotFlag \<and> \<not> isInternalObject ch
            then (case assign_ctx e cri ch of
                    Inl err \<Rightarrow> Inl err
                  | Inr ch' \<Rightarrow> Inr (store_children a ch' ty s))
            else if strict_eq slotFlag (JNum (FORWARDED (SlotFlags e))) \<and> cri \<noteq> None
            then (if strict_eq (case cri of Some i \<Rightarrow> instance_slots_flag e i | None \<Rightarrow> JUndefined)
                       (JNum (STABLE (SlotFlags e)))
                  then (case assign_flag e (JNum (STABLE (SlotFlags e))) ch of
                          Inl err \<Rightarrow> Inl err
                        | Inr ch' \<Rightarrow> Inr (store_children a ch' ty s))
                  else (case assign_flag e (JNum (DYNAMIC (SlotFlags e))) ch of
                          Inl err \<Rightarrow> Inl err
                        | Inr ch' \<Rightarrow>
                            Inr (store_children a ch' ty
                                   (update_vnode a
                                      (\<lambda>v. v\<lparr> patchFlag := patchFlag v OR DYNAMIC_SLOTS (PatchFlags e) \<rparr>)
                                      s))))
            else Inr (store_children a ch ty s)))
      else if isFunction ch then
        Inr (store_children a (JSlots (nextId s) ch JUndefined cri False)
               (SLOTS_CHILDREN (ShapeFlags e)) (s\<lparr> nextId := Suc (nextId s) \<rparr>))
      else
        (let text = String_js e ch in
         if sf AND TELEPORT (ShapeFlags e) \<noteq> 0 then
           (case mk text s of
              Inl err \<Rightarrow> Inl err
            | Inr (t, s') \<Rightarrow>
                Inr (store_children a (JArr (nextId s') [JVNode t]) (ARRAY_CHILDREN (ShapeFlags e))
                       (s'\<lparr> nextId := Suc (nextId s') \<rparr>)))
         else Inr (store_children a (JStr text) (TEXT_CHILDREN (ShapeFlags e)) s)))"

text \<open>
  The recursion of \<^verbatim>\<open>normalizeChildren\<close> is on the value that the default slot
  returns: the first equation is the only case in which the body reaches the
  recursive call.
\<close>

fun normalizeChildren_with ::
  "(string \<Rightarrow> vstate \<Rightarrow> error + nat \<times> vstate) \<Rightarrow> env \<Rightarrow> nat \<Rightarrow> jsval \<Rightarrow> vstate \<Rightarrow> error + vstate"
where
  "normalizeChildren_with mk e a (JSlots i (JFun j c r) f cx b) s =
     normalizeChildren_body (normalizeChildren_with mk e a r s) mk e a
       (JSlots i (JFun j c r) f cx b) s"
| "normalizeChildren_with mk e a ch s = normalizeChildren_body (Inl TypeError) mk e a ch s"

text \<open>
  The check that appends a new vnode to the current block; \<open>sf\<close> is the parameter
  \<^verbatim>\<open>shapeFlag\<close> of \<^verbatim>\<open>createBaseVNode\<close>.
\<close>

definition track_vnode :: "env \<Rightarrow> nat \<Rightarrow> int \<Rightarrow> bool \<Rightarrow> vstate \<Rightarrow> vstate" where
  "track_vnode e a sf isBlockNode s =
     (case currentBlock s of
        None \<Rightarrow> s
      | Some b \<Rightarrow>
          if isBlockTreeEnabled s > 0 \<and> \<not> isBlockNode
             \<and> (patchFlag (vnodes s ! a) > 0 \<or> sf AND COMPONENT (ShapeFlags e) \<noteq> 0)
             \<and> patchFlag (vnodes s ! a) \<noteq> NEED_HYDRATION (PatchFlags e)
          then push_block b a s
          else s)"

definition warn :: "string \<Rightarrow> vstate \<Rightarrow> vstate" where
  "warn msg s = s\<lparr> warnings := warnings s @ [msg] \<rparr>"

text \<open>
  \<^verbatim>\<open>createBaseVNode\<close>, relative to \<open>mk\<close> as above. The parameters \<open>ty\<close>, \<open>ps\<close>, \<open>ch\<close>,
  \<open>pf\<close>, \<open>dps\<close> and \<open>sf\<close> are \<^verbatim>\<open>type\<close>, \<^verbatim>\<open>props\<close>, \<^verbatim>\<open>children\<close>, \<^verbatim>\<open>patchFlag\<close>,
  \<^verbatim>\<open>dynamicProps\<close> and \<^verbatim>\<open>shapeFlag\<close>; \<open>sf\<close> is \<open>None\<close> when the caller leaves the
  argument out, and \<^verbatim>\<open>undefined\<close> children take the default \<^verbatim>\<open>null\<close>. The new vnode
  gets the next free address.
\<close>

definition new_vnode ::
  "env \<Rightarrow> vtype \<Rightarrow> props option \<Rightarrow> jsval \<Rightarrow> int \<Rightarrow> string list option \<Rightarrow> int \<Rightarrow> vstate \<Rightarrow> vnode"
where
  "new_vnode e ty ps ch pf dps sf s =
     \<lparr> type = ty, props = ps,
       key = (case ps of None \<Rightarrow> JNull | Some p \<Rightarrow> normalizeKey p),
       ref = (case ps of None \<Rightarrow> RNull | Some p \<Rightarrow> normalizeRef e p (currentRenderingInstance s)),
       scopeId = currentScopeId s, slotScopeIds = None, children = ch,
       component = None, suspense = None, ssContent = None, ssFallback = None,
       dirs = None, transition = None, el = None, anchor = None, target = None,
       targetStart = None, targetAnchor = None, staticCount = 0,
       shapeFlag = sf, patchFlag = pf, dynamicProps = dps, dynamicChildren = DynNull,
       appContext = None, ctx = currentRenderingInstance s, ce = None \<rparr>"

text \<open>In a development build a key that is not equal to itself (\<open>NaN\<close>) is reported.\<close>

definition validate_key :: "env \<Rightarrow> nat \<Rightarrow> vstate \<Rightarrow> vstate" where
  "validate_key e a s =
     (if DEV e \<and> \<not> strict_eq (key (vnodes s ! a)) (key (vnodes s ! a))
      then warn ''VNode created with invalid key (NaN).'' s else s)"

definition compat_hooks :: "env \<Rightarrow> nat \<Rightarrow> vstate \<Rightarrow> vstate" where
  "compat_hooks e a s =
     (if COMPAT e then defineLegacyVNodeProperties e a (convertLegacyVModelProps e a s) else s)"

definition createBaseVNode_with ::
  "(string \<Rightarrow> vstate \<Rightarrow> error + nat \<times> vstate) \<Rightarrow> env \<Rightarrow> vtype \<Rightarrow> props option \<Rightarrow> jsval \<Rightarrow> int
     \<Rightarrow> string list option \<Rightarrow> int option \<Rightarrow> bool \<Rightarrow> bool \<Rightarrow> vstate \<Rightarrow> error + nat \<times> vstate"
where
  "createBaseVNode_with mk e ty ps ch0 pf dps sf0 isBlockNode needFullChildrenNormalization s =
     (let ch = (if ch0 = JUndefined then JNull else ch0);
          sf = (case sf0 of
                  None \<Rightarrow> if ty = TSymbol Fragment then 0 else ELEMENT (ShapeFlags e)
                | Some f \<Rightarrow> f);
          a = length (vnodes s);
          s1 = s\<lparr> vnodes := vnodes s @ [new_vnode e ty ps ch pf dps sf s] \<rparr>
      in case (if needFullChildrenNormalization then
                 (case normalizeChildren_with mk e a ch s1 of
                    Inl err \<Rightarrow> Inl err
                  | Inr s2 \<Rightarrow>
                      Inr (if FEATURE_SUSPENSE e \<and> sf AND SUSPENSE (ShapeFlags e) \<noteq> 0
                           then Suspense_normalize e a s2 else s2))
               else if truthy ch then
                 Inr (update_vnode a (\<lambda>v. v\<lparr> shapeFlag := shapeFlag v OR
                        (if isString ch then TEXT_CHILDREN (ShapeFlags e)
                         else ARRAY_CHILDREN (ShapeFlags e)) \<rparr>) s1)
               else Inr s1)
         of Inl err \<Rightarrow> Inl err
          | Inr s3 \<Rightarrow>
              Inr (a, compat_hooks e a (track_vnode e a sf isBlockNode (validate_key e a s3))))"

section \<open>Cloning vnodes\<close>

text \<open>\<^verbatim>\<open>ref.concat(x)\<close> on an array of refs: an argument that is an array is spread.\<close>

fun ref_concat :: "vref list \<Rightarrow> vref \<Rightarrow> vref list" where
  "ref_concat rs (RArr ys) = rs @ ys"
| "ref_concat rs (RRaw (JArr i xs)) = rs @ map RRaw xs"
| "ref_concat rs r = rs @ [r]"

definition empty_props :: props where
  "empty_props = \<lparr> guarded = False, entries = [], readonly = [] \<rparr>"

text \<open>
  The body of \<^verbatim>\<open>cloneVNode(vnode, extraProps, mergeRef, cloneTransition)\<close> for the vnode
  at address \<open>v\<close>. \<open>clone_rec\<close> is the recursive call \<^verbatim>\<open>cloneVNode(x)\<close> on
  \<^verbatim>\<open>ssContent\<close> and \<^verbatim>\<open>ssFallback\<close>, and \<open>deep_rec\<close> is \<^verbatim>\<open>children.map(deepCloneVNode)\<close>
  on the elements of the children array. The properties of the object literal are
  evaluated in the order of the source, and the clone gets its address once they
  all have their values. \<open>clone_props\<close>, \<open>clone_ref\<close> and \<open>clone_patchFlag\<close> are the
  expressions for \<^verbatim>\<open>mergedProps\<close> (with the identity for the next array), \<^verbatim>\<open>ref\<close> and
  \<^verbatim>\<open>patchFlag\<close>, \<open>clone_children\<close> the one for \<^verbatim>\<open>children\<close>, \<open>clone_ss\<close> the one for
  \<^verbatim>\<open>ssContent\<close> and for \<^verbatim>\<open>ssFallback\<close>; \<open>clone_hooks\<close> is the two statements after the
  literal.
\<close>

definition clone_props :: "env \<Rightarrow> vnode \<Rightarrow> props option \<Rightarrow> nat \<Rightarrow> props option \<times> nat" where
  "clone_props e vn extraProps n =
     (case extraProps of
        Some x \<Rightarrow>
          (let m = mergeProps e [(case props vn of None \<Rightarrow> empty_props | Some p \<Rightarrow> p), x] n
           in (Some (fst m), snd m))
      | None \<Rightarrow> (props vn, n))"

text \<open>
  The stored ref as \<^verbatim>\<open>mergeRef && ref\<close> reads it: \<^verbatim>\<open>null\<close> is falsy, an atom and an
  array are truthy, and a value that was stored as it was passed has its own
  truthiness.
\<close>

fun truthy_ref :: "vref \<Rightarrow> bool" where
  "truthy_ref RNull = False"
| "truthy_ref (RRaw v) = truthy v"
| "truthy_ref _ = True"

definition clone_ref :: "env \<Rightarrow> vnode \<Rightarrow> props option \<Rightarrow> bool \<Rightarrow> nat option \<Rightarrow> vref" where
  "clone_ref e vn extraProps mergeRef cri =
     (case extraProps of
        None \<Rightarrow> ref vn
      | Some x \<Rightarrow>
          if truthy (get_prop x ''ref'') then
            (if mergeRef \<and> truthy_ref (ref vn) then
               (case ref vn of
                  RArr rs \<Rightarrow> RArr (ref_concat rs (normalizeRef e x cri))
                | RRaw (JArr i xs) \<Rightarrow> RArr (ref_concat (map RRaw xs) (normalizeRef e x cri))
                | r \<Rightarrow> RArr [r, normalizeRef e x cri])
             else normalizeRef e x cri)
          else ref vn)"

definition clone_patchFlag :: "env \<Rightarrow> vnode \<Rightarrow> props option \<Rightarrow> int" where
  "clone_patchFlag e vn extraProps =
     (if extraProps \<noteq> None \<and> type vn \<noteq> TSymbol Fragment
      then (if patchFlag vn = CACHED (PatchFlags e) then FULL_PROPS (PatchFlags e)
            else patchFlag vn OR FULL_PROPS (PatchFlags e))
      else patchFlag vn)"

definition clone_hooks :: "env \<Rightarrow> nat \<Rightarrow> nat option \<Rightarrow> bool \<Rightarrow> vstate \<Rightarrow> vstate" where
  "clone_hooks e a tr cloneTransition s =
     (let s1 = (case tr of
                  Some h \<Rightarrow> if cloneTransition
                            then setTransitionHooks e a (transition_clone e h a) s else s
                | None \<Rightarrow> s)
      in if COMPAT e then defineLegacyVNodeProperties e a s1 else s1)"

definition clone_children ::
  "(jsval list \<Rightarrow> vstate \<Rightarrow> error + jsval list \<times> vstate) \<Rightarrow> env \<Rightarrow> vnode \<Rightarrow> vstate
     \<Rightarrow> error + jsval \<times> vstate"
where
  "clone_children deep_rec e vn s =
     (if DEV e \<and> patchFlag vn = CACHED (PatchFlags e) \<and> isArray (children vn)
      then (case deep_rec (concat_elems (children vn)) s of
              Inl err \<Rightarrow> Inl err
            | Inr (ys, s2) \<Rightarrow> Inr (JArr (nextId s2) ys, s2\<lparr> nextId := Suc (nextId s2) \<rparr>))
      else Inr (children vn, s))"

definition clone_ss ::
  "(nat \<Rightarrow> vstate \<Rightarrow> error + nat \<times> vstate) \<Rightarrow> nat option \<Rightarrow> vstate \<Rightarrow> error + nat option \<times> vstate"
where
  "clone_ss clone_rec ss s =
     (case ss of
        None \<Rightarrow> Inr (None, s)
      | Some c \<Rightarrow> (case clone_rec c s of Inl err \<Rightarrow> Inl err | Inr (c', s') \<Rightarrow> Inr (Some c', s')))"

definition cloneVNode_body ::
  "(nat \<Rightarrow> vstate \<Rightarrow> error + nat \<times> vstate) \<Rightarrow> (jsval list \<Rightarrow> vstate \<Rightarrow> error + jsval list \<times> vstate)
     \<Rightarrow> env \<Rightarrow> nat \<Rightarrow> props option \<Rightarrow> bool \<Rightarrow> bool \<Rightarrow> vstate \<Rightarrow> error + nat \<times> vstate"
where
  "cloneVNode_body clone_rec deep_rec e v extraProps mergeRef cloneTransition s =
     (let vn = vnodes s ! v;
          merged = clone_props e vn extraProps (nextId s);
          mergedProps = fst merged;
          s1 = s\<lparr> nextId := snd merged \<rparr>;
          newKey = (case mergedProps of None \<Rightarrow> JNull | Some m \<Rightarrow> normalizeKey m);
          newRef = clone_ref e vn extraProps mergeRef (currentRenderingInstance s)
      in case clone_children deep_rec e vn s1 of
           Inl err \<Rightarrow> Inl err
         | Inr (newChildren, s3) \<Rightarrow>
        (case clone_ss clone_rec (ssContent vn) s3 of
           Inl err \<Rightarrow> Inl err
         | Inr (newContent, s4) \<Rightarrow>
        (case clone_ss clone_rec (ssFallback vn) s4 of
           Inl err \<Rightarrow> Inl err
         | Inr (newFallback, s5) \<Rightarrow>
        (let cloned = vn\<lparr> props := mergedProps, key := newKey, ref := newRef,
                          children := newChildren,
                          patchFlag := clone_patchFlag e vn extraProps,
                          ssContent := newContent, ssFallback := newFallback \<rparr>;
             a = length (vnodes s5)
         in Inr (a, clone_hooks e a (transition vn) cloneTransition
                      (s5\<lparr> vnodes := vnodes s5 @ [cloned] \<rparr>))))))"

text \<open>\<^verbatim>\<open>deepCloneVNode\<close>, relative to the same two recursive calls.\<close>

definition deepCloneVNode_body ::
  "(nat \<Rightarrow> vstate \<Rightarrow> error + nat \<times> vstate) \<Rightarrow> (jsval list \<Rightarrow> vstate \<Rightarrow> error + jsval list \<times> vstate)
     \<Rightarrow> nat \<Rightarrow> vstate \<Rightarrow> error + nat \<times> vstate"
where
  "deepCloneVNode_body clone_rec deep_rec v s =
     (case clone_rec v s of
        Inl err \<Rightarrow> Inl err
      | Inr (c, s1) \<Rightarrow>
          if isArray (children (vnodes s1 ! v)) then
            (case deep_rec (concat_elems (children (vnodes s1 ! v))) s1 of
               Inl err \<Rightarrow> Inl err
             | Inr (ys, s2) \<Rightarrow>
                 Inr (c, update_vnode c (\<lambda>x. x\<lparr> children := JArr (nextId s2) ys \<rparr>)
                           (s2\<lparr> nextId := Suc (nextId s2) \<rparr>)))
          else Inr (c, s1))"

text \<open>
  \<^verbatim>\<open>children.map(deepCloneVNode)\<close> applies \<^verbatim>\<open>deepCloneVNode\<close>, and with it
  \<^verbatim>\<open>cloneVNode\<close>, to every element of the children array, and the array of a vnode
  may hold values that are not vnodes. \<open>cloneVNode_value\<close> is \<^verbatim>\<open>cloneVNode(x)\<close> for such
  a value: the destructuring of \<^verbatim>\<open>null\<close> or \<^verbatim>\<open>undefined\<close> raises \<^verbatim>\<open>TypeError\<close>, and
  from any other value the function reads \<^verbatim>\<open>undefined\<close> for \<^verbatim>\<open>props\<close>, \<^verbatim>\<open>children\<close>,
  \<^verbatim>\<open>ssContent\<close>, \<^verbatim>\<open>ssFallback\<close> and \<^verbatim>\<open>transition\<close>, so that it makes no nested call
  and returns the new object \<open>JClone\<close>. (The properties that the compat build
  defines on that object are not kept.) Its \<^verbatim>\<open>children\<close> are not an array, so
  \<^verbatim>\<open>deepCloneVNode\<close> returns it as it is.
\<close>

definition cloneVNode_value :: "jsval \<Rightarrow> vstate \<Rightarrow> error + jsval \<times> vstate" where
  "cloneVNode_value x s =
     (if nullish x then Inl TypeError
      else Inr (JClone (nextId s), s\<lparr> nextId := Suc (nextId s) \<rparr>))"

text \<open>
  \<^verbatim>\<open>cloneVNode\<close> and \<^verbatim>\<open>deepCloneVNode\<close> follow references between vnodes, so the depth
  of their recursion is not bounded by their arguments. The first argument is the
  number of nested calls that the call stack still has room for: at \<open>0\<close> the
  engine raises \<^verbatim>\<open>RangeError\<close>. \<open>deepCloneVNode_n\<close> is \<^verbatim>\<open>deepCloneVNode\<close> on an element
  of a children array, and \<open>deepClone_list\<close> is \<^verbatim>\<open>children.map(deepCloneVNode)\<close>.
\<close>

fun cloneVNode_n ::
  "nat \<Rightarrow> env \<Rightarrow> nat \<Rightarrow> props option \<Rightarrow> bool \<Rightarrow> bool \<Rightarrow> vstate \<Rightarrow> error + nat \<times> vstate"
and deepCloneVNode_n :: "nat \<Rightarrow> env \<Rightarrow> jsval \<Rightarrow> vstate \<Rightarrow> error + jsval \<times> vstate"
and deepClone_list :: "nat \<Rightarrow> env \<Rightarrow> jsval list \<Rightarrow> vstate \<Rightarrow> error + jsval list \<times> vstate"
where
  "cloneVNode_n 0 e v extraProps mergeRef cloneTransition s = Inl RangeError"
| "cloneVNode_n (Suc n) e v extraProps mergeRef cloneTransition s =
     cloneVNode_body (\<lambda>x. cloneVNode_n n e x None False False) (deepClone_list n e)
       e v extraProps mergeRef cloneTransition s"
| "deepCloneVNode_n 0 e x s = Inl RangeError"
| "deepCloneVNode_n (Suc n) e x s =
     (case x of
        JVNode v \<Rightarrow>
          (case deepCloneVNode_body (\<lambda>x. cloneVNode_n n e x None False False)
                  (deepClone_list n e) v s of
             Inl err \<Rightarrow> Inl err
           | Inr (c, s') \<Rightarrow> Inr (JVNode c, s'))
      | _ \<Rightarrow> if n = 0 then Inl RangeError else cloneVNode_value x s)"
| "deepClone_list n e [] s = Inr ([], s)"
| "deepClone_list n e (x # xs) s =
     (case deepCloneVNode_n n e x s of
        Inl err \<Rightarrow> Inl err
      | Inr (y, s') \<Rightarrow>
          (case deepClone_list n e xs s' of
             Inl err \<Rightarrow> Inl err
           | Inr (ys, s'') \<Rightarrow> Inr (y # ys, s'')))"

definition cloneVNode ::
  "env \<Rightarrow> nat \<Rightarrow> props option \<Rightarrow> bool \<Rightarrow> bool \<Rightarrow> vstate \<Rightarrow> error + nat \<times> vstate"
where
  "cloneVNode e v extraProps mergeRef cloneTransition s =
     cloneVNode_n (callStackLimit e) e v extraProps mergeRef cloneTransition s"

text \<open>
  \<^verbatim>\<open>isVNode(value)\<close>, which is \<^verbatim>\<open>value ? value.__v_isVNode === true : false\<close>, and the
  property \<^verbatim>\<open>key\<close> of a value: reading a property of \<^verbatim>\<open>null\<close> or \<^verbatim>\<open>undefined\<close> raises
  \<^verbatim>\<open>TypeError\<close>, and no value of the model other than a vnode has a property \<^verbatim>\<open>key\<close>.
\<close>

fun isVNode :: "jsval \<Rightarrow> bool" where
  "isVNode (JVNode _) = True"
| "isVNode (JClone _) = True"
| "isVNode _ = False"

definition key_of :: "vstate \<Rightarrow> jsval \<Rightarrow> error + jsval" where
  "key_of s x =
     (if nullish x then Inl TypeError
      else case x of JVNode a \<Rightarrow> Inr (key (vnodes s ! a)) | _ \<Rightarrow> Inr JUndefined)"

section \<open>\<^verbatim>\<open>createVNode\<close>\<close>

text \<open>The tests that \<^verbatim>\<open>_createVNode\<close> makes on its \<^verbatim>\<open>type\<close> argument.\<close>

fun isObject_type :: "vtype \<Rightarrow> bool" where
  "isObject_type TTeleport = True"
| "isObject_type TSuspense = True"
| "isObject_type (TComponent _ _) = True"
| "isObject_type (TVNode _) = True"
| "isObject_type _ = False"

fun isFunction_type :: "vtype \<Rightarrow> bool" where
  "isFunction_type (TFunctional _) = True"
| "isFunction_type (TClass _ _) = True"
| "isFunction_type _ = False"

fun isString_type :: "vtype \<Rightarrow> bool" where
  "isString_type (TTag _) = True"
| "isString_type _ = False"

fun isProxy_type :: "vtype \<Rightarrow> bool" where
  "isProxy_type (TComponent _ p) = p"
| "isProxy_type _ = False"

fun toRaw_type :: "vtype \<Rightarrow> vtype" where
  "toRaw_type (TComponent i p) = TComponent i False"
| "toRaw_type t = t"

text \<open>\<^verbatim>\<open>if (isClassComponent(type)) type = type.__vccOpts\<close>\<close>

fun class_component_opts :: "vtype \<Rightarrow> vtype" where
  "class_component_opts (TClass f opts) = TComponent opts False"
| "class_component_opts t = t"

text \<open>
  The assignment \<^verbatim>\<open>props[k] = v\<close>, which raises \<^verbatim>\<open>TypeError\<close> when the property is
  read-only.
\<close>

definition assign_prop :: "string \<Rightarrow> jsval \<Rightarrow> props \<Rightarrow> error + props" where
  "assign_prop k v p =
     (if k \<in> set (readonly p) then Inl TypeError
      else Inr (p\<lparr> entries := set_entry k v (entries p) \<rparr>))"

text \<open>
  The class and style normalization of \<^verbatim>\<open>_createVNode\<close>, on the props object that
  \<^verbatim>\<open>guardReactiveProps\<close> returned; \<open>prepare_props\<close> is the whole of \<^verbatim>\<open>if (props) { ... }\<close>.
\<close>

definition normalize_class_style :: "env \<Rightarrow> props \<Rightarrow> error + props" where
  "normalize_class_style e p =
     (let klass = get_prop p ''class'';
          style = get_prop p ''style''
      in case (if truthy klass \<and> \<not> isString klass
               then assign_prop ''class'' (normalizeClass e klass) p
               else Inr p) of
           Inl err \<Rightarrow> Inl err
         | Inr p1 \<Rightarrow>
             if isObject style
             then assign_prop ''style''
                    (normalizeStyle e (if isProxy e style \<and> \<not> isArray style
                                       then extend_plain e style else style))
                    p1
             else Inr p1)"

definition prepare_props :: "env \<Rightarrow> props option \<Rightarrow> error + props option" where
  "prepare_props e ps =
     (case guardReactiveProps ps of
        None \<Rightarrow> Inr None
      | Some p \<Rightarrow>
          (case normalize_class_style e p of
             Inl err \<Rightarrow> Inl err
           | Inr q \<Rightarrow> Inr (Some q)))"

text \<open>The encoding of the type in the \<^verbatim>\<open>shapeFlag\<close> bitmap.\<close>

definition type_shapeFlag :: "env \<Rightarrow> vtype \<Rightarrow> int" where
  "type_shapeFlag e ty =
     (if isString_type ty then ELEMENT (ShapeFlags e)
      else if FEATURE_SUSPENSE e \<and> ty = TSuspense then SUSPENSE (ShapeFlags e)
      else if ty = TTeleport then TELEPORT (ShapeFlags e)
      else if isObject_type ty then STATEFUL_COMPONENT (ShapeFlags e)
      else if isFunction_type ty then FUNCTIONAL_COMPONENT (ShapeFlags e)
      else 0)"

text \<open>
  \<^verbatim>\<open>currentBlock[currentBlock.indexOf(type)] = cloned\<close>: when the vnode is not in the
  array, \<^verbatim>\<open>indexOf\<close> is \<open>-1\<close> and the assignment sets the property \<^verbatim>\<open>"-1"\<close>, which is
  not an element of the array.
\<close>

fun replace_first :: "nat \<Rightarrow> nat \<Rightarrow> nat list \<Rightarrow> nat list" where
  "replace_first v c [] = []"
| "replace_first v c (x # xs) = (if x = v then c # xs else x # replace_first v c xs)"

definition replace_in_block :: "nat \<Rightarrow> nat \<Rightarrow> nat \<Rightarrow> vstate \<Rightarrow> vstate" where
  "replace_in_block b v c s =
     s\<lparr> arrays := (arrays s)[b := (arrays s ! b)\<lparr> items := replace_first v c (items (arrays s ! b)) \<rparr>] \<rparr>"

text \<open>The branch of \<^verbatim>\<open>_createVNode\<close> for a \<^verbatim>\<open>type\<close> that is a vnode already.\<close>

definition createVNode_from_vnode ::
  "(string \<Rightarrow> vstate \<Rightarrow> error + nat \<times> vstate) \<Rightarrow> env \<Rightarrow> nat \<Rightarrow> props option \<Rightarrow> jsval \<Rightarrow> bool
     \<Rightarrow> vstate \<Rightarrow> error + nat \<times> vstate"
where
  "createVNode_from_vnode mk e v ps ch isBlockNode s =
     (case cloneVNode e v ps True False s of
        Inl err \<Rightarrow> Inl err
      | Inr (cloned, s1) \<Rightarrow>
          (case (if truthy ch then normalizeChildren_with mk e cloned ch s1 else Inr s1) of
             Inl err \<Rightarrow> Inl err
           | Inr s2 \<Rightarrow>
               (let s3 = (case currentBlock s2 of
                            None \<Rightarrow> s2
                          | Some b \<Rightarrow>
                              if isBlockTreeEnabled s2 > 0 \<and> \<not> isBlockNode then
                                (if shapeFlag (vnodes s2 ! cloned) AND COMPONENT (ShapeFlags e) \<noteq> 0
                                 then replace_in_block b v cloned s2
                                 else push_block b cloned s2)
                              else s2)
                in Inr (cloned,
                        update_vnode cloned (\<lambda>x. x\<lparr> patchFlag := BAIL (PatchFlags e) \<rparr>) s3))))"

text \<open>
  \<^verbatim>\<open>_createVNode\<close>, relative to \<open>mk\<close>. \<^verbatim>\<open>createVNode\<close> is \<^verbatim>\<open>_createVNode\<close>: in a
  development build it passes its arguments through \<^verbatim>\<open>vnodeArgsTransformer\<close> first,
  which is \<^verbatim>\<open>undefined\<close> unless a test utility registers one with
  \<^verbatim>\<open>transformVNodeArgs\<close>; the model leaves it at \<^verbatim>\<open>undefined\<close>.
  \<open>coerce_type\<close> is the first statement, which replaces an invalid type with
  \<^verbatim>\<open>Comment\<close>; \<open>createVNode_prepare\<close> is what the function does between the test for
  a vnode and the call of \<^verbatim>\<open>createBaseVNode\<close>, and gives the type, the props, the
  shape flag and the state for that call.
\<close>

fun isVNode_type :: "vtype \<Rightarrow> nat option" where
  "isVNode_type (TVNode v) = Some v"
| "isVNode_type _ = None"

definition coerce_type :: "env \<Rightarrow> vtype \<Rightarrow> vstate \<Rightarrow> vtype \<times> vstate" where
  "coerce_type e ty s =
     (if falsy_type ty \<or> ty = TSymbol NULL_DYNAMIC_COMPONENT
      then (TSymbol Comment,
            if DEV e \<and> falsy_type ty
            then warn ''Invalid vnode type when creating vnode.'' s else s)
      else (ty, s))"

definition createVNode_prepare ::
  "env \<Rightarrow> vtype \<Rightarrow> props option \<Rightarrow> vstate \<Rightarrow> error + vtype \<times> props option \<times> int \<times> vstate"
where
  "createVNode_prepare e ty1 ps s =
     (let ty2 = class_component_opts ty1;
          ty3 = (if COMPAT e then convertLegacyComponent e ty2 (currentRenderingInstance s)
                 else ty2)
      in case prepare_props e ps of
           Inl err \<Rightarrow> Inl err
         | Inr ps1 \<Rightarrow>
             (let sf = type_shapeFlag e ty3;
                  proxied = (DEV e \<and> sf AND STATEFUL_COMPONENT (ShapeFlags e) \<noteq> 0
                             \<and> isProxy_type ty3)
              in Inr (if proxied then toRaw_type ty3 else ty3, ps1, sf,
                      if proxied
                      then warn ''Vue received a Component that was made a reactive object.'' s
                      else s)))"

definition createVNode_with ::
  "(string \<Rightarrow> vstate \<Rightarrow> error + nat \<times> vstate) \<Rightarrow> env \<Rightarrow> vtype \<Rightarrow> props option \<Rightarrow> jsval \<Rightarrow> int
     \<Rightarrow> string list option \<Rightarrow> bool \<Rightarrow> vstate \<Rightarrow> error + nat \<times> vstate"
where
  "createVNode_with mk e ty0 ps ch pf dps isBlockNode s0 =
     (let c = coerce_type e ty0 s0 in
      case isVNode_type (fst c) of
        Some v \<Rightarrow> createVNode_from_vnode mk e v ps ch isBlockNode (snd c)
      | None \<Rightarrow>
          (case createVNode_prepare e (fst c) ps (snd c) of
             Inl err \<Rightarrow> Inl err
           | Inr p \<Rightarrow>
               createBaseVNode_with mk e (fst p) (fst (snd p)) ch pf dps (Some (fst (snd (snd p))))
                 isBlockNode True (snd (snd (snd p)))))"

text \<open>
  \<^verbatim>\<open>createTextVNode(text, flag)\<close> is \<^verbatim>\<open>createVNode(Text, null, text, flag)\<close>. A vnode of
  type \<^verbatim>\<open>Text\<close> has the shape flag \<open>0\<close>, so the normalization of its children never
  makes a text vnode in turn: \<open>createTextVNode\<close> is \<open>createVNode_with\<close> at a \<open>mk\<close>
  that is not reached (\<open>no_text_vnode\<close>), and the other functions are their relative
  versions at \<open>createTextVNode\<close>. That \<open>createTextVNode\<close> is \<open>createVNode\<close> at those
  arguments is the lemma \<open>createTextVNode_createVNode\<close> below.
\<close>

definition no_text_vnode :: "string \<Rightarrow> vstate \<Rightarrow> error + nat \<times> vstate" where
  "no_text_vnode text s = Inl RangeError"

definition createTextVNode :: "env \<Rightarrow> string \<Rightarrow> int \<Rightarrow> vstate \<Rightarrow> error + nat \<times> vstate" where
  "createTextVNode e text flag s =
     createVNode_with no_text_vnode e (TSymbol Text) None (JStr text) flag None False s"

definition normalizeChildren :: "env \<Rightarrow> nat \<Rightarrow> jsval \<Rightarrow> vstate \<Rightarrow> error + vstate" where
  "normalizeChildren e a ch s = normalizeChildren_with (\<lambda>text. createTextVNode e text 0) e a ch s"

definition createBaseVNode ::
  "env \<Rightarrow> vtype \<Rightarrow> props option \<Rightarrow> jsval \<Rightarrow> int \<Rightarrow> string list option \<Rightarrow> int option \<Rightarrow> bool \<Rightarrow> bool
     \<Rightarrow> vstate \<Rightarrow> error + nat \<times> vstate"
where
  "createBaseVNode e ty ps ch pf dps sf isBlockNode needFullChildrenNormalization s =
     createBaseVNode_with (\<lambda>text. createTextVNode e text 0) e ty ps ch pf dps sf isBlockNode
       needFullChildrenNormalization s"

definition createVNode ::
  "env \<Rightarrow> vtype \<Rightarrow> props option \<Rightarrow> jsval \<Rightarrow> int \<Rightarrow> string list option \<Rightarrow> bool \<Rightarrow> vstate
     \<Rightarrow> error + nat \<times> vstate"
where
  "createVNode e ty ps ch pf dps isBlockNode s =
     createVNode_with (\<lambda>text. createTextVNode e text 0) e ty ps ch pf dps isBlockNode s"

text \<open>\<^verbatim>\<open>setupBlock\<close> on the vnode that a creation returned.\<close>

definition setupBlock_result :: "error + nat \<times> vstate \<Rightarrow> error + nat \<times> vstate" where
  "setupBlock_result r = (case r of Inl err \<Rightarrow> Inl err | Inr (a, s) \<Rightarrow> Inr (setupBlock a s))"

definition createElementBlock ::
  "env \<Rightarrow> vtype \<Rightarrow> props option \<Rightarrow> jsval \<Rightarrow> int \<Rightarrow> string list option \<Rightarrow> int option \<Rightarrow> vstate
     \<Rightarrow> error + nat \<times> vstate"
where
  "createElementBlock e ty ps ch pf dps sf s =
     setupBlock_result (createBaseVNode e ty ps ch pf dps sf True False s)"

definition createBlock ::
  "env \<Rightarrow> vtype \<Rightarrow> props option \<Rightarrow> jsval \<Rightarrow> int \<Rightarrow> string list option \<Rightarrow> vstate \<Rightarrow> error + nat \<times> vstate"
where
  "createBlock e ty ps ch pf dps s = setupBlock_result (createVNode e ty ps ch pf dps True s)"

definition createCommentVNode :: "env \<Rightarrow> string \<Rightarrow> bool \<Rightarrow> vstate \<Rightarrow> error + nat \<times> vstate" where
  "createCommentVNode e text asBlock s =
     (if asBlock
      then createBlock e (TSymbol Comment) None (JStr text) 0 None (openBlock False s)
      else createVNode e (TSymbol Comment) None (JStr text) 0 None False s)"

section \<open>\<^verbatim>\<open>isSameVNodeType\<close>\<close>

text \<open>
  \<^verbatim>\<open>hmrDirtyComponents\<close> is a map from component types to sets of instances. The
  function clears the keep-alive flags of both vnodes when it answers \<^verbatim>\<open>false\<close> for
  a hot-reloaded component, so it returns the state as well.
\<close>

definition hmr_dirty :: "vstate \<Rightarrow> vtype \<Rightarrow> nat \<Rightarrow> bool" where
  "hmr_dirty s ty c =
     (case map_of (hmrDirtyComponents s) ty of
        None \<Rightarrow> False
      | Some dirtyInstances \<Rightarrow> c \<in> set dirtyInstances)"

definition isSameVNodeType :: "env \<Rightarrow> nat \<Rightarrow> nat \<Rightarrow> vstate \<Rightarrow> bool \<times> vstate" where
  "isSameVNodeType e n1 n2 s =
     (let v1 = vnodes s ! n1; v2 = vnodes s ! n2 in
      if DEV e \<and> shapeFlag v2 AND COMPONENT (ShapeFlags e) \<noteq> 0
         \<and> (case component v1 of None \<Rightarrow> False | Some c \<Rightarrow> hmr_dirty s (type v2) c)
      then (False,
            update_vnode n2
              (\<lambda>v. v\<lparr> shapeFlag := shapeFlag v AND NOT (COMPONENT_KEPT_ALIVE (ShapeFlags e)) \<rparr>)
              (update_vnode n1
                 (\<lambda>v. v\<lparr> shapeFlag := shapeFlag v AND NOT (COMPONENT_SHOULD_KEEP_ALIVE (ShapeFlags e)) \<rparr>)
                 s))
      else (type v1 = type v2 \<and> strict_eq (key v1) (key v2), s))"

section \<open>Sequences of calls\<close>

text \<open>
  A render function is a sequence of calls into the module. \<open>run\<close> performs the calls
  that cannot raise: the block functions and \<^verbatim>\<open>createElementVNode\<close> (\<^verbatim>\<open>createBaseVNode\<close>
  as compiled templates call it, without the full normalization of children).
\<close>

datatype call =
    OpenBlock bool
  | CloseBlock
  | SetBlockTracking int
  | SetupBlock nat
  | CreateElementVNode vtype "props option" jsval int "string list option" "int option" bool

definition createElementVNode ::
  "env \<Rightarrow> vtype \<Rightarrow> props option \<Rightarrow> jsval \<Rightarrow> int \<Rightarrow> string list option \<Rightarrow> int option \<Rightarrow> bool
     \<Rightarrow> vstate \<Rightarrow> vstate"
where
  "createElementVNode e ty ps ch pf dps sf isBlockNode s =
     (case createBaseVNode e ty ps ch pf dps sf isBlockNode False s of
        Inl err \<Rightarrow> s
      | Inr (a, s') \<Rightarrow> s')"

fun call_step :: "env \<Rightarrow> call \<Rightarrow> vstate \<Rightarrow> vstate" where
  "call_step e (OpenBlock disableTracking) s = openBlock disableTracking s"
| "call_step e CloseBlock s = closeBlock s"
| "call_step e (SetBlockTracking v) s = setBlockTracking v s"
| "call_step e (SetupBlock a) s = snd (setupBlock a s)"
| "call_step e (CreateElementVNode ty ps ch pf dps sf isBlockNode) s =
     createElementVNode e ty ps ch pf dps sf isBlockNode s"

fun run :: "env \<Rightarrow> call list \<Rightarrow> vstate \<Rightarrow> vstate" where
  "run e [] s = s"
| "run e (c # cs) s = run e cs (call_step e c s)"

text \<open>
  \<open>nested d cs\<close>: in \<open>cs\<close> the calls \<^verbatim>\<open>setBlockTracking(-1)\<close> and \<^verbatim>\<open>setBlockTracking(1)\<close>
  are balanced, given that \<open>d\<close> calls with \<open>-1\<close> are still to be matched, and there
  is no other call of \<^verbatim>\<open>setBlockTracking\<close>.
\<close>

fun nested :: "nat \<Rightarrow> call list \<Rightarrow> bool" where
  "nested d [] = (d = 0)"
| "nested d (SetBlockTracking v # cs) =
     (if v = -1 then nested (Suc d) cs
      else if v = 1 then (case d of 0 \<Rightarrow> False | Suc d' \<Rightarrow> nested d' cs)
      else False)"
| "nested d (c # cs) = nested d cs"

text \<open>
  \<open>balanced d cs\<close>: in \<open>cs\<close> every block that is opened is closed (by \<^verbatim>\<open>closeBlock\<close> or
  by the \<^verbatim>\<open>setupBlock\<close> of \<^verbatim>\<open>createBlock\<close>) and no more blocks are closed than were
  opened, given that \<open>d\<close> blocks are open at the start.
\<close>

fun balanced :: "nat \<Rightarrow> call list \<Rightarrow> bool" where
  "balanced d [] = (d = 0)"
| "balanced d (OpenBlock b # cs) = balanced (Suc d) cs"
| "balanced d (CloseBlock # cs) = (case d of 0 \<Rightarrow> False | Suc d' \<Rightarrow> balanced d' cs)"
| "balanced d (SetupBlock a # cs) = (case d of 0 \<Rightarrow> False | Suc d' \<Rightarrow> balanced d' cs)"
| "balanced d (c # cs) = balanced d cs"

text \<open>
  \<^verbatim>\<open>currentBlock\<close> is the entry on top of \<^verbatim>\<open>blockStack\<close>, or \<^verbatim>\<open>null\<close> when the stack is
  empty. The module establishes this when it is loaded and every call keeps it.
\<close>

definition block_inv :: "vstate \<Rightarrow> bool" where
  "block_inv s = (currentBlock s = (if blockStack s = [] then None else last (blockStack s)))"

section \<open>An environment for examples\<close>

text \<open>
  The values that \<^verbatim>\<open>@vue/shared\<close> gives the flags, a development build without the
  compat layer, and simple stand-ins for the imported functions: the two normalizers
  and \<^verbatim>\<open>extend\<close> return their argument, nothing is a reactive proxy, every instance
  has stable slots, \<^verbatim>\<open>SuspenseImpl.normalize\<close> does nothing, \<^verbatim>\<open>setTransitionHooks\<close>
  stores the hooks on the vnode, an event key is \<^verbatim>\<open>on\<close> followed by a character
  that is not a lower-case letter, a number prints as its decimal digits, and
  every object accepts an assignment.
\<close>

definition vue_ShapeFlags :: shape_flags where
  "vue_ShapeFlags =
     \<lparr> ELEMENT = 1, FUNCTIONAL_COMPONENT = 2, STATEFUL_COMPONENT = 4, TEXT_CHILDREN = 8,
       ARRAY_CHILDREN = 16, SLOTS_CHILDREN = 32, TELEPORT = 64, SUSPENSE = 128,
       COMPONENT_SHOULD_KEEP_ALIVE = 256, COMPONENT_KEPT_ALIVE = 512, COMPONENT = 6 \<rparr>"

definition vue_PatchFlags :: patch_flags where
  "vue_PatchFlags =
     \<lparr> FULL_PROPS = 16, NEED_HYDRATION = 32, DYNAMIC_SLOTS = 1024, CACHED = -1, BAIL = -2 \<rparr>"

definition vue_SlotFlags :: slot_flags where
  "vue_SlotFlags = \<lparr> STABLE = 1, DYNAMIC = 2, FORWARDED = 3 \<rparr>"

definition on_key :: "string \<Rightarrow> bool" where
  "on_key k =
     (case k of
        a # b # c # _ \<Rightarrow> a = CHR ''o'' \<and> b = CHR ''n'' \<and> (of_char c > (122::nat) \<or> of_char c < (97::nat))
      | _ \<Rightarrow> False)"

definition vue_env :: env where
  "vue_env =
     \<lparr> DEV = True, COMPAT = False, FEATURE_SUSPENSE = True,
       ShapeFlags = vue_ShapeFlags, PatchFlags = vue_PatchFlags, SlotFlags = vue_SlotFlags,
       normalizeClass = (\<lambda>v. v), normalizeStyle = (\<lambda>v. v), isOn = on_key,
       isProxy = (\<lambda>v. False), extend_plain = (\<lambda>v. v),
       instance_slots_flag = (\<lambda>i. JNum 1),
       Suspense_normalize = (\<lambda>a s. s),
       convertLegacyComponent = (\<lambda>ty i. ty),
       convertLegacyVModelProps = (\<lambda>a s. s),
       defineLegacyVNodeProperties = (\<lambda>a s. s),
       setTransitionHooks = (\<lambda>a h. update_vnode a (\<lambda>v. v\<lparr> transition := Some h \<rparr>)),
       transition_clone = (\<lambda>h a. h),
       callStackLimit = 64,
       Number_toString = string_of_int,
       can_assign = (\<lambda>v k. True) \<rparr>"

text \<open>
  Two vnodes of the same component type and with the key \<^verbatim>\<open>null\<close>, the first of which
  has an instance that hot reload has marked dirty: they match in a production
  build and do not match in a development build.
\<close>

definition hmr_example :: vstate where
  "hmr_example =
     init_vstate\<lparr> vnodes :=
                    [(new_vnode vue_env (TComponent 1 False) None JNull 0 None 4 init_vstate)\<lparr> component := Some 5 \<rparr>,
                     new_vnode vue_env (TComponent 1 False) None JNull 0 None 4 init_vstate],
                  hmrDirtyComponents := [(TComponent 1 False, [5])] \<rparr>"

section \<open>What the imported functions may change\<close>

text \<open>
  \<open>ident_le s s'\<close>: every vnode of \<open>s\<close> is a vnode of \<open>s'\<close>, with the type and the key
  it had. \<open>hooks_keep_identity e\<close> says that the functions of the environment that
  work on the state leave the type and the key of the existing vnodes alone:
  \<^verbatim>\<open>SuspenseImpl.normalize\<close>, the two hooks of the compat build and
  \<^verbatim>\<open>setTransitionHooks\<close>.
\<close>

definition ident_le :: "vstate \<Rightarrow> vstate \<Rightarrow> bool" where
  "ident_le s s' =
     (\<forall>a < length (vnodes s).
        a < length (vnodes s')
        \<and> type (vnodes s' ! a) = type (vnodes s ! a)
        \<and> key (vnodes s' ! a) = key (vnodes s ! a))"

definition keeps_identity :: "(vstate \<Rightarrow> vstate) \<Rightarrow> bool" where
  "keeps_identity f = (\<forall>s. ident_le s (f s))"

definition hooks_keep_identity :: "env \<Rightarrow> bool" where
  "hooks_keep_identity e =
     (\<forall>a. keeps_identity (Suspense_normalize e a)
          \<and> keeps_identity (convertLegacyVModelProps e a)
          \<and> keeps_identity (defineLegacyVNodeProperties e a)
          \<and> (\<forall>h. keeps_identity (setTransitionHooks e a h)))"

text \<open>
  Two states for examples: the module state with one element vnode (\<^verbatim>\<open>div\<close>) and
  with one \<^verbatim>\<open>Teleport\<close> vnode, each without props and children.
\<close>

definition element_example :: vstate where
  "element_example =
     init_vstate\<lparr> vnodes := [new_vnode vue_env (TTag ''div'') None JNull 0 None 1 init_vstate] \<rparr>"

definition teleport_example :: vstate where
  "teleport_example =
     init_vstate\<lparr> vnodes := [new_vnode vue_env TTeleport None JNull 0 None 64 init_vstate] \<rparr>"

text \<open>
  \<open>same_blocks s s'\<close>: the two states have the same block arrays, the same block
  stack, the same current block and the same tracking counter.
\<close>

definition same_blocks :: "vstate \<Rightarrow> vstate \<Rightarrow> bool" where
  "same_blocks s s' =
     (arrays s' = arrays s \<and> blockStack s' = blockStack s \<and> currentBlock s' = currentBlock s
      \<and> isBlockTreeEnabled s' = isBlockTreeEnabled s)"

text \<open>
  The module state with the vnode that \<^verbatim>\<open>createVNode('div', null, ['s'], -1)\<close> creates:
  an element with the patch flag \<^verbatim>\<open>CACHED\<close> whose children are an array that holds a
  string.
\<close>

definition cached_example :: vstate where
  "cached_example =
     init_vstate\<lparr> vnodes := [new_vnode vue_env (TTag ''div'') None (JArr 0 [JStr ''s'']) (- 1) None 17
                               init_vstate],
                  nextId := 1 \<rparr>"

section \<open>The canonical form of children\<close>

text \<open>
  What the specification asks of vnode creation, with the treatment of objects that
  the code has: the children \<open>c\<close> and the shape flag \<open>f\<close> of the vnode at \<open>a\<close> among the
  vnodes \<open>vs\<close> after the creation, given the shape flag \<open>sf\<close> that encodes the type,
  the \<^verbatim>\<open>children\<close> argument \<open>ch\<close>, and, from the state before the creation, the identity
  \<open>n\<close> that the next new object gets and the current rendering instance \<open>cri\<close>.
  \<^item> \<^verbatim>\<open>null\<close> and \<^verbatim>\<open>undefined\<close> give \<^verbatim>\<open>null\<close> and no flag;
  \<^item> an array is kept, with \<^verbatim>\<open>ARRAY_CHILDREN\<close>;
  \<^item> an object on a vnode that is neither an element nor a \<^verbatim>\<open>Teleport\<close> is kept (the
    same object with the same default slot), with \<^verbatim>\<open>SLOTS_CHILDREN\<close>;
  \<^item> on an element or a \<^verbatim>\<open>Teleport\<close>, an object with a default slot stands for the
    value that the slot returns, and an object without one leaves the vnode with
    the children \<open>ch0\<close> that it was created with and with no flag;
  \<^item> a function gives a new slots object \<^verbatim>\<open>{ default: fn, _ctx }\<close> with
    \<^verbatim>\<open>SLOTS_CHILDREN\<close>;
  \<^item> any other value gives the string \<^verbatim>\<open>String(children)\<close> with \<^verbatim>\<open>TEXT_CHILDREN\<close>,
    except on a \<^verbatim>\<open>Teleport\<close>, where it gives an array that holds one new text vnode
    (created right after the vnode itself) with \<^verbatim>\<open>ARRAY_CHILDREN\<close>.
\<close>

definition canonical_flat ::
  "env \<Rightarrow> nat \<Rightarrow> nat option \<Rightarrow> int \<Rightarrow> jsval \<Rightarrow> jsval \<Rightarrow> nat \<Rightarrow> vnode list \<Rightarrow> bool"
where
  "canonical_flat e n cri sf ch0 ch a vs =
     (let c = children (vs ! a); f = shapeFlag (vs ! a) in
      if nullish ch then c = JNull \<and> f = sf
      else if isArray ch then c = ch \<and> f = sf OR ARRAY_CHILDREN (ShapeFlags e)
      else if typeof_object ch then
        (if sf AND (ELEMENT (ShapeFlags e) OR TELEPORT (ShapeFlags e)) \<noteq> 0
         then c = ch0 \<and> f = sf
         else strict_eq ch c \<and> obj_default c = obj_default ch
              \<and> f = sf OR SLOTS_CHILDREN (ShapeFlags e))
      else if isFunction ch then
        c = JSlots n ch JUndefined cri False \<and> f = sf OR SLOTS_CHILDREN (ShapeFlags e)
      else if sf AND TELEPORT (ShapeFlags e) \<noteq> 0 then
        c = JArr n [JVNode (Suc a)]
        \<and> Suc a < length vs
        \<and> type (vs ! Suc a) = TSymbol Text
        \<and> children (vs ! Suc a) = JStr (String_js e ch)
        \<and> f = sf OR ARRAY_CHILDREN (ShapeFlags e)
      else c = JStr (String_js e ch) \<and> f = sf OR TEXT_CHILDREN (ShapeFlags e))"

fun canonical_children ::
  "env \<Rightarrow> nat \<Rightarrow> nat option \<Rightarrow> int \<Rightarrow> jsval \<Rightarrow> jsval \<Rightarrow> nat \<Rightarrow> vnode list \<Rightarrow> bool"
where
  "canonical_children e n cri sf ch0 (JSlots i (JFun j c r) f cx b) a vs =
     (if sf AND (ELEMENT (ShapeFlags e) OR TELEPORT (ShapeFlags e)) \<noteq> 0
      then canonical_children e n cri sf ch0 r a vs
      else canonical_flat e n cri sf ch0 (JSlots i (JFun j c r) f cx b) a vs)"
| "canonical_children e n cri sf ch0 ch a vs = canonical_flat e n cri sf ch0 ch a vs"

section \<open>\<^verbatim>\<open>patchProp\<close> of the DOM runtime\<close>

text \<open>
  \<^verbatim>\<open>patchProp\<close> chooses, for one prop of an element, the module function that changes
  the host element: \<^verbatim>\<open>patchClass\<close>, \<^verbatim>\<open>patchStyle\<close>, \<^verbatim>\<open>patchEvent\<close>, \<^verbatim>\<open>patchDOMProp\<close> or
  \<^verbatim>\<open>patchAttr\<close>. These functions are in other modules; the model of \<^verbatim>\<open>patchProp\<close>
  returns the calls it makes, in order, with their arguments (the element and the
  parent component, which are passed on unchanged, are left out). The two
  assignments to \<^verbatim>\<open>el._trueValue\<close> and \<^verbatim>\<open>el._falseValue\<close> are calls in this sense.
  The last argument of \<^verbatim>\<open>PatchDOMProp\<close> is the optional \<^verbatim>\<open>attrName\<close>, the last of
  \<^verbatim>\<open>PatchAttr\<close> the optional \<^verbatim>\<open>isBoolean\<close>.
\<close>

datatype host_call =
    PatchClass jsval bool
  | PatchStyle jsval jsval
  | PatchEvent string jsval jsval
  | PatchDOMProp string jsval "string option"
  | PatchAttr string jsval bool "bool option"
  | SetTrueValue jsval
  | SetFalseValue jsval

text \<open>
  What \<^verbatim>\<open>patchProp\<close> reads of the element: its \<^verbatim>\<open>tagName\<close>, whether it is a Vue custom
  element (\<^verbatim>\<open>_isVueCE\<close>), and the names \<open>k\<close> for which \<^verbatim>\<open>k in el\<close> holds.
\<close>

record element =
  tagName :: string
  isVueCE :: bool
  properties :: "string list"

datatype namespace = SVG | MathML | NoNamespace

text \<open>\<^verbatim>\<open>isOn\<close>, \<^verbatim>\<open>isModelListener\<close> and \<^verbatim>\<open>camelize\<close> of \<^verbatim>\<open>@vue/shared\<close> are parameters.\<close>

record shared =
  sh_isOn :: "string \<Rightarrow> bool"
  sh_isModelListener :: "string \<Rightarrow> bool"
  sh_camelize :: "string \<Rightarrow> string"

text \<open>
  \<^verbatim>\<open>key.charCodeAt(i)\<close> is \<open>NaN\<close> beyond the end of the string, and every comparison
  with \<open>NaN\<close> is false.
\<close>

definition isNativeOn :: "string \<Rightarrow> bool" where
  "isNativeOn k =
     (case k of
        a # b # c # _ \<Rightarrow>
          of_char a = (111::nat) \<and> of_char b = (110::nat)
          \<and> of_char c > (96::nat) \<and> of_char c < (123::nat)
      | _ \<Rightarrow> False)"

definition shouldSetAsProp :: "element \<Rightarrow> string \<Rightarrow> jsval \<Rightarrow> bool \<Rightarrow> bool" where
  "shouldSetAsProp elm k v isSVG =
     (if isSVG then
        (if k = ''innerHTML'' \<or> k = ''textContent'' then True
         else if k \<in> set (properties elm) \<and> isNativeOn k \<and> isFunction v then True
         else False)
      else if k = ''spellcheck'' \<or> k = ''draggable'' \<or> k = ''translate'' then False
      else if k = ''form'' then False
      else if k = ''list'' \<and> tagName elm = ''INPUT'' then False
      else if k = ''type'' \<and> tagName elm = ''TEXTAREA'' then False
      else if (k = ''width'' \<or> k = ''height'')
              \<and> (tagName elm = ''IMG'' \<or> tagName elm = ''VIDEO'' \<or> tagName elm = ''CANVAS''
                  \<or> tagName elm = ''SOURCE'') then False
      else if isNativeOn k \<and> isString v then False
      else k \<in> set (properties elm))"

text \<open>
  The condition of the fourth branch of \<^verbatim>\<open>patchProp\<close>, which also strips a leading
  \<^verbatim>\<open>.\<close> or \<^verbatim>\<open>^\<close> from the key: the key after the test, and the outcome of the test.
\<close>

definition prop_or_attr :: "element \<Rightarrow> string \<Rightarrow> jsval \<Rightarrow> bool \<Rightarrow> string \<times> bool" where
  "prop_or_attr elm k v isSVG =
     (if k \<noteq> [] \<and> hd k = CHR ''.'' then (tl k, True)
      else if k \<noteq> [] \<and> hd k = CHR ''^'' then (tl k, False)
      else (k, shouldSetAsProp elm k v isSVG))"

text \<open>\<^verbatim>\<open>/[A-Z]/.test(key)\<close>\<close>

definition has_upper :: "string \<Rightarrow> bool" where
  "has_upper k = list_ex (\<lambda>c. (65::nat) \<le> of_char c \<and> of_char c \<le> (90::nat)) k"

definition patchProp ::
  "shared \<Rightarrow> element \<Rightarrow> string \<Rightarrow> jsval \<Rightarrow> jsval \<Rightarrow> namespace \<Rightarrow> host_call list"
where
  "patchProp sh elm k prevValue nextValue ns =
     (let isSVG = (ns = SVG) in
      if k = ''class'' then [PatchClass nextValue isSVG]
      else if k = ''style'' then [PatchStyle prevValue nextValue]
      else if sh_isOn sh k then
        (if \<not> sh_isModelListener sh k then [PatchEvent k prevValue nextValue] else [])
      else
        (let k' = fst (prop_or_attr elm k nextValue isSVG) in
         if snd (prop_or_attr elm k nextValue isSVG) then
           PatchDOMProp k' nextValue None #
           (if CHR ''-'' \<notin> set (tagName elm)
               \<and> (k' = ''value'' \<or> k' = ''checked'' \<or> k' = ''selected'')
            then [PatchAttr k' nextValue isSVG (Some (k' \<noteq> ''value''))]
            else [])
         else if isVueCE elm \<and> (has_upper k' \<or> \<not> isString nextValue) then
           [PatchDOMProp (sh_camelize sh k') nextValue (Some k')]
         else
           (if k' = ''true-value'' then [SetTrueValue nextValue]
            else if k' = ''false-value'' then [SetFalseValue nextValue]
            else [])
           @ [PatchAttr k' nextValue isSVG None]))"

text \<open>
  For examples: an event key is \<^verbatim>\<open>on\<close> followed by a character that is not a
  lower-case letter, a model listener starts with \<^verbatim>\<open>onUpdate:\<close>, and \<^verbatim>\<open>camelize\<close>
  leaves a key without hyphen as it is.
\<close>

definition vue_shared :: shared where
  "vue_shared =
     \<lparr> sh_isOn = on_key,
       sh_isModelListener = (\<lambda>k. take 9 k = ''onUpdate:''),
       sh_camelize = (\<lambda>k. k) \<rparr>"

section \<open>Properties of the block stack\<close>

lemma openBlock_fields [simp]:
  "isBlockTreeEnabled (openBlock b s) = isBlockTreeEnabled s"
  "vnodes (openBlock b s) = vnodes s"
  "blockStack (openBlock b s) = blockStack s @ [if b then None else Some (length (arrays s))]"
  "currentBlock (openBlock b s) = (if b then None else Some (length (arrays s)))"
  "arrays (openBlock b s) = (if b then arrays s else arrays s @ [\<lparr> items = [], hasOnce = False \<rparr>])"
  by (simp_all add: openBlock_def Let_def)

lemma closeBlock_fields [simp]:
  "isBlockTreeEnabled (closeBlock s) = isBlockTreeEnabled s"
  "vnodes (closeBlock s) = vnodes s"
  "arrays (closeBlock s) = arrays s"
  "blockStack (closeBlock s) = butlast (blockStack s)"
  "currentBlock (closeBlock s) =
     (if butlast (blockStack s) = [] then None else last (butlast (blockStack s)))"
  by (simp_all add: closeBlock_def Let_def)

lemma map_update_same: "(map f xs)[i := f (xs ! i)] = map f xs"
  by (induction xs arbitrary: i) (auto split: nat.splits)

lemma setBlockTracking_fields [simp]:
  "isBlockTreeEnabled (setBlockTracking v s) = isBlockTreeEnabled s + v"
  "vnodes (setBlockTracking v s) = vnodes s"
  "blockStack (setBlockTracking v s) = blockStack s"
  "currentBlock (setBlockTracking v s) = currentBlock s"
  "map items (arrays (setBlockTracking v s)) = map items (arrays s)"
  by (simp_all add: setBlockTracking_def Let_def map_update map_update_same split: option.splits)

lemma push_block_fields [simp]:
  "isBlockTreeEnabled (push_block b a s) = isBlockTreeEnabled s"
  "vnodes (push_block b a s) = vnodes s"
  "blockStack (push_block b a s) = blockStack s"
  "currentBlock (push_block b a s) = currentBlock s"
  "length (arrays (push_block b a s)) = length (arrays s)"
  by (simp_all add: push_block_def)

lemma update_vnode_fields [simp]:
  "isBlockTreeEnabled (update_vnode a f s) = isBlockTreeEnabled s"
  "arrays (update_vnode a f s) = arrays s"
  "blockStack (update_vnode a f s) = blockStack s"
  "currentBlock (update_vnode a f s) = currentBlock s"
  "length (vnodes (update_vnode a f s)) = length (vnodes s)"
  "nextId (update_vnode a f s) = nextId s"
  "currentRenderingInstance (update_vnode a f s) = currentRenderingInstance s"
  by (simp_all add: update_vnode_def)

lemma warn_fields [simp]:
  "isBlockTreeEnabled (warn m s) = isBlockTreeEnabled s"
  "arrays (warn m s) = arrays s"
  "vnodes (warn m s) = vnodes s"
  "blockStack (warn m s) = blockStack s"
  "currentBlock (warn m s) = currentBlock s"
  by (simp_all add: warn_def)

lemma setupBlock_fields [simp]:
  "fst (setupBlock a s) = a"
  "isBlockTreeEnabled (snd (setupBlock a s)) = isBlockTreeEnabled s"
  "blockStack (snd (setupBlock a s)) = butlast (blockStack s)"
  "currentBlock (snd (setupBlock a s)) =
     (if butlast (blockStack s) = [] then None else last (butlast (blockStack s)))"
  by (simp_all add: setupBlock_def Let_def split: option.splits)

lemma validate_key_fields [simp]:
  "isBlockTreeEnabled (validate_key e a s) = isBlockTreeEnabled s"
  "arrays (validate_key e a s) = arrays s"
  "vnodes (validate_key e a s) = vnodes s"
  "blockStack (validate_key e a s) = blockStack s"
  "currentBlock (validate_key e a s) = currentBlock s"
  by (simp_all add: validate_key_def)

lemma track_vnode_fields [simp]:
  "isBlockTreeEnabled (track_vnode e a sf ibn s) = isBlockTreeEnabled s"
  "vnodes (track_vnode e a sf ibn s) = vnodes s"
  "blockStack (track_vnode e a sf ibn s) = blockStack s"
  "currentBlock (track_vnode e a sf ibn s) = currentBlock s"
  "length (arrays (track_vnode e a sf ibn s)) = length (arrays s)"
  by (simp_all add: track_vnode_def split: option.splits)

lemma compat_hooks_off [simp]: "\<not> COMPAT e \<Longrightarrow> compat_hooks e a s = s"
  by (simp add: compat_hooks_def)

lemma createBaseVNode_compiled:
  "createBaseVNode e ty ps ch pf dps sf ibn False s =
     Inr (length (vnodes s),
          compat_hooks e (length (vnodes s))
            (track_vnode e (length (vnodes s))
               (case sf of None \<Rightarrow> if ty = TSymbol Fragment then 0 else ELEMENT (ShapeFlags e) | Some f \<Rightarrow> f)
               ibn
               (validate_key e (length (vnodes s))
                  (if truthy (if ch = JUndefined then JNull else ch)
                   then update_vnode (length (vnodes s))
                          (\<lambda>v. v\<lparr> shapeFlag := shapeFlag v OR
                             (if isString ch then TEXT_CHILDREN (ShapeFlags e)
                              else ARRAY_CHILDREN (ShapeFlags e)) \<rparr>)
                          (s\<lparr> vnodes := vnodes s @ [new_vnode e ty ps (if ch = JUndefined then JNull else ch) pf dps
                               (case sf of None \<Rightarrow> if ty = TSymbol Fragment then 0 else ELEMENT (ShapeFlags e) | Some f \<Rightarrow> f) s] \<rparr>)
                   else s\<lparr> vnodes := vnodes s @ [new_vnode e ty ps (if ch = JUndefined then JNull else ch) pf dps
                               (case sf of None \<Rightarrow> if ty = TSymbol Fragment then 0 else ELEMENT (ShapeFlags e) | Some f \<Rightarrow> f) s] \<rparr>))))"
  by (simp add: createBaseVNode_def createBaseVNode_with_def Let_def)

lemma createElementVNode_fields [simp]:
  "\<not> COMPAT e \<Longrightarrow> isBlockTreeEnabled (createElementVNode e ty ps ch pf dps sf ibn s) = isBlockTreeEnabled s"
  "\<not> COMPAT e \<Longrightarrow> blockStack (createElementVNode e ty ps ch pf dps sf ibn s) = blockStack s"
  "\<not> COMPAT e \<Longrightarrow> currentBlock (createElementVNode e ty ps ch pf dps sf ibn s) = currentBlock s"
  by (simp_all add: createElementVNode_def createBaseVNode_compiled)


lemma run_append: "run e (cs @ ds) s = run e ds (run e cs s)"
  by (induction cs arbitrary: s) auto

lemma call_step_counter:
  "\<not> COMPAT e \<Longrightarrow> isBlockTreeEnabled (call_step e c s) =
     isBlockTreeEnabled s + (case c of SetBlockTracking v \<Rightarrow> v | _ \<Rightarrow> 0)"
  by (cases c) simp_all

lemma nested_counter:
  "\<not> COMPAT e \<Longrightarrow> nested d cs \<Longrightarrow> isBlockTreeEnabled (run e cs s) = isBlockTreeEnabled s + int d"
proof (induction cs arbitrary: d s)
  case Nil
  then show ?case by simp
next
  case (Cons c cs)
  note IH = Cons.IH [OF Cons.prems(1)]
  show ?case
  proof (cases c)
    case (SetBlockTracking v)
    with Cons.prems have v: "v = -1 \<or> v = 1" by (auto split: if_splits)
    then show ?thesis
    proof
      assume v: "v = -1"
      with Cons.prems SetBlockTracking have "nested (Suc d) cs" by simp
      from IH [OF this] show ?thesis using SetBlockTracking v by simp
    next
      assume v: "v = 1"
      with Cons.prems SetBlockTracking obtain d' where d: "d = Suc d'" "nested d' cs"
        by (auto split: nat.splits)
      from IH [OF d(2)] show ?thesis using SetBlockTracking v d(1) by simp
    qed
  next
    case (OpenBlock b)
    with Cons.prems have "nested d cs" by simp
    from IH [OF this] show ?thesis using OpenBlock by simp
  next
    case CloseBlock
    with Cons.prems have "nested d cs" by simp
    from IH [OF this] show ?thesis using CloseBlock by simp
  next
    case (SetupBlock a)
    with Cons.prems have "nested d cs" by simp
    from IH [OF this] show ?thesis using SetupBlock by simp
  next
    case (CreateElementVNode ty ps ch pf dps sf ibn)
    with Cons.prems have "nested d cs" by simp
    from IH [OF this] show ?thesis using CreateElementVNode Cons.prems(1) by simp
  qed
qed


lemma block_inv_init: "block_inv init_vstate"
  by (simp add: block_inv_def init_vstate_def)

lemma block_inv_step: "\<not> COMPAT e \<Longrightarrow> block_inv s \<Longrightarrow> block_inv (call_step e c s)"
  by (cases c) (simp_all add: block_inv_def)

lemma block_inv_run: "\<not> COMPAT e \<Longrightarrow> block_inv s \<Longrightarrow> block_inv (run e cs s)"
  by (induction cs arbitrary: s) (simp_all add: block_inv_step)

lemma take_butlast_le: "n < length xs \<Longrightarrow> take n (butlast xs) = take n xs"
  by (simp add: butlast_conv_take)

lemma call_step_stack:
  "\<not> COMPAT e \<Longrightarrow> blockStack (call_step e c s) =
     (case c of OpenBlock b \<Rightarrow> blockStack s @ [if b then None else Some (length (arrays s))]
      | CloseBlock \<Rightarrow> butlast (blockStack s)
      | SetupBlock a \<Rightarrow> butlast (blockStack s)
      | _ \<Rightarrow> blockStack s)"
  by (cases c) simp_all

lemma balanced_stack:
  "\<not> COMPAT e \<Longrightarrow> balanced d cs \<Longrightarrow> d \<le> length (blockStack s) \<Longrightarrow>
     blockStack (run e cs s) = take (length (blockStack s) - d) (blockStack s)"
proof (induction cs arbitrary: d s)
  case Nil
  then show ?case by simp
next
  case (Cons c cs)
  note st = call_step_stack [OF Cons.prems(1), of c s]
  show ?case
  proof (cases c)
    case (OpenBlock b)
    with Cons.prems have b: "balanced (Suc d) cs" by simp
    have "Suc d \<le> length (blockStack (call_step e c s))"
      using st OpenBlock Cons.prems(3) by simp
    from Cons.IH [OF Cons.prems(1) b this] show ?thesis
      using st OpenBlock Cons.prems(3) by simp
  next
    case CloseBlock
    with Cons.prems obtain d' where d: "d = Suc d'" "balanced d' cs"
      by (auto split: nat.splits)
    have "d' \<le> length (blockStack (call_step e c s))"
      using st CloseBlock Cons.prems(3) d(1) by simp
    from Cons.IH [OF Cons.prems(1) d(2) this] show ?thesis
      using st CloseBlock Cons.prems(3) d(1) by (simp add: take_butlast_le)
  next
    case (SetupBlock a)
    with Cons.prems obtain d' where d: "d = Suc d'" "balanced d' cs"
      by (auto split: nat.splits)
    have "d' \<le> length (blockStack (call_step e c s))"
      using st SetupBlock Cons.prems(3) d(1) by simp
    from Cons.IH [OF Cons.prems(1) d(2) this] show ?thesis
      using st SetupBlock Cons.prems(3) d(1) by (simp add: take_butlast_le)
  next
    case (SetBlockTracking v)
    with Cons.prems have b: "balanced d cs" by simp
    have "d \<le> length (blockStack (call_step e c s))"
      using st SetBlockTracking Cons.prems(3) by simp
    from Cons.IH [OF Cons.prems(1) b this] show ?thesis
      using st SetBlockTracking by simp
  next
    case (CreateElementVNode ty ps ch pf dps sf ibn)
    with Cons.prems have b: "balanced d cs" by simp
    have "d \<le> length (blockStack (call_step e c s))"
      using st CreateElementVNode Cons.prems(3) by simp
    from Cons.IH [OF Cons.prems(1) b this] show ?thesis
      using st CreateElementVNode by simp
  qed
qed

lemma balanced_restores:
  assumes "\<not> COMPAT e" "balanced 0 cs" "block_inv s"
  shows "blockStack (run e cs s) = blockStack s" "currentBlock (run e cs s) = currentBlock s"
proof -
  show st: "blockStack (run e cs s) = blockStack s"
    using balanced_stack [OF assms(1,2), of s] by simp
  have "block_inv (run e cs s)" using assms by (simp add: block_inv_run)
  then show "currentBlock (run e cs s) = currentBlock s"
    using st assms(3) by (simp add: block_inv_def)
qed

lemma setupBlock_parent:
  assumes "isBlockTreeEnabled s > 0" "blockStack s = st @ [Some p, x]" "p < length (arrays s)"
  shows "items (arrays (snd (setupBlock a s)) ! p) = items (arrays s ! p) @ [a]"
  using assms by (simp add: setupBlock_def Let_def push_block_def butlast_append)

lemma setupBlock_snapshot:
  assumes "a < length (vnodes s)"
  shows "dynamicChildren (vnodes (snd (setupBlock a s)) ! a) =
     (if isBlockTreeEnabled s > 0
      then (case currentBlock s of Some b \<Rightarrow> DynArr b | None \<Rightarrow> EMPTY_ARR)
      else DynNull)"
  using assms by (simp add: setupBlock_def Let_def push_block_def update_vnode_def closeBlock_def split: option.splits)

text \<open>
  C4. Block tracking is switched by a counter: \<^verbatim>\<open>setBlockTracking(v)\<close> adds \<open>v\<close> to
  \<^verbatim>\<open>isBlockTreeEnabled\<close>; while the counter is not positive no vnode is appended to a
  block and \<^verbatim>\<open>setupBlock\<close> stores \<^verbatim>\<open>null\<close> as the dynamic children and appends nothing,
  and while it is positive a vnode with a patch flag is appended to the current
  block; and after calls of \<^verbatim>\<open>setBlockTracking(-1)\<close> and \<^verbatim>\<open>setBlockTracking(1)\<close> that
  are properly nested, with any calls of the block functions and of
  \<^verbatim>\<open>createElementVNode\<close> in between, the counter has the value it had before, and so
  has the answer to whether tracking is on.
\<close>

theorem setBlockTracking_reentrant:
  "isBlockTreeEnabled (setBlockTracking v s) = isBlockTreeEnabled s + v
   \<and> (isBlockTreeEnabled s \<le> 0 \<longrightarrow>
        track_vnode e a sf isBlockNode s = s
        \<and> arrays (snd (setupBlock a s)) = arrays s
        \<and> (a < length (vnodes s) \<longrightarrow> dynamicChildren (vnodes (snd (setupBlock a s)) ! a) = DynNull))
   \<and> (0 < isBlockTreeEnabled s \<longrightarrow> currentBlock s = Some b \<longrightarrow>
        0 < patchFlag (vnodes s ! a) \<longrightarrow> patchFlag (vnodes s ! a) \<noteq> NEED_HYDRATION (PatchFlags e) \<longrightarrow>
        track_vnode e a sf False s = push_block b a s)
   \<and> (\<not> COMPAT e \<longrightarrow> nested 0 cs \<longrightarrow>
        isBlockTreeEnabled (run e cs s) = isBlockTreeEnabled s
        \<and> (0 < isBlockTreeEnabled (run e cs s)) = (0 < isBlockTreeEnabled s))"
proof -
  have off: "track_vnode e a sf isBlockNode s = s" if "isBlockTreeEnabled s \<le> 0"
    using that by (simp add: track_vnode_def split: option.splits)
  have off2: "arrays (snd (setupBlock a s)) = arrays s" if "isBlockTreeEnabled s \<le> 0"
    using that by (simp add: setupBlock_def Let_def)
  have off3: "dynamicChildren (vnodes (snd (setupBlock a s)) ! a) = DynNull"
    if "isBlockTreeEnabled s \<le> 0" "a < length (vnodes s)"
    using that by (simp add: setupBlock_snapshot)
  have on: "track_vnode e a sf False s = push_block b a s"
    if "0 < isBlockTreeEnabled s" "currentBlock s = Some b" "0 < patchFlag (vnodes s ! a)"
       "patchFlag (vnodes s ! a) \<noteq> NEED_HYDRATION (PatchFlags e)"
    using that by (simp add: track_vnode_def)
  have bal: "isBlockTreeEnabled (run e cs s) = isBlockTreeEnabled s" if "\<not> COMPAT e" "nested 0 cs"
    using nested_counter [OF that, of s] by simp
  show ?thesis using off off2 off3 on bal by simp
qed

theorem setBlockTracking_reentrant_witness:
  "\<not> COMPAT vue_env
   \<and> nested 0 [SetBlockTracking (-1), OpenBlock False, SetBlockTracking (-1),
                CreateElementVNode (TTag ''p'') None (JStr ''a'') 1 None None False,
                SetBlockTracking 1, CloseBlock, SetBlockTracking 1]
   \<and> isBlockTreeEnabled (run vue_env
        [SetBlockTracking (-1), OpenBlock False, SetBlockTracking (-1),
         CreateElementVNode (TTag ''p'') None (JStr ''a'') 1 None None False,
         SetBlockTracking 1, CloseBlock, SetBlockTracking 1] init_vstate) = 1
   \<and> isBlockTreeEnabled (setBlockTracking (-1) init_vstate) \<le> 0
   \<and> track_vnode vue_env 0 1 False (setBlockTracking (-1) init_vstate) = setBlockTracking (-1) init_vstate"
proof -
  have c: "\<not> COMPAT vue_env" by (simp add: vue_env_def)
  have n: "nested 0 [SetBlockTracking (-1), OpenBlock False, SetBlockTracking (-1),
                CreateElementVNode (TTag ''p'') None (JStr ''a'') 1 None None False,
                SetBlockTracking 1, CloseBlock, SetBlockTracking 1]" by simp
  have z: "isBlockTreeEnabled (setBlockTracking (-1) init_vstate) \<le> 0"
    by (simp add: init_vstate_def)
  have i: "isBlockTreeEnabled init_vstate = 1" by (simp add: init_vstate_def)
  show ?thesis
    using c n z i
      setBlockTracking_reentrant [of "-1" init_vstate vue_env 0 1 False 0
        "[SetBlockTracking (-1), OpenBlock False, SetBlockTracking (-1),
          CreateElementVNode (TTag ''p'') None (JStr ''a'') 1 None None False,
          SetBlockTracking 1, CloseBlock, SetBlockTracking 1]"]
      setBlockTracking_reentrant [of 0 "setBlockTracking (-1) init_vstate" vue_env 0 1 False 0 "[]"]
    by simp
qed

text \<open>
  C3, as the code has it. Blocks are properly nested tracking scopes:
  \<^verbatim>\<open>openBlock()\<close> pushes a new, empty list and makes it \<^verbatim>\<open>currentBlock\<close>, while
  \<^verbatim>\<open>openBlock(true)\<close> pushes \<^verbatim>\<open>null\<close> and makes \<^verbatim>\<open>currentBlock\<close> \<^verbatim>\<open>null\<close>; \<^verbatim>\<open>closeBlock\<close> pops
  the stack and sets \<^verbatim>\<open>currentBlock\<close> to the entry that is then on top, or to \<^verbatim>\<open>null\<close>
  when the stack is empty, so that closing a block that was just opened restores
  both; a block vnode that \<^verbatim>\<open>setupBlock\<close> finishes is appended to the list of its
  parent block when tracking is enabled; \<^verbatim>\<open>currentBlock\<close> is the top of the stack
  when the module is loaded and after every call; and after a sequence of calls
  in which every opened block is closed, \<^verbatim>\<open>currentBlock\<close> and the stack are what they
  were before.
\<close>

theorem block_scopes_nest:
  assumes "\<not> COMPAT e"
  shows
  "(blockStack (openBlock False s) = blockStack s @ [Some (length (arrays s))]
    \<and> currentBlock (openBlock False s) = Some (length (arrays s))
    \<and> arrays (openBlock False s) = arrays s @ [\<lparr> items = [], hasOnce = False \<rparr>])
   \<and> (blockStack (openBlock True s) = blockStack s @ [None]
      \<and> currentBlock (openBlock True s) = None
      \<and> arrays (openBlock True s) = arrays s)
   \<and> (blockStack (closeBlock s) = butlast (blockStack s)
      \<and> currentBlock (closeBlock s) =
          (if butlast (blockStack s) = [] then None else last (butlast (blockStack s))))
   \<and> (block_inv s \<longrightarrow>
        blockStack (closeBlock (openBlock disableTracking s)) = blockStack s
        \<and> currentBlock (closeBlock (openBlock disableTracking s)) = currentBlock s)
   \<and> (0 < isBlockTreeEnabled s \<longrightarrow> blockStack s = st @ [Some p, x] \<longrightarrow> p < length (arrays s) \<longrightarrow>
        items (arrays (snd (setupBlock a s)) ! p) = items (arrays s ! p) @ [a])
   \<and> block_inv init_vstate
   \<and> (block_inv s \<longrightarrow> block_inv (call_step e c s))
   \<and> (block_inv s \<longrightarrow> balanced 0 cs \<longrightarrow>
        blockStack (run e cs s) = blockStack s \<and> currentBlock (run e cs s) = currentBlock s)"
proof -
  have reopen: "blockStack (closeBlock (openBlock disableTracking s)) = blockStack s
      \<and> currentBlock (closeBlock (openBlock disableTracking s)) = currentBlock s" if "block_inv s"
    using that by (simp add: block_inv_def)
  have parent: "items (arrays (snd (setupBlock a s)) ! p) = items (arrays s ! p) @ [a]"
    if "0 < isBlockTreeEnabled s" "blockStack s = st @ [Some p, x]" "p < length (arrays s)"
    using that by (rule setupBlock_parent)
  have step: "block_inv (call_step e c s)" if "block_inv s"
    using assms that by (rule block_inv_step)
  have bal: "blockStack (run e cs s) = blockStack s \<and> currentBlock (run e cs s) = currentBlock s"
    if "block_inv s" "balanced 0 cs"
    using balanced_restores [OF assms that(2,1)] by simp
  show ?thesis
    using reopen parent step bal block_inv_init by simp
qed

theorem block_scopes_nest_witness:
  "\<not> COMPAT vue_env
   \<and> block_inv (openBlock False (openBlock False init_vstate))
   \<and> 0 < isBlockTreeEnabled (openBlock False (openBlock False init_vstate))
   \<and> blockStack (openBlock False (openBlock False init_vstate)) = [] @ [Some 0, Some 1]
   \<and> 0 < length (arrays (openBlock False (openBlock False init_vstate)))
   \<and> items (arrays (snd (setupBlock 7 (openBlock False (openBlock False init_vstate)))) ! 0) = [7]
   \<and> balanced 0 [OpenBlock False,
                  CreateElementVNode (TTag ''p'') None (JStr ''a'') 1 None None False,
                  OpenBlock True, CloseBlock, SetupBlock 0]
   \<and> currentBlock (run vue_env
        [OpenBlock False,
         CreateElementVNode (TTag ''p'') None (JStr ''a'') 1 None None False,
         OpenBlock True, CloseBlock, SetupBlock 0]
        (openBlock False (openBlock False init_vstate))) = Some 1
   \<and> block_inv (call_step vue_env CloseBlock (openBlock False (openBlock False init_vstate)))"
proof -
  have c: "\<not> COMPAT vue_env" by (simp add: vue_env_def)
  have i: "block_inv (openBlock False (openBlock False init_vstate))"
    by (simp add: block_inv_def init_vstate_def)
  have t: "0 < isBlockTreeEnabled (openBlock False (openBlock False init_vstate))"
    by (simp add: init_vstate_def)
  have st: "blockStack (openBlock False (openBlock False init_vstate)) = [] @ [Some 0, Some 1]"
    by (simp add: init_vstate_def)
  have l: "0 < length (arrays (openBlock False (openBlock False init_vstate)))"
    by simp
  have it: "items (arrays (openBlock False (openBlock False init_vstate)) ! 0) = []"
    by (simp add: init_vstate_def)
  have cb: "currentBlock (openBlock False (openBlock False init_vstate)) = Some 1"
    by (simp add: init_vstate_def)
  have b: "balanced 0 [OpenBlock False,
                  CreateElementVNode (TTag ''p'') None (JStr ''a'') 1 None None False,
                  OpenBlock True, CloseBlock, SetupBlock 0]" by simp
  show ?thesis
    using c i t st l it cb b
      block_scopes_nest [OF c, of "openBlock False (openBlock False init_vstate)" False
        "[]" 0 "Some 1" 7 CloseBlock
        "[OpenBlock False,
          CreateElementVNode (TTag ''p'') None (JStr ''a'') 1 None None False,
          OpenBlock True, CloseBlock, SetupBlock 0]"]
    by simp
qed

text \<open>
  C3 as stated fails where it says that \<^verbatim>\<open>openBlock\<close> pushes a new list and makes it
  \<^verbatim>\<open>currentBlock\<close>: \<^verbatim>\<open>openBlock(true)\<close>, which the compiler emits for the fragment of a
  \<^verbatim>\<open>v-for\<close>, creates no list, pushes \<^verbatim>\<open>null\<close> and leaves \<^verbatim>\<open>currentBlock\<close> \<^verbatim>\<open>null\<close>.
\<close>

theorem openBlock_disableTracking_counterexample:
  "currentBlock (openBlock True init_vstate) = None
   \<and> blockStack (openBlock True init_vstate) = [None]
   \<and> arrays (openBlock True init_vstate) = []"
  by (simp add: openBlock_def init_vstate_def)

section \<open>Properties of \<^verbatim>\<open>isSameVNodeType\<close>\<close>

text \<open>
  C2. \<^verbatim>\<open>isSameVNodeType(n1, n2)\<close> answers \<^verbatim>\<open>true\<close> exactly when \<^verbatim>\<open>n1.type === n2.type\<close>
  and \<^verbatim>\<open>n1.key === n2.key\<close>, where \<^verbatim>\<open>null === null\<close>, with one exception: in a
  development build it answers \<^verbatim>\<open>false\<close> when \<^verbatim>\<open>n2\<close> is a component vnode and the
  instance of \<^verbatim>\<open>n1\<close> is in the set that \<^verbatim>\<open>hmrDirtyComponents\<close> has for the type of
  \<^verbatim>\<open>n2\<close>. In a production build there is no exception.
\<close>

theorem isSameVNodeType_iff:
  "fst (isSameVNodeType e n1 n2 s) =
     (type (vnodes s ! n1) = type (vnodes s ! n2)
      \<and> strict_eq (key (vnodes s ! n1)) (key (vnodes s ! n2))
      \<and> \<not> (DEV e \<and> shapeFlag (vnodes s ! n2) AND COMPONENT (ShapeFlags e) \<noteq> 0
            \<and> (\<exists>c dirtyInstances.
                  component (vnodes s ! n1) = Some c
                  \<and> map_of (hmrDirtyComponents s) (type (vnodes s ! n2)) = Some dirtyInstances
                  \<and> c \<in> set dirtyInstances)))
   \<and> strict_eq JNull JNull
   \<and> (\<not> DEV e \<longrightarrow>
        fst (isSameVNodeType e n1 n2 s) =
          (type (vnodes s ! n1) = type (vnodes s ! n2)
           \<and> strict_eq (key (vnodes s ! n1)) (key (vnodes s ! n2))))"
proof -
  have dirty: "(case component (vnodes s ! n1) of None \<Rightarrow> False
                | Some c \<Rightarrow> hmr_dirty s (type (vnodes s ! n2)) c) =
        (\<exists>c dirtyInstances.
            component (vnodes s ! n1) = Some c
            \<and> map_of (hmrDirtyComponents s) (type (vnodes s ! n2)) = Some dirtyInstances
            \<and> c \<in> set dirtyInstances)"
    by (auto simp: hmr_dirty_def split: option.splits)
  have main: "fst (isSameVNodeType e n1 n2 s) =
     (type (vnodes s ! n1) = type (vnodes s ! n2)
      \<and> strict_eq (key (vnodes s ! n1)) (key (vnodes s ! n2))
      \<and> \<not> (DEV e \<and> shapeFlag (vnodes s ! n2) AND COMPONENT (ShapeFlags e) \<noteq> 0
            \<and> (case component (vnodes s ! n1) of None \<Rightarrow> False
                | Some c \<Rightarrow> hmr_dirty s (type (vnodes s ! n2)) c)))"
    by (auto simp: isSameVNodeType_def Let_def)
  have null: "strict_eq JNull JNull" by (simp add: strict_eq_def)
  show ?thesis using main null unfolding dirty by auto
qed

theorem isSameVNodeType_iff_witness:
  "\<not> DEV (vue_env\<lparr> DEV := False \<rparr>)
   \<and> fst (isSameVNodeType (vue_env\<lparr> DEV := False \<rparr>) 0 1 hmr_example)
   \<and> \<not> fst (isSameVNodeType vue_env 0 1 hmr_example)"
proof -
  have d: "\<not> DEV (vue_env\<lparr> DEV := False \<rparr>)" by simp
  have v: "type (vnodes hmr_example ! 0) = type (vnodes hmr_example ! 1)"
      "strict_eq (key (vnodes hmr_example ! 0)) (key (vnodes hmr_example ! 1))"
      "component (vnodes hmr_example ! 0) = Some 5"
      "map_of (hmrDirtyComponents hmr_example) (type (vnodes hmr_example ! 1)) = Some [5]"
      "shapeFlag (vnodes hmr_example ! 1) AND COMPONENT (ShapeFlags vue_env) \<noteq> 0"
      "DEV vue_env"
    by (simp_all add: hmr_example_def new_vnode_def strict_eq_def vue_env_def vue_ShapeFlags_def)
  show ?thesis
    using d v isSameVNodeType_iff [of "vue_env\<lparr> DEV := False \<rparr>" 0 1 hmr_example]
      isSameVNodeType_iff [of vue_env 0 1 hmr_example]
    by auto
qed

section \<open>Type and key of a vnode are fixed when it is created\<close>

lemma ident_le_refl [simp]: "ident_le s s"
  by (simp add: ident_le_def)

lemma ident_le_trans: "ident_le s s' \<Longrightarrow> ident_le s' s'' \<Longrightarrow> ident_le s s''"
  by (auto simp: ident_le_def)

lemma ident_le_same: "vnodes s' = vnodes s \<Longrightarrow> ident_le s s'"
  by (simp add: ident_le_def)

lemma ident_le_update:
  assumes "\<And>v. type (g v) = type v" "\<And>v. key (g v) = key v"
  shows "ident_le s (update_vnode a g s)"
proof -
  have "type ((vnodes s)[a := g (vnodes s ! a)] ! b) = type (vnodes s ! b)
      \<and> key ((vnodes s)[a := g (vnodes s ! a)] ! b) = key (vnodes s ! b)"
    if "b < length (vnodes s)" for b
    using that assms by (cases "a = b") simp_all
  then show ?thesis by (simp add: ident_le_def update_vnode_def)
qed

lemma ident_le_append: "ident_le s (s\<lparr> vnodes := vnodes s @ [v] \<rparr>)"
  by (simp add: ident_le_def nth_append)

lemma ident_le_store_children: "ident_le s (store_children a ch ty s)"
  unfolding store_children_def by (rule ident_le_update) simp_all

lemma ident_le_nextId: "ident_le s (s\<lparr> nextId := n \<rparr>)"
  by (rule ident_le_same) simp

lemma ident_le_warn: "ident_le s (warn m s)"
  by (rule ident_le_same) simp

lemma ident_le_track: "ident_le s (track_vnode e a sf ibn s)"
  by (rule ident_le_same) simp

lemma ident_le_validate: "ident_le s (validate_key e a s)"
  by (rule ident_le_same) simp

lemma ident_le_push: "ident_le s (push_block b a s)"
  by (rule ident_le_same) simp

lemma ident_le_replace: "ident_le s (replace_in_block b v c s)"
  by (rule ident_le_same) (simp add: replace_in_block_def)

lemma ident_le_compat: "hooks_keep_identity e \<Longrightarrow> ident_le s (compat_hooks e a s)"
proof (cases "COMPAT e")
  case True
  assume h: "hooks_keep_identity e"
  then have "ident_le s (convertLegacyVModelProps e a s)"
    and "ident_le (convertLegacyVModelProps e a s)
           (defineLegacyVNodeProperties e a (convertLegacyVModelProps e a s))"
    by (simp_all add: hooks_keep_identity_def keeps_identity_def)
  then show ?thesis using True by (auto simp: compat_hooks_def intro: ident_le_trans)
next
  case False
  then show ?thesis by (simp add: compat_hooks_def)
qed

lemma normalizeChildren_body_ident:
  assumes r: "\<And>s'. rec = Inr s' \<Longrightarrow> ident_le s s'"
    and mk: "\<And>t s r s'. mk t s = Inr (r, s') \<Longrightarrow> ident_le s s'"
    and res: "normalizeChildren_body rec mk e a ch s = Inr s'"
  shows "ident_le s s'"
proof -
  note st = ident_le_store_children
  have up: "ident_le s (update_vnode a (\<lambda>v. v\<lparr> patchFlag := patchFlag v OR x \<rparr>) s)" for x
    by (rule ident_le_update) simp_all
  have txt_case: "ident_le s (store_children a c ty (s1\<lparr> nextId := n \<rparr>))"
    if "mk t s = Inr (r, s1)" for t r s1 c ty n
    using mk [OF that] ident_le_nextId [of s1 n] st [of "s1\<lparr> nextId := n \<rparr>" a c ty]
    by (blast intro: ident_le_trans)
  show ?thesis
    using res r
    unfolding normalizeChildren_body_def Let_def assign_ctx_def assign_flag_def
    by (auto split: if_splits sum.splits prod.splits
        intro: st txt_case ident_le_trans [OF up st] ident_le_trans [OF ident_le_nextId st])
qed

lemma normalizeChildren_with_ident:
  "normalizeChildren_with mk e a ch s = Inr s' \<Longrightarrow>
   (\<And>t s r s'. mk t s = Inr (r, s') \<Longrightarrow> ident_le s s') \<Longrightarrow> ident_le s s'"
proof (induction mk e a ch s arbitrary: s' rule: normalizeChildren_with.induct)
  case (1 mk e a i j c r f cx b s)
  from "1.prems"(1)
  have res: "normalizeChildren_body (normalizeChildren_with mk e a r s) mk e a
               (JSlots i (JFun j c r) f cx b) s = Inr s'"
    by simp
  have rec: "ident_le s s''" if "normalizeChildren_with mk e a r s = Inr s''" for s''
    using that "1.prems"(2) by (rule "1.IH")
  show ?case
    by (rule normalizeChildren_body_ident [OF rec "1.prems"(2) res])
qed (simp, erule normalizeChildren_body_ident [rotated 2], simp, blast)+

lemma normalizeChildren_with_body:
  "\<exists>rec. normalizeChildren_with mk e a ch s = normalizeChildren_body rec mk e a ch s"
  by (cases "(mk, e, a, ch, s)" rule: normalizeChildren_with.cases) auto

text \<open>
  On a vnode that is neither an element nor a \<^verbatim>\<open>Teleport\<close>, \<^verbatim>\<open>normalizeChildren\<close> returns
  unless the assignment that it makes to a children object fails.
\<close>

lemma normalizeChildren_body_returns:
  assumes "shapeFlag (vnodes s ! a) AND (ELEMENT (ShapeFlags e) OR TELEPORT (ShapeFlags e)) = 0"
    and "shapeFlag (vnodes s ! a) AND TELEPORT (ShapeFlags e) = 0"
  shows "(\<exists>s'. normalizeChildren_body rec mk e a ch s = Inr s') =
     (typeof_object ch \<longrightarrow> \<not> nullish ch \<longrightarrow> \<not> isArray ch \<longrightarrow>
        (\<not> truthy (obj_flag ch) \<and> \<not> isInternalObject ch \<longrightarrow> can_assign e ch ''_ctx'')
        \<and> (\<not> (\<not> truthy (obj_flag ch) \<and> \<not> isInternalObject ch) \<longrightarrow>
               strict_eq (obj_flag ch) (JNum (FORWARDED (SlotFlags e))) \<longrightarrow>
               currentRenderingInstance s \<noteq> None \<longrightarrow> can_assign e ch ''_''))"
    and "normalizeChildren_body rec mk e a ch s = Inl err \<Longrightarrow> err = TypeError"
  using assms
  by (auto simp: normalizeChildren_body_def Let_def assign_ctx_def assign_flag_def
      split: if_splits)

lemma normalizeChildren_with_returns:
  assumes "shapeFlag (vnodes s ! a) AND (ELEMENT (ShapeFlags e) OR TELEPORT (ShapeFlags e)) = 0"
    and "shapeFlag (vnodes s ! a) AND TELEPORT (ShapeFlags e) = 0"
  shows "(\<exists>s'. normalizeChildren_with mk e a ch s = Inr s') =
     (typeof_object ch \<longrightarrow> \<not> nullish ch \<longrightarrow> \<not> isArray ch \<longrightarrow>
        (\<not> truthy (obj_flag ch) \<and> \<not> isInternalObject ch \<longrightarrow> can_assign e ch ''_ctx'')
        \<and> (\<not> (\<not> truthy (obj_flag ch) \<and> \<not> isInternalObject ch) \<longrightarrow>
               strict_eq (obj_flag ch) (JNum (FORWARDED (SlotFlags e))) \<longrightarrow>
               currentRenderingInstance s \<noteq> None \<longrightarrow> can_assign e ch ''_''))"
    and "normalizeChildren_with mk e a ch s = Inl err \<Longrightarrow> err = TypeError"
proof -
  obtain rec where r: "normalizeChildren_with mk e a ch s = normalizeChildren_body rec mk e a ch s"
    using normalizeChildren_with_body by blast
  show "(\<exists>s'. normalizeChildren_with mk e a ch s = Inr s') =
     (typeof_object ch \<longrightarrow> \<not> nullish ch \<longrightarrow> \<not> isArray ch \<longrightarrow>
        (\<not> truthy (obj_flag ch) \<and> \<not> isInternalObject ch \<longrightarrow> can_assign e ch ''_ctx'')
        \<and> (\<not> (\<not> truthy (obj_flag ch) \<and> \<not> isInternalObject ch) \<longrightarrow>
               strict_eq (obj_flag ch) (JNum (FORWARDED (SlotFlags e))) \<longrightarrow>
               currentRenderingInstance s \<noteq> None \<longrightarrow> can_assign e ch ''_''))"
    unfolding r by (rule normalizeChildren_body_returns(1) [OF assms])
  show "err = TypeError" if "normalizeChildren_with mk e a ch s = Inl err"
    using that unfolding r by (rule normalizeChildren_body_returns(2) [OF assms])
qed

lemma createBaseVNode_with_ident:
  assumes mk: "\<And>t s r s'. mk t s = Inr (r, s') \<Longrightarrow> ident_le s s'"
    and hooks: "hooks_keep_identity e"
    and res: "createBaseVNode_with mk e ty ps ch pf dps sf ibn nf s = Inr (a, s')"
  shows "a = length (vnodes s)"
    and "ident_le (s\<lparr> vnodes := vnodes s @
            [new_vnode e ty ps (if ch = JUndefined then JNull else ch) pf dps
               (case sf of None \<Rightarrow> if ty = TSymbol Fragment then 0 else ELEMENT (ShapeFlags e)
                | Some f \<Rightarrow> f) s] \<rparr>) s'"
proof -
  let ?sf = "case sf of None \<Rightarrow> if ty = TSymbol Fragment then 0 else ELEMENT (ShapeFlags e)
                | Some f \<Rightarrow> f"
  let ?ch = "if ch = JUndefined then JNull else ch"
  let ?s1 = "s\<lparr> vnodes := vnodes s @ [new_vnode e ty ps ?ch pf dps ?sf s] \<rparr>"
  let ?a = "length (vnodes s)"
  from res obtain s3 where
    s3: "(if nf then
            (case normalizeChildren_with mk e ?a ?ch ?s1 of
               Inl err \<Rightarrow> Inl err
             | Inr s2 \<Rightarrow>
                 Inr (if FEATURE_SUSPENSE e \<and> ?sf AND SUSPENSE (ShapeFlags e) \<noteq> 0
                      then Suspense_normalize e ?a s2 else s2))
          else if truthy ?ch then
            Inr (update_vnode ?a (\<lambda>v. v\<lparr> shapeFlag := shapeFlag v OR
                   (if isString ?ch then TEXT_CHILDREN (ShapeFlags e)
                    else ARRAY_CHILDREN (ShapeFlags e)) \<rparr>) ?s1)
          else Inr ?s1) = Inr s3"
    and a: "a = ?a"
    and s': "s' = compat_hooks e ?a (track_vnode e ?a ?sf ibn (validate_key e ?a s3))"
    unfolding createBaseVNode_with_def Let_def by (auto split: sum.splits)
  show "a = length (vnodes s)" by (rule a)
  have "ident_le ?s1 s3"
  proof (cases nf)
    case True
    with s3 obtain s2 where s2: "normalizeChildren_with mk e ?a ?ch ?s1 = Inr s2"
      and s3': "s3 = (if FEATURE_SUSPENSE e \<and> ?sf AND SUSPENSE (ShapeFlags e) \<noteq> 0
                      then Suspense_normalize e ?a s2 else s2)"
      by (auto split: sum.splits)
    have "ident_le ?s1 s2" using s2 mk by (rule normalizeChildren_with_ident)
    moreover have "ident_le s2 s3"
      using hooks s3' by (simp add: hooks_keep_identity_def keeps_identity_def)
    ultimately show ?thesis by (rule ident_le_trans)
  next
    case False
    with s3 show ?thesis
      by (auto split: if_splits intro!: ident_le_update)
  qed
  moreover have "ident_le s3 s'"
    unfolding s'
    by (blast intro: ident_le_trans ident_le_validate ident_le_track ident_le_compat [OF hooks])
  ultimately show "ident_le ?s1 s'" by (rule ident_le_trans)
qed

lemma createBaseVNode_with_new:
  assumes mk: "\<And>t s r s'. mk t s = Inr (r, s') \<Longrightarrow> ident_le s s'"
    and hooks: "hooks_keep_identity e"
    and res: "createBaseVNode_with mk e ty ps ch pf dps sf ibn nf s = Inr (a, s')"
  shows "a = length (vnodes s) \<and> a < length (vnodes s') \<and> ident_le s s'
     \<and> type (vnodes s' ! a) = ty
     \<and> key (vnodes s' ! a) = (case ps of None \<Rightarrow> JNull | Some p \<Rightarrow> normalizeKey p)"
proof -
  note r = createBaseVNode_with_ident [OF mk hooks res]
  from r(2) have "\<forall>b < Suc (length (vnodes s)).
      b < length (vnodes s') \<and>
      type (vnodes s' ! b) = type ((vnodes s @ [new_vnode e ty ps (if ch = JUndefined then JNull else ch) pf dps
               (case sf of None \<Rightarrow> if ty = TSymbol Fragment then 0 else ELEMENT (ShapeFlags e)
                | Some f \<Rightarrow> f) s]) ! b) \<and>
      key (vnodes s' ! b) = key ((vnodes s @ [new_vnode e ty ps (if ch = JUndefined then JNull else ch) pf dps
               (case sf of None \<Rightarrow> if ty = TSymbol Fragment then 0 else ELEMENT (ShapeFlags e)
                | Some f \<Rightarrow> f) s]) ! b)"
    by (simp add: ident_le_def)
  then have new: "a < length (vnodes s') \<and> type (vnodes s' ! a) = ty
      \<and> key (vnodes s' ! a) = (case ps of None \<Rightarrow> JNull | Some p \<Rightarrow> normalizeKey p)"
    and old: "ident_le s s'"
    using r(1) by (auto simp: ident_le_def nth_append new_vnode_def)
  show ?thesis using r(1) new old by simp
qed

lemma warn_more_fields [simp]:
  "currentRenderingInstance (warn m s) = currentRenderingInstance s"
  "nextId (warn m s) = nextId s"
  by (simp_all add: warn_def)

lemma isVNode_type_None: "(\<And>v. ty \<noteq> TVNode v) \<Longrightarrow> isVNode_type ty = None"
  by (cases ty) auto

lemma no_text_vnode_ident: "no_text_vnode t s = Inr (r, s') \<Longrightarrow> ident_le s s'"
  by (simp add: no_text_vnode_def)

lemma coerce_type_ident: "ident_le s (snd (coerce_type e ty s))"
  by (simp add: coerce_type_def ident_le_warn)

lemma coerce_type_not_vnode:
  "(\<And>v. ty \<noteq> TVNode v) \<Longrightarrow> isVNode_type (fst (coerce_type e ty s)) = None"
  by (simp add: coerce_type_def isVNode_type_None)

lemma createVNode_prepare_ident:
  "createVNode_prepare e ty ps s = Inr p \<Longrightarrow> ident_le s (snd (snd (snd p)))"
  by (auto simp: createVNode_prepare_def Let_def ident_le_warn split: sum.splits)

lemma createVNode_with_ident:
  assumes mk: "\<And>t s r s'. mk t s = Inr (r, s') \<Longrightarrow> ident_le s s'"
    and hooks: "hooks_keep_identity e"
    and ty: "\<And>v. ty \<noteq> TVNode v"
    and res: "createVNode_with mk e ty ps ch pf dps ibn s = Inr (a, s')"
  shows "ident_le s s'"
proof -
  let ?c = "coerce_type e ty s"
  from res obtain p where p: "createVNode_prepare e (fst ?c) ps (snd ?c) = Inr p"
    and b: "createBaseVNode_with mk e (fst p) (fst (snd p)) ch pf dps
      (Some (fst (snd (snd p)))) ibn True (snd (snd (snd p))) = Inr (a, s')"
    by (auto simp: createVNode_with_def Let_def coerce_type_not_vnode [OF ty] split: sum.splits)
  from createBaseVNode_with_new [OF mk hooks b]
  have "ident_le (snd (snd (snd p))) s'" by simp
  with coerce_type_ident [of s e ty] createVNode_prepare_ident [OF p]
  show ?thesis by (blast intro: ident_le_trans)
qed

lemma createTextVNode_ident:
  assumes "hooks_keep_identity e" "createTextVNode e t f s = Inr (r, s')"
  shows "ident_le s s'"
proof (rule createVNode_with_ident [OF no_text_vnode_ident assms(1)])
  show "createVNode_with no_text_vnode e (TSymbol Text) None (JStr t) f None False s = Inr (r, s')"
    using assms(2) by (simp add: createTextVNode_def)
qed simp_all

lemma createVNode_with_invalid:
  assumes "falsy_type ty \<or> ty = TSymbol NULL_DYNAMIC_COMPONENT"
    and "COMPAT e \<longrightarrow>
           convertLegacyComponent e (TSymbol Comment) (currentRenderingInstance s) = TSymbol Comment"
  shows "createVNode_with mk e ty ps ch pf dps ibn s =
     (case prepare_props e ps of
        Inl err \<Rightarrow> Inl err
      | Inr q \<Rightarrow>
          createBaseVNode_with mk e (TSymbol Comment) q ch pf dps (Some 0) ibn True
            (if DEV e \<and> falsy_type ty then warn ''Invalid vnode type when creating vnode.'' s
             else s))"
  using assms
  by (auto simp: createVNode_with_def createVNode_prepare_def coerce_type_def Let_def
      type_shapeFlag_def split: sum.splits)

lemma createBaseVNode_with_comment:
  shows "(\<exists>a s'. createBaseVNode_with mk e ty ps ch pf dps (Some 0) ibn True s = Inr (a, s')) =
     (typeof_object ch \<longrightarrow> \<not> nullish ch \<longrightarrow> \<not> isArray ch \<longrightarrow>
        (\<not> truthy (obj_flag ch) \<and> \<not> isInternalObject ch \<longrightarrow> can_assign e ch ''_ctx'')
        \<and> (\<not> (\<not> truthy (obj_flag ch) \<and> \<not> isInternalObject ch) \<longrightarrow>
               strict_eq (obj_flag ch) (JNum (FORWARDED (SlotFlags e))) \<longrightarrow>
               currentRenderingInstance s \<noteq> None \<longrightarrow> can_assign e ch ''_''))"
    and "createBaseVNode_with mk e ty ps ch pf dps (Some 0) ibn True s = Inl err \<Longrightarrow> err = TypeError"
proof -
  let ?ch = "if ch = JUndefined then JNull else ch"
  let ?s1 = "s\<lparr> vnodes := vnodes s @ [new_vnode e ty ps ?ch pf dps 0 s] \<rparr>"
  let ?a = "length (vnodes s)"
  have sf: "shapeFlag (vnodes ?s1 ! ?a) AND (ELEMENT (ShapeFlags e) OR TELEPORT (ShapeFlags e)) = 0"
    "shapeFlag (vnodes ?s1 ! ?a) AND TELEPORT (ShapeFlags e) = 0"
    by (simp_all add: new_vnode_def)
  note R = normalizeChildren_with_returns [OF sf, of mk ?ch]
  have eq: "(\<exists>a s'. createBaseVNode_with mk e ty ps ch pf dps (Some 0) ibn True s = Inr (a, s')) =
      (\<exists>s2. normalizeChildren_with mk e ?a ?ch ?s1 = Inr s2)"
    by (auto simp: createBaseVNode_with_def Let_def split: sum.splits)
  have u: "ch = JUndefined \<Longrightarrow> \<not> typeof_object ch" by simp
  show "(\<exists>a s'. createBaseVNode_with mk e ty ps ch pf dps (Some 0) ibn True s = Inr (a, s')) =
     (typeof_object ch \<longrightarrow> \<not> nullish ch \<longrightarrow> \<not> isArray ch \<longrightarrow>
        (\<not> truthy (obj_flag ch) \<and> \<not> isInternalObject ch \<longrightarrow> can_assign e ch ''_ctx'')
        \<and> (\<not> (\<not> truthy (obj_flag ch) \<and> \<not> isInternalObject ch) \<longrightarrow>
               strict_eq (obj_flag ch) (JNum (FORWARDED (SlotFlags e))) \<longrightarrow>
               currentRenderingInstance s \<noteq> None \<longrightarrow> can_assign e ch ''_''))"
    unfolding eq R(1) by (cases "ch = JUndefined") simp_all
  show "err = TypeError"
    if "createBaseVNode_with mk e ty ps ch pf dps (Some 0) ibn True s = Inl err"
  proof -
    from that have "normalizeChildren_with mk e ?a ?ch ?s1 = Inl err"
      by (auto simp: createBaseVNode_with_def Let_def split: sum.splits)
    then show ?thesis by (rule R(2))
  qed
qed

text \<open>When the normalization of class and style fails.\<close>

lemma assign_prop_error: "assign_prop k v p = Inl err \<Longrightarrow> err = TypeError"
  by (auto simp: assign_prop_def split: if_splits)

lemma prepare_props_returns:
  "(\<exists>q. prepare_props e ps = Inr q) =
     (\<forall>p. ps = Some p \<longrightarrow> \<not> guarded p \<longrightarrow>
        (truthy (get_prop p ''class'') \<and> \<not> isString (get_prop p ''class'') \<longrightarrow>
           ''class'' \<notin> set (readonly p))
        \<and> (isObject (get_prop p ''style'') \<longrightarrow> ''style'' \<notin> set (readonly p)))"
proof (cases ps)
  case None
  then show ?thesis by (simp add: prepare_props_def guardReactiveProps_def)
next
  case (Some p)
  show ?thesis
  proof (cases "guarded p")
    case True
    with Some show ?thesis
      by (auto simp: prepare_props_def guardReactiveProps_def normalize_class_style_def
          assign_prop_def get_prop_def Let_def split: sum.splits)
  next
    case False
    with Some show ?thesis
      by (auto simp: prepare_props_def guardReactiveProps_def normalize_class_style_def
          assign_prop_def Let_def split: sum.splits if_splits)
  qed
qed

lemma prepare_props_error: "prepare_props e ps = Inl err \<Longrightarrow> err = TypeError"
  by (auto simp: prepare_props_def normalize_class_style_def assign_prop_def Let_def
      split: option.splits sum.splits if_splits)

lemma clone_hooks_ident: "hooks_keep_identity e \<Longrightarrow> ident_le s (clone_hooks e a tr ct s)"
proof -
  assume hooks: "hooks_keep_identity e"
  have keep: "ident_le t (setTransitionHooks e b h t)" "ident_le t (defineLegacyVNodeProperties e b t)"
    for t b h
    using hooks by (simp_all add: hooks_keep_identity_def keeps_identity_def)
  show ?thesis
    unfolding clone_hooks_def Let_def
    by (auto split: option.splits intro: keep ident_le_trans [OF keep(1) keep(2)])
qed

lemma clone_hooks_new:
  assumes "hooks_keep_identity e" "n < length (vnodes s)"
  shows "n < length (vnodes (clone_hooks e a tr ct s))"
    and "key (vnodes (clone_hooks e a tr ct s) ! n) = key (vnodes s ! n)"
  using clone_hooks_ident [OF assms(1), of s a tr ct] assms(2)
  by (auto simp: ident_le_def)

lemma cloneVNode_key:
  assumes hooks: "hooks_keep_identity e"
    and res: "cloneVNode e v extraProps mergeRef cloneTransition s = Inr (a, s')"
  shows "a < length (vnodes s') \<and>
     key (vnodes s' ! a) =
       (case fst (clone_props e (vnodes s ! v) extraProps (nextId s)) of
          None \<Rightarrow> JNull | Some m \<Rightarrow> normalizeKey m)"
proof -
  from res obtain n where n: "callStackLimit e = Suc n"
    by (cases "callStackLimit e") (simp_all add: cloneVNode_def)
  from res show ?thesis
    unfolding cloneVNode_def n cloneVNode_n.simps cloneVNode_body_def Let_def
    by (auto split: sum.splits prod.splits simp: clone_hooks_new [OF hooks])
qed

lemma cloneVNode_total:
  assumes "0 < callStackLimit e" "ssContent (vnodes s ! v) = None" "ssFallback (vnodes s ! v) = None"
    and "\<not> (DEV e \<and> patchFlag (vnodes s ! v) = CACHED (PatchFlags e) \<and> isArray (children (vnodes s ! v)))"
  shows "\<exists>a s'. cloneVNode e v extraProps mergeRef cloneTransition s = Inr (a, s')"
proof -
  from assms(1) obtain n where n: "callStackLimit e = Suc n"
    by (cases "callStackLimit e") simp_all
  show ?thesis
    using assms(2-)
    unfolding cloneVNode_def n cloneVNode_n.simps cloneVNode_body_def Let_def
    by (auto simp: clone_children_def clone_ss_def)
qed

lemma createText_with_new:
  assumes hooks: "hooks_keep_identity e"
    and res: "createBaseVNode_with (\<lambda>text. createTextVNode e text 0) e ty ps ch pf dps sf ibn nf s
                = Inr (a, s')"
  shows "a = length (vnodes s) \<and> a < length (vnodes s') \<and> ident_le s s'
     \<and> type (vnodes s' ! a) = ty
     \<and> key (vnodes s' ! a) = (case ps of None \<Rightarrow> JNull | Some p \<Rightarrow> normalizeKey p)"
proof (rule createBaseVNode_with_new [where mk = "\<lambda>text. createTextVNode e text 0", OF _ hooks res])
  fix t s r s'
  assume "createTextVNode e t 0 s = Inr (r, s')"
  with hooks show "ident_le s s'" by (rule createTextVNode_ident)
qed

lemma vue_env_hooks: "hooks_keep_identity vue_env"
  by (auto simp: hooks_keep_identity_def keeps_identity_def vue_env_def intro!: ident_le_update)

lemma vue_env_flags [simp]:
  "COMPAT vue_env = False" "DEV vue_env = True" "FEATURE_SUSPENSE vue_env = True"
  "ShapeFlags vue_env = vue_ShapeFlags" "PatchFlags vue_env = vue_PatchFlags"
  "SlotFlags vue_env = vue_SlotFlags" "callStackLimit vue_env = 64"
  by (simp_all add: vue_env_def)

text \<open>
  C9, as the code has it. When the \<^verbatim>\<open>type\<close> argument is falsy or is
  \<^verbatim>\<open>NULL_DYNAMIC_COMPONENT\<close>, \<^verbatim>\<open>createVNode\<close> replaces it by \<^verbatim>\<open>Comment\<close>: a call that
  returns gives a new vnode of type \<^verbatim>\<open>Comment\<close>. The call returns exactly when the
  assignments that it makes to the objects of the caller succeed, and raises
  \<^verbatim>\<open>TypeError\<close> otherwise. These are the assignment of the normalized \<^verbatim>\<open>class\<close> (when
  the class is truthy and not a string) and \<^verbatim>\<open>style\<close> (when the style is an object) to
  props that \<^verbatim>\<open>guardReactiveProps\<close> did not copy, and the assignment of \<^verbatim>\<open>_ctx\<close> or
  \<^verbatim>\<open>_\<close> to children that are an object. So the call returns for every state when
  there are no props, or props without read-only properties, and the children are
  not an object. This holds in a standard build and in a compat build whose
  \<^verbatim>\<open>convertLegacyComponent\<close> returns \<^verbatim>\<open>Comment\<close> unchanged, provided the imported hooks do
  not change the type of a vnode.
\<close>

theorem createVNode_invalid_type_is_comment:
  assumes "hooks_keep_identity e"
    and "COMPAT e \<longrightarrow>
           convertLegacyComponent e (TSymbol Comment) (currentRenderingInstance s) = TSymbol Comment"
    and "falsy_type ty \<or> ty = TSymbol NULL_DYNAMIC_COMPONENT"
  shows
  "(createVNode e ty ps ch pf dps isBlockNode s = Inr (a, s') \<longrightarrow>
      a = length (vnodes s) \<and> a < length (vnodes s') \<and> type (vnodes s' ! a) = TSymbol Comment)
   \<and> (createVNode e ty ps ch pf dps isBlockNode s = Inl err \<longrightarrow> err = TypeError)
   \<and> ((\<exists>b t. createVNode e ty ps ch pf dps isBlockNode s = Inr (b, t)) =
        ((\<forall>p. ps = Some p \<longrightarrow> \<not> guarded p \<longrightarrow>
            (truthy (get_prop p ''class'') \<and> \<not> isString (get_prop p ''class'') \<longrightarrow>
               ''class'' \<notin> set (readonly p))
            \<and> (isObject (get_prop p ''style'') \<longrightarrow> ''style'' \<notin> set (readonly p)))
         \<and> (typeof_object ch \<longrightarrow> \<not> nullish ch \<longrightarrow> \<not> isArray ch \<longrightarrow>
              (\<not> truthy (obj_flag ch) \<and> \<not> isInternalObject ch \<longrightarrow> can_assign e ch ''_ctx'')
              \<and> (\<not> (\<not> truthy (obj_flag ch) \<and> \<not> isInternalObject ch) \<longrightarrow>
                     strict_eq (obj_flag ch) (JNum (FORWARDED (SlotFlags e))) \<longrightarrow>
                     currentRenderingInstance s \<noteq> None \<longrightarrow> can_assign e ch ''_''))))
   \<and> ((\<forall>p. ps = Some p \<longrightarrow> readonly p = []) \<longrightarrow> \<not> (typeof_object ch \<and> \<not> nullish ch \<and> \<not> isArray ch) \<longrightarrow>
        (\<exists>b t. createVNode e ty ps ch pf dps isBlockNode s = Inr (b, t)
           \<and> b < length (vnodes t) \<and> type (vnodes t ! b) = TSymbol Comment))"
proof -
  let ?mk = "\<lambda>text. createTextVNode e text 0"
  let ?s = "if DEV e \<and> falsy_type ty then warn ''Invalid vnode type when creating vnode.'' s else s"
  let ?P = "\<forall>p. ps = Some p \<longrightarrow> \<not> guarded p \<longrightarrow>
            (truthy (get_prop p ''class'') \<and> \<not> isString (get_prop p ''class'') \<longrightarrow>
               ''class'' \<notin> set (readonly p))
            \<and> (isObject (get_prop p ''style'') \<longrightarrow> ''style'' \<notin> set (readonly p))"
  let ?C = "typeof_object ch \<longrightarrow> \<not> nullish ch \<longrightarrow> \<not> isArray ch \<longrightarrow>
              (\<not> truthy (obj_flag ch) \<and> \<not> isInternalObject ch \<longrightarrow> can_assign e ch ''_ctx'')
              \<and> (\<not> (\<not> truthy (obj_flag ch) \<and> \<not> isInternalObject ch) \<longrightarrow>
                     strict_eq (obj_flag ch) (JNum (FORWARDED (SlotFlags e))) \<longrightarrow>
                     currentRenderingInstance s \<noteq> None \<longrightarrow> can_assign e ch ''_'')"
  have eq: "createVNode e ty ps ch pf dps isBlockNode s =
      (case prepare_props e ps of
         Inl err \<Rightarrow> Inl err
       | Inr q \<Rightarrow>
           createBaseVNode_with ?mk e (TSymbol Comment) q ch pf dps (Some 0) isBlockNode True ?s)"
    unfolding createVNode_def by (rule createVNode_with_invalid [OF assms(3,2)])
  have cri: "currentRenderingInstance ?s = currentRenderingInstance s" by simp
  have len: "length (vnodes ?s) = length (vnodes s)" by simp
  have A: "a = length (vnodes s) \<and> a < length (vnodes s') \<and> type (vnodes s' ! a) = TSymbol Comment"
    if r: "createVNode e ty ps ch pf dps isBlockNode s = Inr (a, s')"
  proof -
    from r eq obtain q where
      "createBaseVNode_with ?mk e (TSymbol Comment) q ch pf dps (Some 0) isBlockNode True ?s = Inr (a, s')"
      by (auto split: sum.splits)
    from createText_with_new [OF assms(1) this] len show ?thesis by metis
  qed
  have B: "err = TypeError" if r: "createVNode e ty ps ch pf dps isBlockNode s = Inl err"
  proof (cases "prepare_props e ps")
    case (Inl x)
    with r eq have "x = err" by simp
    with Inl show ?thesis by (simp add: prepare_props_error)
  next
    case (Inr q)
    with r eq have
      "createBaseVNode_with ?mk e (TSymbol Comment) q ch pf dps (Some 0) isBlockNode True ?s = Inl err"
      by simp
    then show ?thesis by (rule createBaseVNode_with_comment(2))
  qed
  have C: "(\<exists>b t. createVNode e ty ps ch pf dps isBlockNode s = Inr (b, t)) = (?P \<and> ?C)"
  proof (cases "prepare_props e ps")
    case (Inl x)
    then have "\<not> ?P" using prepare_props_returns [of e ps] by simp
    with Inl eq show ?thesis by simp
  next
    case (Inr q)
    then have p: ?P using prepare_props_returns [of e ps] by blast
    from Inr eq have "(\<exists>b t. createVNode e ty ps ch pf dps isBlockNode s = Inr (b, t)) =
        (\<exists>b t. createBaseVNode_with ?mk e (TSymbol Comment) q ch pf dps (Some 0) isBlockNode True ?s
                 = Inr (b, t))"
      by simp
    also have "\<dots> = ?C"
      unfolding createBaseVNode_with_comment(1) cri ..
    finally show ?thesis using p by blast
  qed
  have D: "\<exists>b t. createVNode e ty ps ch pf dps isBlockNode s = Inr (b, t)
           \<and> b < length (vnodes t) \<and> type (vnodes t ! b) = TSymbol Comment"
    if w: "\<forall>p. ps = Some p \<longrightarrow> readonly p = []"
      and o: "\<not> (typeof_object ch \<and> \<not> nullish ch \<and> \<not> isArray ch)"
  proof -
    from w have ?P by auto
    moreover from o have ?C by blast
    ultimately obtain b t where r: "createVNode e ty ps ch pf dps isBlockNode s = Inr (b, t)"
      using C by blast
    from r eq obtain q where
      "createBaseVNode_with ?mk e (TSymbol Comment) q ch pf dps (Some 0) isBlockNode True ?s = Inr (b, t)"
      by (auto split: sum.splits)
    from createText_with_new [OF assms(1) this] r show ?thesis by blast
  qed
  show ?thesis
    apply (rule conjI, rule impI, erule A)
    apply (rule conjI, rule impI, erule B)
    apply (rule conjI, rule C)
    apply (intro impI, erule (1) D)
    done
qed

theorem createVNode_invalid_type_is_comment_witness:
  "hooks_keep_identity vue_env
   \<and> \<not> COMPAT vue_env
   \<and> falsy_type (TTag [])
   \<and> (\<exists>a s'. createVNode vue_env (TTag []) None (JStr ''x'') 0 None False init_vstate = Inr (a, s')
          \<and> a < length (vnodes s') \<and> type (vnodes s' ! a) = TSymbol Comment)
   \<and> (\<exists>a s'. createVNode vue_env (TSymbol NULL_DYNAMIC_COMPONENT) None JNull 0 None False init_vstate
                 = Inr (a, s')
          \<and> a < length (vnodes s') \<and> type (vnodes s' ! a) = TSymbol Comment)"
proof -
  have c: "COMPAT vue_env \<longrightarrow>
      convertLegacyComponent vue_env (TSymbol Comment) (currentRenderingInstance init_vstate)
        = TSymbol Comment"
    by simp
  have f: "falsy_type (TTag []) \<or> TTag [] = TSymbol NULL_DYNAMIC_COMPONENT" by simp
  have n: "falsy_type (TSymbol NULL_DYNAMIC_COMPONENT)
           \<or> TSymbol NULL_DYNAMIC_COMPONENT = TSymbol NULL_DYNAMIC_COMPONENT" by simp
  have p: "\<forall>p. (None :: props option) = Some p \<longrightarrow> readonly p = []" by simp
  have o1: "\<not> (typeof_object (JStr ''x'') \<and> \<not> nullish (JStr ''x'') \<and> \<not> isArray (JStr ''x''))"
    by simp
  have o2: "\<not> (typeof_object JNull \<and> \<not> nullish JNull \<and> \<not> isArray JNull)" by simp
  note T1 = createVNode_invalid_type_is_comment [OF vue_env_hooks c f,
      THEN conjunct2, THEN conjunct2, THEN conjunct2, THEN mp, THEN mp]
  note T2 = createVNode_invalid_type_is_comment [OF vue_env_hooks c n,
      THEN conjunct2, THEN conjunct2, THEN conjunct2, THEN mp, THEN mp]
  show ?thesis
    using vue_env_hooks T1 [OF p o1, of 0 None False] T2 [OF p o2, of 0 None False]
    by simp
qed

text \<open>
  C9 as stated fails where it says that the call never fails: with props that are
  frozen and have an array as \<^verbatim>\<open>class\<close>, \<^verbatim>\<open>createVNode(null, props)\<close> replaces the type
  by \<^verbatim>\<open>Comment\<close> and then raises \<^verbatim>\<open>TypeError\<close> at \<^verbatim>\<open>props.class = normalizeClass(klass)\<close>.
\<close>

theorem createVNode_frozen_props_counterexample:
  "falsy_type TNull
   \<and> fst (coerce_type vue_env TNull init_vstate) = TSymbol Comment
   \<and> createVNode vue_env TNull
        (Some \<lparr> guarded = False, entries = [(''class'', JArr 0 [JStr ''a''])],
                readonly = [''class''] \<rparr>)
        JNull 0 None False init_vstate
       = Inl TypeError"
  by (simp add: createVNode_def createVNode_with_def coerce_type_def createVNode_prepare_def
      prepare_props_def guardReactiveProps_def normalize_class_style_def assign_prop_def
      get_prop_def Let_def)

lemma deepCloneVNode_value:
  "\<forall>v. x \<noteq> JVNode v \<Longrightarrow> deepCloneVNode_n (Suc (Suc n)) e x s = cloneVNode_value x s"
  by (cases x) auto




section \<open>Properties of \<^verbatim>\<open>normalizeChildren\<close>\<close>

lemma normalizeChildren_with_fun:
  "normalizeChildren_with mk e a (JSlots i (JFun j c r) f cx b) s =
     normalizeChildren_body (normalizeChildren_with mk e a r s) mk e a (JSlots i (JFun j c r) f cx b) s"
  by simp

lemma normalizeChildren_with_nofun:
  "\<not> isFunction (obj_default ch) \<Longrightarrow>
     normalizeChildren_with mk e a ch s = normalizeChildren_body (Inl TypeError) mk e a ch s"
  by (cases "(mk, e, a, ch, s)" rule: normalizeChildren_with.cases) auto

lemma store_children_nth:
  "a < length (vnodes s) \<Longrightarrow>
     vnodes (store_children a c t s) ! a =
       (vnodes s ! a)\<lparr> children := c, shapeFlag := shapeFlag (vnodes s ! a) OR t \<rparr>"
  by (simp add: store_children_def update_vnode_def)

lemma store_children_fields [simp]:
  "isBlockTreeEnabled (store_children a c t s) = isBlockTreeEnabled s"
  "arrays (store_children a c t s) = arrays s"
  "blockStack (store_children a c t s) = blockStack s"
  "currentBlock (store_children a c t s) = currentBlock s"
  "length (vnodes (store_children a c t s)) = length (vnodes s)"
  "nextId (store_children a c t s) = nextId s"
  by (simp_all add: store_children_def)

lemma createTextVNode_eval:
  assumes "\<not> COMPAT e"
  shows "createTextVNode e t 0 s =
     Inr (length (vnodes s),
          s\<lparr> vnodes := vnodes s @
                [(new_vnode e (TSymbol Text) None (JStr t) 0 None 0 s)
                   \<lparr> shapeFlag := TEXT_CHILDREN (ShapeFlags e) \<rparr>] \<rparr>)"
proof -
  let ?a = "length (vnodes s)"
  let ?s1 = "s\<lparr> vnodes := vnodes s @ [new_vnode e (TSymbol Text) None (JStr t) 0 None 0 s] \<rparr>"
  have nc: "normalizeChildren_with no_text_vnode e ?a (JStr t) ?s1 =
      Inr (store_children ?a (JStr t) (TEXT_CHILDREN (ShapeFlags e)) ?s1)"
    by (simp add: normalizeChildren_body_def Let_def new_vnode_def)
  have st: "store_children ?a (JStr t) (TEXT_CHILDREN (ShapeFlags e)) ?s1 =
      s\<lparr> vnodes := vnodes s @
                [(new_vnode e (TSymbol Text) None (JStr t) 0 None 0 s)
                   \<lparr> shapeFlag := TEXT_CHILDREN (ShapeFlags e) \<rparr>] \<rparr>"
    by (simp add: store_children_def update_vnode_def new_vnode_def)
  have pre: "createVNode_prepare e (TSymbol Text) None s = Inr (TSymbol Text, None, 0, s)"
    using assms
    by (simp add: createVNode_prepare_def prepare_props_def Let_def type_shapeFlag_def
        guardReactiveProps_def)
  have co: "coerce_type e (TSymbol Text) s = (TSymbol Text, s)"
    by (simp add: coerce_type_def)
  have post: "compat_hooks e ?a (track_vnode e ?a 0 False (validate_key e ?a
      (s\<lparr> vnodes := vnodes s @
                [(new_vnode e (TSymbol Text) None (JStr t) 0 None 0 s)
                   \<lparr> shapeFlag := TEXT_CHILDREN (ShapeFlags e) \<rparr>] \<rparr>))) =
      s\<lparr> vnodes := vnodes s @
                [(new_vnode e (TSymbol Text) None (JStr t) 0 None 0 s)
                   \<lparr> shapeFlag := TEXT_CHILDREN (ShapeFlags e) \<rparr>] \<rparr>"
    using assms
    by (simp add: compat_hooks_def validate_key_def track_vnode_def new_vnode_def strict_eq_def
        split: option.splits)
  have "createBaseVNode_with no_text_vnode e (TSymbol Text) None (JStr t) 0 None (Some 0) False True s =
     Inr (?a, s\<lparr> vnodes := vnodes s @
                [(new_vnode e (TSymbol Text) None (JStr t) 0 None 0 s)
                   \<lparr> shapeFlag := TEXT_CHILDREN (ShapeFlags e) \<rparr>] \<rparr>)"
    by (simp add: createBaseVNode_with_def Let_def nc st post del: normalizeChildren_with.simps)
  then show ?thesis
    by (simp add: createTextVNode_def createVNode_with_def Let_def co pre)
qed

text \<open>
  The equation of the source, \<^verbatim>\<open>createTextVNode(text) = createVNode(Text, null, text)\<close>,
  in a build without the compat layer.
\<close>

lemma createTextVNode_createVNode:
  assumes "\<not> COMPAT e"
  shows "createTextVNode e t 0 s = createVNode e (TSymbol Text) None (JStr t) 0 None False s"
proof -
  let ?mk = "\<lambda>text. createTextVNode e text 0"
  let ?a = "length (vnodes s)"
  let ?s1 = "s\<lparr> vnodes := vnodes s @ [new_vnode e (TSymbol Text) None (JStr t) 0 None 0 s] \<rparr>"
  have nc: "normalizeChildren_with mk e ?a (JStr t) ?s1 =
      Inr (store_children ?a (JStr t) (TEXT_CHILDREN (ShapeFlags e)) ?s1)" for mk
    by (simp add: normalizeChildren_body_def Let_def new_vnode_def)
  have pre: "createVNode_prepare e (TSymbol Text) None s = Inr (TSymbol Text, None, 0, s)"
    using assms
    by (simp add: createVNode_prepare_def prepare_props_def Let_def type_shapeFlag_def
        guardReactiveProps_def)
  have co: "coerce_type e (TSymbol Text) s = (TSymbol Text, s)"
    by (simp add: coerce_type_def)
  have "createBaseVNode_with no_text_vnode e (TSymbol Text) None (JStr t) 0 None (Some 0) False True s =
      createBaseVNode_with ?mk e (TSymbol Text) None (JStr t) 0 None (Some 0) False True s"
    by (simp add: createBaseVNode_with_def Let_def nc del: normalizeChildren_with.simps)
  then show ?thesis
    by (simp add: createTextVNode_def createVNode_def createVNode_with_def Let_def co pre)
qed

lemma obj_default_nonobject:
  "nullish ch \<or> isArray ch \<or> \<not> typeof_object ch \<Longrightarrow> obj_default ch = JUndefined"
  by (cases ch) auto

lemma normalizeChildren_null:
  "nullish ch \<Longrightarrow> normalizeChildren e a ch s = Inr (store_children a JNull 0 s)"
  by (simp add: normalizeChildren_def normalizeChildren_with_nofun obj_default_nonobject
      normalizeChildren_body_def Let_def)

lemma normalizeChildren_array:
  "isArray ch \<Longrightarrow>
     normalizeChildren e a ch s = Inr (store_children a ch (ARRAY_CHILDREN (ShapeFlags e)) s)"
  by (cases ch) (simp_all add: normalizeChildren_def normalizeChildren_body_def Let_def)

lemma normalizeChildren_function:
  "isFunction ch \<Longrightarrow>
     normalizeChildren e a ch s =
       Inr (store_children a (JSlots (nextId s) ch JUndefined (currentRenderingInstance s) False)
              (SLOTS_CHILDREN (ShapeFlags e)) (s\<lparr> nextId := Suc (nextId s) \<rparr>))"
  by (cases ch) (simp_all add: normalizeChildren_def normalizeChildren_body_def Let_def)

lemma strict_eq_set_ctx: "typeof_object ch \<Longrightarrow> ch \<noteq> JNull \<Longrightarrow> strict_eq ch (set_ctx c ch)"
  by (cases ch) (simp_all add: strict_eq_def)

lemma strict_eq_set_flag: "typeof_object ch \<Longrightarrow> ch \<noteq> JNull \<Longrightarrow> strict_eq ch (set_flag f ch)"
  by (cases ch) (simp_all add: strict_eq_def)

lemma strict_eq_object: "typeof_object ch \<Longrightarrow> ch \<noteq> JNull \<Longrightarrow> strict_eq ch ch"
  by (cases ch) (simp_all add: strict_eq_def)

lemma obj_default_set [simp]:
  "obj_default (set_ctx c ch) = obj_default ch" "obj_default (set_flag f ch) = obj_default ch"
  by (cases ch; simp)+

lemma slots_result:
  assumes "s2 = store_children a ch' ty s1" "strict_eq ch ch'" "obj_default ch' = obj_default ch"
    "s1 = s \<or> s1 = u"
  shows "\<exists>c t. s2 = store_children a c ty t \<and> strict_eq ch c
           \<and> obj_default c = obj_default ch \<and> (t = s \<or> t = u)"
  using assms by blast

text \<open>
  The last branch of \<^verbatim>\<open>normalizeChildren\<close>, for an object on a vnode that is neither
  an element nor a \<^verbatim>\<open>Teleport\<close>: the three conditions of the source and what the
  branch gives in each case.
\<close>

lemma normalizeChildren_body_slots_eq:
  assumes "typeof_object ch" "ch \<noteq> JNull" "\<not> isArray ch"
    and "shapeFlag (vnodes s ! a) AND (ELEMENT (ShapeFlags e) OR TELEPORT (ShapeFlags e)) = 0"
  shows "normalizeChildren_body rec mk e a ch s =
      (if \<not> truthy (obj_flag ch) \<and> \<not> isInternalObject ch then
         (if can_assign e ch ''_ctx''
          then Inr (store_children a (set_ctx (currentRenderingInstance s) ch)
                      (SLOTS_CHILDREN (ShapeFlags e)) s)
          else Inl TypeError)
       else if strict_eq (obj_flag ch) (JNum (FORWARDED (SlotFlags e)))
               \<and> currentRenderingInstance s \<noteq> None then
         (if can_assign e ch ''_'' then
            (if strict_eq (case currentRenderingInstance s of
                             Some i \<Rightarrow> instance_slots_flag e i | None \<Rightarrow> JUndefined)
                  (JNum (STABLE (SlotFlags e)))
             then Inr (store_children a (set_flag (JNum (STABLE (SlotFlags e))) ch)
                         (SLOTS_CHILDREN (ShapeFlags e)) s)
             else Inr (store_children a (set_flag (JNum (DYNAMIC (SlotFlags e))) ch)
                         (SLOTS_CHILDREN (ShapeFlags e))
                         (update_vnode a
                            (\<lambda>v. v\<lparr> patchFlag := patchFlag v OR DYNAMIC_SLOTS (PatchFlags e) \<rparr>) s)))
          else Inl TypeError)
       else Inr (store_children a ch (SLOTS_CHILDREN (ShapeFlags e)) s))"
proof -
  have n: "\<not> nullish ch" using assms(1,2) by (cases ch) auto
  show ?thesis
    using assms n
    by (cases "currentRenderingInstance s")
      (simp_all add: normalizeChildren_body_def Let_def assign_ctx_def assign_flag_def)
qed

lemma normalizeChildren_body_slots_result:
  assumes "typeof_object ch" "ch \<noteq> JNull" "\<not> isArray ch"
    and "shapeFlag (vnodes s ! a) AND (ELEMENT (ShapeFlags e) OR TELEPORT (ShapeFlags e)) = 0"
    and res: "normalizeChildren_body rec mk e a ch s = Inr s2"
  shows "\<exists>ch' s1. s2 = store_children a ch' (SLOTS_CHILDREN (ShapeFlags e)) s1
           \<and> strict_eq ch ch' \<and> obj_default ch' = obj_default ch
           \<and> (s1 = s \<or> s1 = update_vnode a
                  (\<lambda>v. v\<lparr> patchFlag := patchFlag v OR DYNAMIC_SLOTS (PatchFlags e) \<rparr>) s)"
proof -
  let ?ty = "SLOTS_CHILDREN (ShapeFlags e)"
  let ?cri = "currentRenderingInstance s"
  let ?u = "update_vnode a (\<lambda>v. v\<lparr> patchFlag := patchFlag v OR DYNAMIC_SLOTS (PatchFlags e) \<rparr>) s"
  define c1 where "c1 \<longleftrightarrow> \<not> truthy (obj_flag ch) \<and> \<not> isInternalObject ch"
  define c2 where "c2 \<longleftrightarrow> strict_eq (obj_flag ch) (JNum (FORWARDED (SlotFlags e))) \<and> ?cri \<noteq> None"
  define c3 where "c3 \<longleftrightarrow>
      strict_eq (case ?cri of Some i \<Rightarrow> instance_slots_flag e i | None \<Rightarrow> JUndefined)
        (JNum (STABLE (SlotFlags e)))"
  define w1 where "w1 \<longleftrightarrow> can_assign e ch ''_ctx''"
  define w2 where "w2 \<longleftrightarrow> can_assign e ch ''_''"
  have eq: "Inr s2 =
      (if c1 then (if w1 then Inr (store_children a (set_ctx ?cri ch) ?ty s) else Inl TypeError)
       else if c2 then
         (if w2 then
            (if c3 then Inr (store_children a (set_flag (JNum (STABLE (SlotFlags e))) ch) ?ty s)
             else Inr (store_children a (set_flag (JNum (DYNAMIC (SlotFlags e))) ch) ?ty ?u))
          else Inl TypeError)
       else Inr (store_children a ch ?ty s))"
    unfolding c1_def c2_def c3_def w1_def w2_def res [symmetric]
    by (rule normalizeChildren_body_slots_eq [OF assms(1-4)])
  note se = strict_eq_set_ctx [OF assms(1,2)] strict_eq_set_flag [OF assms(1,2)]
    strict_eq_object [OF assms(1,2)]
  consider (a) c1 w1 | (b) "\<not> c1" c2 w2 c3 | (c) "\<not> c1" c2 w2 "\<not> c3" | (d) "\<not> c1" "\<not> c2"
    | (e) c1 "\<not> w1" | (f) "\<not> c1" c2 "\<not> w2"
    by blast
  then show ?thesis
  proof cases
    case a
    with eq have "s2 = store_children a (set_ctx ?cri ch) ?ty s" by simp
    then show ?thesis by (rule slots_result) (simp_all add: se)
  next
    case b
    with eq have "s2 = store_children a (set_flag (JNum (STABLE (SlotFlags e))) ch) ?ty s" by simp
    then show ?thesis by (rule slots_result) (simp_all add: se)
  next
    case c
    with eq have "s2 = store_children a (set_flag (JNum (DYNAMIC (SlotFlags e))) ch) ?ty ?u" by simp
    then show ?thesis by (rule slots_result) (simp_all add: se)
  next
    case d
    with eq have "s2 = store_children a ch ?ty s" by simp
    then show ?thesis by (rule slots_result) (simp_all add: se)
  next
    case e
    with eq show ?thesis by simp
  next
    case f
    with eq show ?thesis by simp
  qed
qed

lemma normalizeChildren_slots_result:
  assumes "typeof_object ch" "ch \<noteq> JNull" "\<not> isArray ch"
    and "shapeFlag (vnodes s ! a) AND (ELEMENT (ShapeFlags e) OR TELEPORT (ShapeFlags e)) = 0"
    and res: "normalizeChildren e a ch s = Inr s2"
  shows "\<exists>ch' s1. s2 = store_children a ch' (SLOTS_CHILDREN (ShapeFlags e)) s1
           \<and> strict_eq ch ch' \<and> obj_default ch' = obj_default ch
           \<and> (s1 = s \<or> s1 = update_vnode a
                  (\<lambda>v. v\<lparr> patchFlag := patchFlag v OR DYNAMIC_SLOTS (PatchFlags e) \<rparr>) s)"
proof -
  obtain rec where "normalizeChildren e a ch s =
      normalizeChildren_body rec (\<lambda>text. createTextVNode e text 0) e a ch s"
    unfolding normalizeChildren_def using normalizeChildren_with_body by blast
  with res have "normalizeChildren_body rec (\<lambda>text. createTextVNode e text 0) e a ch s = Inr s2"
    by simp
  then show ?thesis by (rule normalizeChildren_body_slots_result [OF assms(1-4)])
qed

lemma normalizeChildren_slots_returns:
  assumes "typeof_object ch" "ch \<noteq> JNull" "\<not> isArray ch"
    and "shapeFlag (vnodes s ! a) AND (ELEMENT (ShapeFlags e) OR TELEPORT (ShapeFlags e)) = 0"
  shows "normalizeChildren e a ch s = Inl TypeError \<or> (\<exists>s2. normalizeChildren e a ch s = Inr s2)"
    and "can_assign e ch ''_ctx'' \<Longrightarrow> can_assign e ch ''_'' \<Longrightarrow>
           \<exists>s2. normalizeChildren e a ch s = Inr s2"
    and "\<not> truthy (obj_flag ch) \<Longrightarrow> \<not> isInternalObject ch \<Longrightarrow> \<not> can_assign e ch ''_ctx'' \<Longrightarrow>
           normalizeChildren e a ch s = Inl TypeError"
proof -
  obtain rec where r: "normalizeChildren e a ch s =
      normalizeChildren_body rec (\<lambda>text. createTextVNode e text 0) e a ch s"
    unfolding normalizeChildren_def using normalizeChildren_with_body by blast
  note eq = normalizeChildren_body_slots_eq [OF assms, of rec "\<lambda>text. createTextVNode e text 0"]
  show "normalizeChildren e a ch s = Inl TypeError \<or> (\<exists>s2. normalizeChildren e a ch s = Inr s2)"
    unfolding r eq by simp
  show "\<exists>s2. normalizeChildren e a ch s = Inr s2"
    if "can_assign e ch ''_ctx''" "can_assign e ch ''_''"
    unfolding r eq using that by simp
  show "normalizeChildren e a ch s = Inl TypeError"
    if "\<not> truthy (obj_flag ch)" "\<not> isInternalObject ch" "\<not> can_assign e ch ''_ctx''"
    unfolding r eq using that by simp
qed

lemma normalizeChildren_element_slot:
  assumes "typeof_object ch" "ch \<noteq> JNull" "\<not> isArray ch"
    and "shapeFlag (vnodes s ! a) AND (ELEMENT (ShapeFlags e) OR TELEPORT (ShapeFlags e)) \<noteq> 0"
  shows "obj_default ch = JFun j c r \<Longrightarrow> normalizeChildren e a ch s = normalizeChildren e a r s"
    and "\<not> isFunction (obj_default ch) \<Longrightarrow>
           normalizeChildren e a ch s = (if truthy (obj_default ch) then Inl TypeError else Inr s)"
proof -
  have n: "\<not> nullish ch" using assms(1,2) by (cases ch) auto
  show "normalizeChildren e a ch s = normalizeChildren e a r s" if "obj_default ch = JFun j c r"
    using that assms n
    by (cases ch) (simp_all add: normalizeChildren_def normalizeChildren_body_def Let_def)
  show "normalizeChildren e a ch s = (if truthy (obj_default ch) then Inl TypeError else Inr s)"
    if "\<not> isFunction (obj_default ch)"
    using that assms n
    by (simp add: normalizeChildren_def normalizeChildren_with_nofun normalizeChildren_body_def Let_def)
qed

lemma normalizeChildren_text:
  assumes "\<not> nullish ch" "\<not> isArray ch" "\<not> typeof_object ch" "\<not> isFunction ch"
    and "shapeFlag (vnodes s ! a) AND TELEPORT (ShapeFlags e) = 0"
  shows "normalizeChildren e a ch s =
     Inr (store_children a (JStr (String_js e ch)) (TEXT_CHILDREN (ShapeFlags e)) s)"
  using assms
  by (simp add: normalizeChildren_def normalizeChildren_with_nofun obj_default_nonobject
      normalizeChildren_body_def Let_def)

lemma normalizeChildren_teleport_text:
  assumes "\<not> COMPAT e"
    and "\<not> nullish ch" "\<not> isArray ch" "\<not> typeof_object ch" "\<not> isFunction ch"
    and "shapeFlag (vnodes s ! a) AND TELEPORT (ShapeFlags e) \<noteq> 0"
  shows "normalizeChildren e a ch s =
     Inr (store_children a (JArr (nextId s) [JVNode (length (vnodes s))])
            (ARRAY_CHILDREN (ShapeFlags e))
            (s\<lparr> vnodes := vnodes s @
                   [(new_vnode e (TSymbol Text) None (JStr (String_js e ch)) 0 None 0 s)
                      \<lparr> shapeFlag := TEXT_CHILDREN (ShapeFlags e) \<rparr>],
                 nextId := Suc (nextId s) \<rparr>))"
  using assms(2-)
  by (simp add: normalizeChildren_def normalizeChildren_with_nofun obj_default_nonobject
      normalizeChildren_body_def Let_def createTextVNode_eval [OF assms(1)])

lemma createBaseVNode_compiled_children:
  assumes "\<not> COMPAT e"
    and "createBaseVNode e ty ps ch pf dps sf ibn False s = Inr (a, s')"
  shows "children (vnodes s' ! a) = (if ch = JUndefined then JNull else ch)
     \<and> shapeFlag (vnodes s' ! a) =
         (case sf of None \<Rightarrow> if ty = TSymbol Fragment then 0 else ELEMENT (ShapeFlags e) | Some f \<Rightarrow> f)
         OR (if truthy ch
             then (if isString ch then TEXT_CHILDREN (ShapeFlags e) else ARRAY_CHILDREN (ShapeFlags e))
             else 0)"
proof -
  have t: "truthy (if ch = JUndefined then JNull else ch) = truthy ch" by (cases ch) auto
  show ?thesis
    using assms
    by (auto simp: createBaseVNode_compiled t update_vnode_def new_vnode_def)
qed

lemma canonical_children_flat:
  "\<not> (sf AND (ELEMENT (ShapeFlags e) OR TELEPORT (ShapeFlags e)) \<noteq> 0 \<and> isFunction (obj_default ch)) \<Longrightarrow>
     canonical_children e n cri sf ch0 ch a vs = canonical_flat e n cri sf ch0 ch a vs"
  by (cases "(e, n, cri, sf, ch0, ch, a, vs)" rule: canonical_children.cases) auto

lemma obj_default_function:
  "isFunction (obj_default ch) \<Longrightarrow> \<exists>i j c r f cx b. ch = JSlots i (JFun j c r) f cx b"
  by (cases ch; cases "obj_default ch") auto

lemma update_patchFlag_shape:
  "a < length (vnodes s) \<Longrightarrow>
     shapeFlag (vnodes (update_vnode a (\<lambda>v. v\<lparr> patchFlag := g v \<rparr>) s) ! a) = shapeFlag (vnodes s ! a)"
  by (simp add: update_vnode_def)

text \<open>
  What \<^verbatim>\<open>normalizeChildren\<close> leaves on the vnode that was created last, when it does
  not reach the call of a default slot.
\<close>

lemma normalizeChildren_flat:
  assumes nc: "\<not> COMPAT e"
    and res: "normalizeChildren e a ch s1 = Inr s2"
    and nf: "\<not> (sf AND (ELEMENT (ShapeFlags e) OR TELEPORT (ShapeFlags e)) \<noteq> 0
                \<and> isFunction (obj_default ch))"
    and a: "Suc a = length (vnodes s1)"
    and sf: "shapeFlag (vnodes s1 ! a) = sf" and c0: "children (vnodes s1 ! a) = ch0"
  shows "canonical_flat e (nextId s1) (currentRenderingInstance s1) sf ch0 ch a (vnodes s2)"
proof -
  from a have al: "a < length (vnodes s1)" by simp
  consider (null) "nullish ch"
    | (arr) "\<not> nullish ch" "isArray ch"
    | (elem) "\<not> nullish ch" "\<not> isArray ch" "typeof_object ch"
        "sf AND (ELEMENT (ShapeFlags e) OR TELEPORT (ShapeFlags e)) \<noteq> 0"
    | (slots) "\<not> nullish ch" "\<not> isArray ch" "typeof_object ch"
        "sf AND (ELEMENT (ShapeFlags e) OR TELEPORT (ShapeFlags e)) = 0"
    | (func) "\<not> nullish ch" "\<not> isArray ch" "\<not> typeof_object ch" "isFunction ch"
    | (tele) "\<not> nullish ch" "\<not> isArray ch" "\<not> typeof_object ch" "\<not> isFunction ch"
        "sf AND TELEPORT (ShapeFlags e) \<noteq> 0"
    | (prim) "\<not> nullish ch" "\<not> isArray ch" "\<not> typeof_object ch" "\<not> isFunction ch"
        "sf AND TELEPORT (ShapeFlags e) = 0"
    by blast
  then show ?thesis
  proof cases
    case null
    with res have "s2 = store_children a JNull 0 s1" by (simp add: normalizeChildren_null)
    with null al sf show ?thesis by (simp add: canonical_flat_def store_children_nth)
  next
    case arr
    with res have "s2 = store_children a ch (ARRAY_CHILDREN (ShapeFlags e)) s1"
      by (simp add: normalizeChildren_array)
    with arr al sf show ?thesis by (simp add: canonical_flat_def store_children_nth)
  next
    case elem
    from elem(1) have n: "ch \<noteq> JNull" by auto
    from elem(4) nf have "\<not> isFunction (obj_default ch)" by simp
    from normalizeChildren_element_slot(2) [OF elem(3) n elem(2) _ this, of s1 a e] elem(4) sf res
    have "s2 = s1" by (simp split: if_splits)
    with elem sf c0 show ?thesis by (simp add: canonical_flat_def)
  next
    case slots
    from slots(1) have n: "ch \<noteq> JNull" by auto
    from slots(4) sf
    have z: "shapeFlag (vnodes s1 ! a) AND (ELEMENT (ShapeFlags e) OR TELEPORT (ShapeFlags e)) = 0"
      by simp
    from normalizeChildren_slots_result [OF slots(3) n slots(2) z res]
    obtain ch' s1x where s2: "s2 = store_children a ch' (SLOTS_CHILDREN (ShapeFlags e)) s1x"
      and se: "strict_eq ch ch'" "obj_default ch' = obj_default ch"
      and sx: "s1x = s1 \<or> s1x = update_vnode a
                  (\<lambda>v. v\<lparr> patchFlag := patchFlag v OR DYNAMIC_SLOTS (PatchFlags e) \<rparr>) s1"
      by blast
    from sx al have l: "a < length (vnodes s1x)" and f: "shapeFlag (vnodes s1x ! a) = sf"
      using sf by (auto simp: update_patchFlag_shape)
    from slots se l f show ?thesis
      by (simp add: canonical_flat_def s2 store_children_nth)
  next
    case func
    with res have "s2 = store_children a (JSlots (nextId s1) ch JUndefined (currentRenderingInstance s1) False)
              (SLOTS_CHILDREN (ShapeFlags e)) (s1\<lparr> nextId := Suc (nextId s1) \<rparr>)"
      by (simp add: normalizeChildren_function)
    with func al sf show ?thesis by (simp add: canonical_flat_def store_children_nth)
  next
    case tele
    from tele(5) sf have z: "shapeFlag (vnodes s1 ! a) AND TELEPORT (ShapeFlags e) \<noteq> 0" by simp
    from normalizeChildren_teleport_text [OF nc tele(1-4) z] res
    have s2: "s2 = store_children a (JArr (nextId s1) [JVNode (length (vnodes s1))])
            (ARRAY_CHILDREN (ShapeFlags e))
            (s1\<lparr> vnodes := vnodes s1 @
                   [(new_vnode e (TSymbol Text) None (JStr (String_js e ch)) 0 None 0 s1)
                      \<lparr> shapeFlag := TEXT_CHILDREN (ShapeFlags e) \<rparr>],
                 nextId := Suc (nextId s1) \<rparr>)"
      by simp
    have v: "vnodes s2 ! a = (vnodes s1 ! a)\<lparr> children := JArr (nextId s1) [JVNode (Suc a)],
                shapeFlag := sf OR ARRAY_CHILDREN (ShapeFlags e) \<rparr>"
      using al a sf by (simp add: s2 store_children_def update_vnode_def nth_append)
    have w: "vnodes s2 ! Suc a = (new_vnode e (TSymbol Text) None (JStr (String_js e ch)) 0 None 0 s1)
                      \<lparr> shapeFlag := TEXT_CHILDREN (ShapeFlags e) \<rparr>"
      "Suc a < length (vnodes s2)"
      using al a by (simp_all add: s2 store_children_def update_vnode_def nth_append)
    from tele v w show ?thesis by (simp add: canonical_flat_def new_vnode_def)
  next
    case prim
    from prim(5) sf have z: "shapeFlag (vnodes s1 ! a) AND TELEPORT (ShapeFlags e) = 0" by simp
    from normalizeChildren_text [OF prim(1-4) z] res
    have "s2 = store_children a (JStr (String_js e ch)) (TEXT_CHILDREN (ShapeFlags e)) s1" by simp
    with prim al sf show ?thesis by (simp add: canonical_flat_def store_children_nth)
  qed
qed

lemma normalizeChildren_canonical_children:
  assumes nc: "\<not> COMPAT e"
    and a: "Suc a = length (vnodes s1)"
    and sf: "shapeFlag (vnodes s1 ! a) = sf" and c0: "children (vnodes s1 ! a) = ch0"
  shows "normalizeChildren e a ch s1 = Inr s2 \<Longrightarrow>
     canonical_children e (nextId s1) (currentRenderingInstance s1) sf ch0 ch a (vnodes s2)"
proof (induction ch rule: measure_induct_rule [of size])
  case (less ch)
  show ?case
  proof (cases "sf AND (ELEMENT (ShapeFlags e) OR TELEPORT (ShapeFlags e)) \<noteq> 0
                \<and> isFunction (obj_default ch)")
    case True
    then obtain i j c r f cx b where ch: "ch = JSlots i (JFun j c r) f cx b"
      using obj_default_function by blast
    have el: "shapeFlag (vnodes s1 ! a) AND (ELEMENT (ShapeFlags e) OR TELEPORT (ShapeFlags e)) \<noteq> 0"
      using True sf by simp
    have "normalizeChildren e a ch s1 = normalizeChildren e a r s1"
      by (rule normalizeChildren_element_slot(1) [OF _ _ _ el]) (simp_all add: ch)
    with less.prems have r: "normalizeChildren e a r s1 = Inr s2" by simp
    have "size r < size ch" by (simp add: ch)
    from less.IH [OF this r] True show ?thesis by (simp add: ch)
  next
    case False
    from normalizeChildren_flat [OF nc less.prems False a sf c0] show ?thesis
      by (simp add: canonical_children_flat [OF False])
  qed
qed

lemma canonical_children_undefined:
  "canonical_children e n cri sf (if ch = JUndefined then JNull else ch)
       (if ch = JUndefined then JNull else ch) a vs
     = canonical_children e n cri sf ch ch a vs"
  by (cases "ch = JUndefined") (simp_all add: canonical_flat_def)

text \<open>
  \<^verbatim>\<open>createBaseVNode\<close> with the full normalization leaves the vnodes as
  \<^verbatim>\<open>normalizeChildren\<close> left them, unless the vnode is a \<^verbatim>\<open>Suspense\<close> vnode.
\<close>

lemma createBaseVNode_full:
  "createBaseVNode e ty ps ch pf dps (Some sfv) ibn True s =
     (case normalizeChildren e (length (vnodes s)) (if ch = JUndefined then JNull else ch)
             (s\<lparr> vnodes := vnodes s @
                  [new_vnode e ty ps (if ch = JUndefined then JNull else ch) pf dps sfv s] \<rparr>) of
        Inl err \<Rightarrow> Inl err
      | Inr s2 \<Rightarrow>
          Inr (length (vnodes s),
               compat_hooks e (length (vnodes s))
                 (track_vnode e (length (vnodes s)) sfv ibn
                    (validate_key e (length (vnodes s))
                       (if FEATURE_SUSPENSE e \<and> sfv AND SUSPENSE (ShapeFlags e) \<noteq> 0
                        then Suspense_normalize e (length (vnodes s)) s2 else s2)))))"
  by (simp add: createBaseVNode_def createBaseVNode_with_def normalizeChildren_def Let_def
      split: sum.splits)

lemma createBaseVNode_canonical:
  assumes nc: "\<not> COMPAT e"
    and sfv: "sfv = (case sf of None \<Rightarrow> if ty = TSymbol Fragment then 0 else ELEMENT (ShapeFlags e)
                | Some f \<Rightarrow> f)"
    and ns: "\<not> (FEATURE_SUSPENSE e \<and> sfv AND SUSPENSE (ShapeFlags e) \<noteq> 0)"
    and res: "createBaseVNode e ty ps ch pf dps sf ibn True s = Inr (a, s')"
  shows "a = length (vnodes s)
     \<and> canonical_children e (nextId s) (currentRenderingInstance s) sfv ch ch a (vnodes s')"
proof -
  let ?ch = "if ch = JUndefined then JNull else ch"
  let ?s1 = "s\<lparr> vnodes := vnodes s @ [new_vnode e ty ps ?ch pf dps sfv s] \<rparr>"
  let ?a = "length (vnodes s)"
  have "createBaseVNode e ty ps ch pf dps sf ibn True s
      = createBaseVNode e ty ps ch pf dps (Some sfv) ibn True s"
    by (cases sf) (simp_all add: sfv createBaseVNode_def createBaseVNode_with_def)
  with res have r: "createBaseVNode e ty ps ch pf dps (Some sfv) ibn True s = Inr (a, s')" by simp
  from r ns obtain s2 where n: "normalizeChildren e ?a ?ch ?s1 = Inr s2"
    and a: "a = ?a"
    and s': "s' = compat_hooks e ?a (track_vnode e ?a sfv ibn (validate_key e ?a s2))"
    unfolding createBaseVNode_full
    by (cases "normalizeChildren e ?a ?ch ?s1") auto
  have v: "vnodes s' = vnodes s2" by (simp add: s' nc)
  have "canonical_children e (nextId ?s1) (currentRenderingInstance ?s1) sfv ?ch ?ch ?a (vnodes s2)"
    by (rule normalizeChildren_canonical_children [OF nc _ _ _ n]) (simp_all add: new_vnode_def)
  then have "canonical_children e (nextId s) (currentRenderingInstance s) sfv ch ch ?a (vnodes s2)"
    by (simp only: canonical_children_undefined) simp
  with a v show ?thesis by simp
qed

text \<open>
  \<^verbatim>\<open>createVNode\<close> on a type that is not a vnode is \<^verbatim>\<open>createBaseVNode\<close> with the shape
  flag of the type, in a state that differs from the state of the call in the
  warnings only.
\<close>

lemma createVNode_as_base:
  assumes "\<not> COMPAT e" "\<forall>v. ty \<noteq> TVNode v"
    and res: "createVNode e ty ps ch pf dps ibn s = Inr (a, s')"
  shows "\<exists>ty' ps' s1.
           createBaseVNode e ty' ps' ch pf dps
               (Some (type_shapeFlag e (class_component_opts (fst (coerce_type e ty s))))) ibn True s1
             = Inr (a, s')
           \<and> same_blocks s s1 \<and> vnodes s1 = vnodes s \<and> nextId s1 = nextId s
           \<and> currentRenderingInstance s1 = currentRenderingInstance s"
proof -
  let ?c = "coerce_type e ty s"
  from assms(2) have nv: "isVNode_type (fst ?c) = None" by (simp add: coerce_type_not_vnode)
  from res nv obtain p where p: "createVNode_prepare e (fst ?c) ps (snd ?c) = Inr p"
    and b: "createBaseVNode e (fst p) (fst (snd p)) ch pf dps (Some (fst (snd (snd p)))) ibn True
              (snd (snd (snd p))) = Inr (a, s')"
    by (auto simp: createVNode_def createBaseVNode_def createVNode_with_def Let_def split: sum.splits)
  from p assms(1) have 2: "fst (snd (snd p)) = type_shapeFlag e (class_component_opts (fst ?c))"
    by (auto simp: createVNode_prepare_def Let_def split: sum.splits)
  have 3: "same_blocks s (snd ?c)" "vnodes (snd ?c) = vnodes s" "nextId (snd ?c) = nextId s"
    "currentRenderingInstance (snd ?c) = currentRenderingInstance s"
    by (simp_all add: coerce_type_def same_blocks_def)
  from p have 4: "same_blocks (snd ?c) (snd (snd (snd p)))" "vnodes (snd (snd (snd p))) = vnodes (snd ?c)"
    "nextId (snd (snd (snd p))) = nextId (snd ?c)"
    "currentRenderingInstance (snd (snd (snd p))) = currentRenderingInstance (snd ?c)"
    by (auto simp: createVNode_prepare_def Let_def same_blocks_def split: sum.splits)
  from 3 4 have 5: "same_blocks s (snd (snd (snd p)))" "vnodes (snd (snd (snd p))) = vnodes s"
    "nextId (snd (snd (snd p))) = nextId s"
    "currentRenderingInstance (snd (snd (snd p))) = currentRenderingInstance s"
    by (auto simp: same_blocks_def)
  from b 2 5 show ?thesis by metis
qed

lemma createVNode_canonical:
  assumes nc: "\<not> COMPAT e" and nv: "\<forall>v. ty \<noteq> TVNode v"
    and ns: "\<not> (FEATURE_SUSPENSE e \<and>
               type_shapeFlag e (class_component_opts (fst (coerce_type e ty s)))
                 AND SUSPENSE (ShapeFlags e) \<noteq> 0)"
    and res: "createVNode e ty ps ch pf dps ibn s = Inr (a, s')"
  shows "a = length (vnodes s)
     \<and> canonical_children e (nextId s) (currentRenderingInstance s)
         (type_shapeFlag e (class_component_opts (fst (coerce_type e ty s)))) ch ch a (vnodes s')"
proof -
  let ?sf = "type_shapeFlag e (class_component_opts (fst (coerce_type e ty s)))"
  from createVNode_as_base [OF nc nv res] obtain ty' ps' s1 where
    b: "createBaseVNode e ty' ps' ch pf dps (Some ?sf) ibn True s1 = Inr (a, s')"
    and eqs: "vnodes s1 = vnodes s" "nextId s1 = nextId s"
      "currentRenderingInstance s1 = currentRenderingInstance s"
    by blast
  from createBaseVNode_canonical [OF nc _ _ b, of ?sf] ns eqs show ?thesis by auto
qed

text \<open>
  C5, as the code has it. \<^verbatim>\<open>normalizeChildren\<close> stores a canonical form of the children
  on the vnode and ORs the matching flag into its shape flag:
  \<^verbatim>\<open>null\<close> and \<^verbatim>\<open>undefined\<close> become \<^verbatim>\<open>null\<close> with no flag; an array is kept, with
  \<^verbatim>\<open>ARRAY_CHILDREN\<close>; a function becomes the slots object \<^verbatim>\<open>{ default: fn, _ctx }\<close> with
  \<^verbatim>\<open>SLOTS_CHILDREN\<close>; an object is kept, with \<^verbatim>\<open>SLOTS_CHILDREN\<close>, when the vnode is
  neither an element nor a \<^verbatim>\<open>Teleport\<close>, unless the object rejects the assignment of
  \<^verbatim>\<open>_ctx\<close> or \<^verbatim>\<open>_\<close> that the function makes, which raises \<^verbatim>\<open>TypeError\<close>; on an element or
  a \<^verbatim>\<open>Teleport\<close> the value that the default slot of the object returns is normalized
  in its place, and an object without a default slot leaves the vnode as it is; any
  other value becomes the string \<^verbatim>\<open>String(children)\<close> with \<^verbatim>\<open>TEXT_CHILDREN\<close>, except on
  a \<^verbatim>\<open>Teleport\<close>, where it becomes an array of one new text vnode with
  \<^verbatim>\<open>ARRAY_CHILDREN\<close>. Vnode creation does this to the new vnode: after
  \<^verbatim>\<open>createBaseVNode\<close> with the full normalization, and after \<^verbatim>\<open>createVNode\<close> on a type
  that is not a vnode, the children and the shape flag of the vnode are the
  canonical form of the \<^verbatim>\<open>children\<close> argument and the flag of the type with the flag
  of that form (\<open>canonical_children\<close>). On the compiled path \<^verbatim>\<open>createBaseVNode\<close> keeps the
  children and sets \<^verbatim>\<open>TEXT_CHILDREN\<close> for a non-empty string, \<^verbatim>\<open>ARRAY_CHILDREN\<close> for any
  other truthy value, and no flag otherwise. The statement is for a build without
  the compat layer, and leaves out \<^verbatim>\<open>Suspense\<close> vnodes.
\<close>

theorem normalizeChildren_canonical:
  assumes "\<not> COMPAT e"
  shows
  "(nullish ch \<longrightarrow> normalizeChildren e a ch s = Inr (store_children a JNull 0 s))
   \<and> (isArray ch \<longrightarrow>
        normalizeChildren e a ch s = Inr (store_children a ch (ARRAY_CHILDREN (ShapeFlags e)) s))
   \<and> (isFunction ch \<longrightarrow>
        normalizeChildren e a ch s =
          Inr (store_children a (JSlots (nextId s) ch JUndefined (currentRenderingInstance s) False)
                 (SLOTS_CHILDREN (ShapeFlags e)) (s\<lparr> nextId := Suc (nextId s) \<rparr>)))
   \<and> (typeof_object ch \<longrightarrow> ch \<noteq> JNull \<longrightarrow> \<not> isArray ch \<longrightarrow>
        shapeFlag (vnodes s ! a) AND (ELEMENT (ShapeFlags e) OR TELEPORT (ShapeFlags e)) = 0 \<longrightarrow>
        (normalizeChildren e a ch s = Inl TypeError \<or> (\<exists>s2. normalizeChildren e a ch s = Inr s2))
        \<and> (can_assign e ch ''_ctx'' \<longrightarrow> can_assign e ch ''_'' \<longrightarrow>
             (\<exists>s2. normalizeChildren e a ch s = Inr s2))
        \<and> (\<not> truthy (obj_flag ch) \<longrightarrow> \<not> isInternalObject ch \<longrightarrow> \<not> can_assign e ch ''_ctx'' \<longrightarrow>
             normalizeChildren e a ch s = Inl TypeError)
        \<and> (\<forall>s2. normalizeChildren e a ch s = Inr s2 \<longrightarrow>
             (\<exists>ch' s1. s2 = store_children a ch' (SLOTS_CHILDREN (ShapeFlags e)) s1
                \<and> strict_eq ch ch' \<and> obj_default ch' = obj_default ch
                \<and> (s1 = s \<or> s1 = update_vnode a
                       (\<lambda>v. v\<lparr> patchFlag := patchFlag v OR DYNAMIC_SLOTS (PatchFlags e) \<rparr>) s))))
   \<and> (typeof_object ch \<longrightarrow> ch \<noteq> JNull \<longrightarrow> \<not> isArray ch \<longrightarrow>
        shapeFlag (vnodes s ! a) AND (ELEMENT (ShapeFlags e) OR TELEPORT (ShapeFlags e)) \<noteq> 0 \<longrightarrow>
        (\<forall>j c r. obj_default ch = JFun j c r \<longrightarrow>
            normalizeChildren e a ch s = normalizeChildren e a r s)
        \<and> (\<not> isFunction (obj_default ch) \<longrightarrow>
            normalizeChildren e a ch s =
              (if truthy (obj_default ch) then Inl TypeError else Inr s)))
   \<and> (\<not> nullish ch \<longrightarrow> \<not> isArray ch \<longrightarrow> \<not> typeof_object ch \<longrightarrow> \<not> isFunction ch \<longrightarrow>
        shapeFlag (vnodes s ! a) AND TELEPORT (ShapeFlags e) = 0 \<longrightarrow>
        normalizeChildren e a ch s =
          Inr (store_children a (JStr (String_js e ch)) (TEXT_CHILDREN (ShapeFlags e)) s))
   \<and> (\<not> nullish ch \<longrightarrow> \<not> isArray ch \<longrightarrow> \<not> typeof_object ch \<longrightarrow> \<not> isFunction ch \<longrightarrow>
        shapeFlag (vnodes s ! a) AND TELEPORT (ShapeFlags e) \<noteq> 0 \<longrightarrow>
        normalizeChildren e a ch s =
          Inr (store_children a (JArr (nextId s) [JVNode (length (vnodes s))])
                 (ARRAY_CHILDREN (ShapeFlags e))
                 (s\<lparr> vnodes := vnodes s @
                        [(new_vnode e (TSymbol Text) None (JStr (String_js e ch)) 0 None 0 s)
                           \<lparr> shapeFlag := TEXT_CHILDREN (ShapeFlags e) \<rparr>],
                      nextId := Suc (nextId s) \<rparr>)))
   \<and> (a < length (vnodes s) \<longrightarrow>
        vnodes (store_children a c t s) ! a =
          (vnodes s ! a)\<lparr> children := c, shapeFlag := shapeFlag (vnodes s ! a) OR t \<rparr>)
   \<and> (createBaseVNode e ty ps ch pf dps sf ibn False s = Inr (b, s') \<longrightarrow>
        children (vnodes s' ! b) = (if ch = JUndefined then JNull else ch)
        \<and> shapeFlag (vnodes s' ! b) =
            (case sf of None \<Rightarrow> if ty = TSymbol Fragment then 0 else ELEMENT (ShapeFlags e)
             | Some f \<Rightarrow> f)
            OR (if truthy ch
                then (if isString ch then TEXT_CHILDREN (ShapeFlags e)
                      else ARRAY_CHILDREN (ShapeFlags e))
                else 0))
   \<and> (createBaseVNode e ty ps ch pf dps sf ibn True s = Inr (b, s') \<longrightarrow>
        \<not> (FEATURE_SUSPENSE e \<and>
             (case sf of None \<Rightarrow> if ty = TSymbol Fragment then 0 else ELEMENT (ShapeFlags e)
              | Some f \<Rightarrow> f) AND SUSPENSE (ShapeFlags e) \<noteq> 0) \<longrightarrow>
        b = length (vnodes s)
        \<and> canonical_children e (nextId s) (currentRenderingInstance s)
            (case sf of None \<Rightarrow> if ty = TSymbol Fragment then 0 else ELEMENT (ShapeFlags e)
             | Some f \<Rightarrow> f) ch ch b (vnodes s'))
   \<and> ((\<forall>v. ty \<noteq> TVNode v) \<longrightarrow> createVNode e ty ps ch pf dps ibn s = Inr (b, s') \<longrightarrow>
        \<not> (FEATURE_SUSPENSE e \<and>
             type_shapeFlag e (class_component_opts (fst (coerce_type e ty s)))
               AND SUSPENSE (ShapeFlags e) \<noteq> 0) \<longrightarrow>
        b = length (vnodes s)
        \<and> canonical_children e (nextId s) (currentRenderingInstance s)
            (type_shapeFlag e (class_component_opts (fst (coerce_type e ty s)))) ch ch b (vnodes s'))"
proof -
  have slots: "(normalizeChildren e a ch s = Inl TypeError \<or> (\<exists>s2. normalizeChildren e a ch s = Inr s2))
        \<and> (can_assign e ch ''_ctx'' \<longrightarrow> can_assign e ch ''_'' \<longrightarrow>
             (\<exists>s2. normalizeChildren e a ch s = Inr s2))
        \<and> (\<not> truthy (obj_flag ch) \<longrightarrow> \<not> isInternalObject ch \<longrightarrow> \<not> can_assign e ch ''_ctx'' \<longrightarrow>
             normalizeChildren e a ch s = Inl TypeError)
        \<and> (\<forall>s2. normalizeChildren e a ch s = Inr s2 \<longrightarrow>
             (\<exists>ch' s1. s2 = store_children a ch' (SLOTS_CHILDREN (ShapeFlags e)) s1
                \<and> strict_eq ch ch' \<and> obj_default ch' = obj_default ch
                \<and> (s1 = s \<or> s1 = update_vnode a
                       (\<lambda>v. v\<lparr> patchFlag := patchFlag v OR DYNAMIC_SLOTS (PatchFlags e) \<rparr>) s)))"
    if h: "typeof_object ch" "ch \<noteq> JNull" "\<not> isArray ch"
      "shapeFlag (vnodes s ! a) AND (ELEMENT (ShapeFlags e) OR TELEPORT (ShapeFlags e)) = 0"
    using normalizeChildren_slots_returns [OF h] normalizeChildren_slots_result [OF h]
    by blast
  have elem: "(\<forall>j c r. obj_default ch = JFun j c r \<longrightarrow>
            normalizeChildren e a ch s = normalizeChildren e a r s)
        \<and> (\<not> isFunction (obj_default ch) \<longrightarrow>
            normalizeChildren e a ch s =
              (if truthy (obj_default ch) then Inl TypeError else Inr s))"
    if h: "typeof_object ch" "ch \<noteq> JNull" "\<not> isArray ch"
      "shapeFlag (vnodes s ! a) AND (ELEMENT (ShapeFlags e) OR TELEPORT (ShapeFlags e)) \<noteq> 0"
    using normalizeChildren_element_slot [OF h] by blast
  have base: "b = length (vnodes s)
        \<and> canonical_children e (nextId s) (currentRenderingInstance s)
            (case sf of None \<Rightarrow> if ty = TSymbol Fragment then 0 else ELEMENT (ShapeFlags e)
             | Some f \<Rightarrow> f) ch ch b (vnodes s')"
    if "createBaseVNode e ty ps ch pf dps sf ibn True s = Inr (b, s')"
      "\<not> (FEATURE_SUSPENSE e \<and>
             (case sf of None \<Rightarrow> if ty = TSymbol Fragment then 0 else ELEMENT (ShapeFlags e)
              | Some f \<Rightarrow> f) AND SUSPENSE (ShapeFlags e) \<noteq> 0)"
    using createBaseVNode_canonical [OF assms refl that(2,1)] .
  have full: "b = length (vnodes s)
        \<and> canonical_children e (nextId s) (currentRenderingInstance s)
            (type_shapeFlag e (class_component_opts (fst (coerce_type e ty s)))) ch ch b (vnodes s')"
    if "\<forall>v. ty \<noteq> TVNode v" "createVNode e ty ps ch pf dps ibn s = Inr (b, s')"
      "\<not> (FEATURE_SUSPENSE e \<and>
             type_shapeFlag e (class_component_opts (fst (coerce_type e ty s)))
               AND SUSPENSE (ShapeFlags e) \<noteq> 0)"
    using createVNode_canonical [OF assms that(1,3,2)] .
  show ?thesis
    apply (rule conjI, rule impI, erule normalizeChildren_null)
    apply (rule conjI, rule impI, erule normalizeChildren_array)
    apply (rule conjI, rule impI, erule normalizeChildren_function)
    apply (rule conjI, intro impI, erule (3) slots)
    apply (rule conjI, intro impI, erule (3) elem)
    apply (rule conjI, intro impI, erule (4) normalizeChildren_text)
    apply (rule conjI, intro impI, erule (4) normalizeChildren_teleport_text [OF assms])
    apply (rule conjI, rule impI, erule store_children_nth)
    apply (rule conjI, rule impI, erule createBaseVNode_compiled_children [OF assms])
    apply (rule conjI, intro impI, erule (1) base)
    apply (intro impI, erule (2) full)
    done
qed

theorem normalizeChildren_canonical_witness:
  "\<not> COMPAT vue_env
   \<and> \<not> nullish (JNum 42) \<and> \<not> isArray (JNum 42) \<and> \<not> typeof_object (JNum 42) \<and> \<not> isFunction (JNum 42)
   \<and> shapeFlag (vnodes teleport_example ! 0) AND TELEPORT (ShapeFlags vue_env) \<noteq> 0
   \<and> normalizeChildren vue_env 0 (JNum 42) teleport_example =
       Inr (store_children 0 (JArr 0 [JVNode 1]) 16
              (teleport_example\<lparr> vnodes := vnodes teleport_example @
                   [(new_vnode vue_env (TSymbol Text) None (JStr ''42'') 0 None 0 teleport_example)
                      \<lparr> shapeFlag := 8 \<rparr>],
                 nextId := 1 \<rparr>))
   \<and> shapeFlag (vnodes element_example ! 0)
         AND (ELEMENT (ShapeFlags vue_env) OR TELEPORT (ShapeFlags vue_env)) \<noteq> 0
   \<and> normalizeChildren vue_env 0 (JSlots 9 (JFun 3 True (JStr ''hi'')) JUndefined None False)
         element_example
       = Inr (store_children 0 (JStr ''hi'') 8 element_example)
   \<and> (\<forall>v. TTag ''div'' \<noteq> TVNode v)
   \<and> createVNode vue_env (TTag ''div'') None (JNum 42) 0 None False init_vstate
       = Inr (0, init_vstate\<lparr> vnodes :=
                   [(new_vnode vue_env (TTag ''div'') None (JNum 42) 0 None 1 init_vstate)
                      \<lparr> children := JStr ''42'', shapeFlag := 9 \<rparr>] \<rparr>)
   \<and> canonical_children vue_env 0 None 1 (JNum 42) (JNum 42) 0
       [(new_vnode vue_env (TTag ''div'') None (JNum 42) 0 None 1 init_vstate)
          \<lparr> children := JStr ''42'', shapeFlag := 9 \<rparr>]"
proof -
  have c: "\<not> COMPAT vue_env" by simp
  note T = normalizeChildren_canonical [OF c]
  note T5 = T [THEN conjunct2, THEN conjunct2, THEN conjunct2, THEN conjunct2, THEN conjunct1,
      THEN mp, THEN mp, THEN mp, THEN mp]
  note T6 = T [THEN conjunct2, THEN conjunct2, THEN conjunct2, THEN conjunct2, THEN conjunct2,
      THEN conjunct1, THEN mp, THEN mp, THEN mp, THEN mp, THEN mp]
  note T7 = T [THEN conjunct2, THEN conjunct2, THEN conjunct2, THEN conjunct2, THEN conjunct2,
      THEN conjunct2, THEN conjunct1, THEN mp, THEN mp, THEN mp, THEN mp, THEN mp]
  note T11 = T [THEN conjunct2, THEN conjunct2, THEN conjunct2, THEN conjunct2, THEN conjunct2,
      THEN conjunct2, THEN conjunct2, THEN conjunct2, THEN conjunct2, THEN conjunct2,
      THEN mp, THEN mp, THEN mp]
  have p: "\<not> nullish (JNum 42)" "\<not> isArray (JNum 42)" "\<not> typeof_object (JNum 42)"
    "\<not> isFunction (JNum 42)"
    by simp_all
  have tp: "shapeFlag (vnodes teleport_example ! 0) AND TELEPORT (ShapeFlags vue_env) \<noteq> 0"
    by (simp add: teleport_example_def new_vnode_def vue_ShapeFlags_def)
  have el: "shapeFlag (vnodes element_example ! 0)
         AND (ELEMENT (ShapeFlags vue_env) OR TELEPORT (ShapeFlags vue_env)) \<noteq> 0"
    "shapeFlag (vnodes element_example ! 0) AND TELEPORT (ShapeFlags vue_env) = 0"
    by (simp_all add: element_example_def new_vnode_def vue_ShapeFlags_def)
  have str: "string_of_int 42 = ''42''"
    by code_simp
  have num: "Number_toString vue_env 42 = ''42''"
    by (simp add: vue_env_def str)
  have lens: "nextId teleport_example = 0" "length (vnodes teleport_example) = 1"
    by (simp_all add: teleport_example_def init_vstate_def)
  from T7 [OF p tp]
  have 1: "normalizeChildren vue_env 0 (JNum 42) teleport_example =
       Inr (store_children 0 (JArr 0 [JVNode 1]) 16
              (teleport_example\<lparr> vnodes := vnodes teleport_example @
                   [(new_vnode vue_env (TSymbol Text) None (JStr ''42'') 0 None 0 teleport_example)
                      \<lparr> shapeFlag := 8 \<rparr>],
                 nextId := 1 \<rparr>))"
    by (simp add: num lens vue_ShapeFlags_def)
  let ?o = "JSlots 9 (JFun 3 True (JStr ''hi'')) JUndefined None False"
  have o: "typeof_object ?o" "?o \<noteq> JNull" "\<not> isArray ?o" "obj_default ?o = JFun 3 True (JStr ''hi'')"
    by simp_all
  from T5 [OF o(1-3) el(1)] o(4)
  have 2: "normalizeChildren vue_env 0 ?o element_example =
      normalizeChildren vue_env 0 (JStr ''hi'') element_example"
    by blast
  have q: "\<not> nullish (JStr ''hi'')" "\<not> isArray (JStr ''hi'')" "\<not> typeof_object (JStr ''hi'')"
    "\<not> isFunction (JStr ''hi'')"
    by simp_all
  from T6 [OF q el(2)]
  have 3: "normalizeChildren vue_env 0 (JStr ''hi'') element_example =
      Inr (store_children 0 (JStr ''hi'') 8 element_example)"
    by (simp add: vue_ShapeFlags_def)
  have nv: "\<forall>v. TTag ''div'' \<noteq> TVNode v" by simp
  have r: "createVNode vue_env (TTag ''div'') None (JNum 42) 0 None False init_vstate
       = Inr (0, init_vstate\<lparr> vnodes :=
                   [(new_vnode vue_env (TTag ''div'') None (JNum 42) 0 None 1 init_vstate)
                      \<lparr> children := JStr ''42'', shapeFlag := 9 \<rparr>] \<rparr>)"
    by (simp add: createVNode_def createVNode_with_def coerce_type_def createVNode_prepare_def
        prepare_props_def guardReactiveProps_def type_shapeFlag_def createBaseVNode_with_def
        normalizeChildren_body_def store_children_def update_vnode_def validate_key_def
        track_vnode_def compat_hooks_def strict_eq_def new_vnode_def num
        init_vstate_def vue_ShapeFlags_def Let_def)
  have ns: "\<not> (FEATURE_SUSPENSE vue_env \<and>
             type_shapeFlag vue_env (class_component_opts (fst (coerce_type vue_env (TTag ''div'') init_vstate)))
               AND SUSPENSE (ShapeFlags vue_env) \<noteq> 0)"
    by (simp add: type_shapeFlag_def coerce_type_def vue_ShapeFlags_def)
  from T11 [OF nv r ns]
  have 4: "canonical_children vue_env 0 None 1 (JNum 42) (JNum 42) 0
       [(new_vnode vue_env (TTag ''div'') None (JNum 42) 0 None 1 init_vstate)
          \<lparr> children := JStr ''42'', shapeFlag := 9 \<rparr>]"
    by (simp add: type_shapeFlag_def coerce_type_def vue_ShapeFlags_def init_vstate_def)
  show ?thesis using c p tp el(1) 1 2 3 nv r 4 by simp
qed

text \<open>
  C5 as stated fails for a slots object on an element: the object is not stored and
  \<^verbatim>\<open>SLOTS_CHILDREN\<close> is not set. Here the object has no default slot, and the vnode
  is left as it was, with the children \<^verbatim>\<open>null\<close> and the shape flag \<^verbatim>\<open>ELEMENT\<close>.
\<close>

theorem normalizeChildren_slots_on_element_counterexample:
  "normalizeChildren vue_env 0 (JSlots 9 JUndefined JUndefined None False) element_example
     = Inr element_example
   \<and> shapeFlag (vnodes element_example ! 0) AND SLOTS_CHILDREN (ShapeFlags vue_env) = 0
   \<and> children (vnodes element_example ! 0) = JNull"
  by (simp add: normalizeChildren_def normalizeChildren_body_def Let_def element_example_def
      new_vnode_def init_vstate_def vue_ShapeFlags_def)

section \<open>Which vnodes a block collects\<close>

lemma same_blocks_refl [simp]: "same_blocks s s"
  by (simp add: same_blocks_def)

lemma same_blocks_trans: "same_blocks s s' \<Longrightarrow> same_blocks s' s'' \<Longrightarrow> same_blocks s s''"
  by (simp add: same_blocks_def)

lemma same_blocks_simple [simp]:
  "same_blocks s (store_children a c t s)"
  "same_blocks s (update_vnode a g s)"
  "same_blocks s (s\<lparr> nextId := n \<rparr>)"
  "same_blocks s (s\<lparr> vnodes := vs \<rparr>)"
  "same_blocks s (warn m s)"
  "same_blocks s (validate_key e a s)"
  by (simp_all add: same_blocks_def)

lemma createTextVNode_blocks:
  "\<not> COMPAT e \<Longrightarrow> createTextVNode e t 0 s = Inr (r, s') \<Longrightarrow> same_blocks s s'"
  by (auto simp: createTextVNode_eval)

lemma normalizeChildren_body_blocks:
  assumes r: "\<And>s'. rec = Inr s' \<Longrightarrow> same_blocks s s'"
    and mk: "\<And>t s r s'. mk t s = Inr (r, s') \<Longrightarrow> same_blocks s s'"
    and res: "normalizeChildren_body rec mk e a ch s = Inr s'"
  shows "same_blocks s s'"
proof -
  have tx: "same_blocks s (store_children a c ty (s1\<lparr> nextId := n \<rparr>))"
    if "mk t s = Inr (r, s1)" for t r s1 c ty n
    using mk [OF that] by (simp add: same_blocks_def)
  have up: "same_blocks s (store_children a c ty (update_vnode a g s))" for c ty g
    by (simp add: same_blocks_def)
  have nx: "same_blocks s (store_children a c ty (s\<lparr> nextId := n \<rparr>))" for c ty n
    by (simp add: same_blocks_def)
  show ?thesis
    using res r
    unfolding normalizeChildren_body_def Let_def
    by (auto split: if_splits sum.splits prod.splits intro: tx up nx)
qed

lemma normalizeChildren_with_blocks:
  "normalizeChildren_with mk e a ch s = Inr s' \<Longrightarrow>
   (\<And>t s r s'. mk t s = Inr (r, s') \<Longrightarrow> same_blocks s s') \<Longrightarrow> same_blocks s s'"
proof (induction mk e a ch s arbitrary: s' rule: normalizeChildren_with.induct)
  case (1 mk e a i j c r f cx b s)
  from "1.prems"(1)
  have res: "normalizeChildren_body (normalizeChildren_with mk e a r s) mk e a
               (JSlots i (JFun j c r) f cx b) s = Inr s'"
    by simp
  have rec: "same_blocks s s''" if "normalizeChildren_with mk e a r s = Inr s''" for s''
    using that "1.prems"(2) by (rule "1.IH")
  show ?case
    by (rule normalizeChildren_body_blocks [OF rec "1.prems"(2) res])
qed (simp, erule normalizeChildren_body_blocks [rotated 2], simp, blast)+

text \<open>
  What \<^verbatim>\<open>createBaseVNode\<close> does to the blocks, when the vnode is not a \<^verbatim>\<open>Suspense\<close>
  vnode with full normalization: the state before the tracking check has the
  blocks of the state at the call, and the check is the only step that changes
  them.
\<close>

lemma createBaseVNode_tracks:
  assumes nc: "\<not> COMPAT e"
    and ns: "\<not> (nf \<and> FEATURE_SUSPENSE e \<and>
               (case sf of None \<Rightarrow> if ty = TSymbol Fragment then 0 else ELEMENT (ShapeFlags e)
                | Some f \<Rightarrow> f) AND SUSPENSE (ShapeFlags e) \<noteq> 0)"
    and res: "createBaseVNode e ty ps ch pf dps sf ibn nf s = Inr (a, s')"
  shows "\<exists>s3. a = length (vnodes s) \<and> same_blocks s s3 \<and>
           s' = track_vnode e a
                  (case sf of None \<Rightarrow> if ty = TSymbol Fragment then 0 else ELEMENT (ShapeFlags e)
                   | Some f \<Rightarrow> f) ibn s3"
proof -
  let ?mk = "\<lambda>text. createTextVNode e text 0"
  let ?sf = "case sf of None \<Rightarrow> if ty = TSymbol Fragment then 0 else ELEMENT (ShapeFlags e)
                | Some f \<Rightarrow> f"
  let ?ch = "if ch = JUndefined then JNull else ch"
  let ?s1 = "s\<lparr> vnodes := vnodes s @ [new_vnode e ty ps ?ch pf dps ?sf s] \<rparr>"
  let ?a = "length (vnodes s)"
  from res obtain s3 where
    s3: "(if nf then
            (case normalizeChildren_with ?mk e ?a ?ch ?s1 of
               Inl err \<Rightarrow> Inl err
             | Inr s2 \<Rightarrow>
                 Inr (if FEATURE_SUSPENSE e \<and> ?sf AND SUSPENSE (ShapeFlags e) \<noteq> 0
                      then Suspense_normalize e ?a s2 else s2))
          else if truthy ?ch then
            Inr (update_vnode ?a (\<lambda>v. v\<lparr> shapeFlag := shapeFlag v OR
                   (if isString ?ch then TEXT_CHILDREN (ShapeFlags e)
                    else ARRAY_CHILDREN (ShapeFlags e)) \<rparr>) ?s1)
          else Inr ?s1) = Inr s3"
    and a: "a = ?a"
    and s': "s' = compat_hooks e ?a (track_vnode e ?a ?sf ibn (validate_key e ?a s3))"
    unfolding createBaseVNode_def createBaseVNode_with_def Let_def by (auto split: sum.splits)
  have "same_blocks ?s1 s3"
  proof (cases nf)
    case True
    with s3 ns obtain s2 where s2: "normalizeChildren_with ?mk e ?a ?ch ?s1 = Inr s2"
      and s3': "s3 = s2"
      by (auto split: sum.splits if_splits)
    have "same_blocks ?s1 s2"
      using s2 by (rule normalizeChildren_with_blocks) (rule createTextVNode_blocks [OF nc])
    then show ?thesis by (simp add: s3')
  next
    case False
    with s3 show ?thesis by (auto split: if_splits)
  qed
  then have sb: "same_blocks s (validate_key e ?a s3)"
    by (simp add: same_blocks_def)
  show ?thesis
    by (rule exI [of _ "validate_key e ?a s3"]) (simp add: a s' sb nc)
qed

lemma push_block_items:
  "b < length (arrays s) \<Longrightarrow> items (arrays (push_block b a s) ! b) = items (arrays s ! b) @ [a]"
  "c \<noteq> b \<Longrightarrow> arrays (push_block b a s) ! c = arrays s ! c"
  by (simp_all add: push_block_def)

lemma createBaseVNode_collects:
  assumes nc: "\<not> COMPAT e"
    and sfv: "sfv = (case sf of None \<Rightarrow> if ty = TSymbol Fragment then 0 else ELEMENT (ShapeFlags e)
                | Some f \<Rightarrow> f)"
    and ns: "\<not> (nf \<and> FEATURE_SUSPENSE e \<and> sfv AND SUSPENSE (ShapeFlags e) \<noteq> 0)"
    and en: "0 < isBlockTreeEnabled s" and cb: "currentBlock s = Some b" and b: "b < length (arrays s)"
    and res: "createBaseVNode e ty ps ch pf dps sf ibn nf s = Inr (a, s')"
  shows "a = length (vnodes s)
     \<and> items (arrays s' ! b) = items (arrays s ! b) @
         (if \<not> ibn
             \<and> (0 < patchFlag (vnodes s' ! a) \<or> sfv AND COMPONENT (ShapeFlags e) \<noteq> 0)
             \<and> patchFlag (vnodes s' ! a) \<noteq> NEED_HYDRATION (PatchFlags e)
          then [a] else [])
     \<and> (\<forall>c. c \<noteq> b \<longrightarrow> arrays s' ! c = arrays s ! c)
     \<and> same_blocks (s\<lparr> arrays := arrays s' \<rparr>) s'"
proof -
  from createBaseVNode_tracks [OF nc ns [unfolded sfv] res] obtain s3 where
    a: "a = length (vnodes s)" and sb: "same_blocks s s3"
    and s': "s' = track_vnode e a sfv ibn s3"
    unfolding sfv by blast
  define cond where "cond \<longleftrightarrow> \<not> ibn
      \<and> (0 < patchFlag (vnodes s3 ! a) \<or> sfv AND COMPONENT (ShapeFlags e) \<noteq> 0)
      \<and> patchFlag (vnodes s3 ! a) \<noteq> NEED_HYDRATION (PatchFlags e)"
  from sb en cb b have 3: "0 < isBlockTreeEnabled s3" "currentBlock s3 = Some b"
    "b < length (arrays s3)" "arrays s3 = arrays s" "blockStack s3 = blockStack s"
    "isBlockTreeEnabled s3 = isBlockTreeEnabled s" "currentBlock s3 = currentBlock s"
    by (simp_all add: same_blocks_def)
  have tr: "s' = (if cond then push_block b a s3 else s3)"
    using 3(1,2) by (simp add: s' track_vnode_def cond_def)
  have v: "vnodes s' = vnodes s3" by (simp add: s')
  have c: "(\<not> ibn
             \<and> (0 < patchFlag (vnodes s' ! a) \<or> sfv AND COMPONENT (ShapeFlags e) \<noteq> 0)
             \<and> patchFlag (vnodes s' ! a) \<noteq> NEED_HYDRATION (PatchFlags e)) = cond"
    by (simp add: cond_def v)
  have it: "items (arrays s' ! b) = items (arrays s ! b) @ (if cond then [a] else [])"
    using 3(3,4) by (simp add: tr push_block_items)
  have ot: "\<forall>c. c \<noteq> b \<longrightarrow> arrays s' ! c = arrays s ! c"
    using 3(4) by (simp add: tr push_block_items)
  have fr: "same_blocks (s\<lparr> arrays := arrays s' \<rparr>) s'"
    using 3(5,6,7) by (simp add: tr same_blocks_def)
  show ?thesis
    unfolding c using a it ot fr by simp
qed

lemma createBaseVNode_compiled_patchFlag:
  assumes "\<not> COMPAT e" "createBaseVNode e ty ps ch pf dps sf ibn False s = Inr (a, s')"
  shows "a = length (vnodes s) \<and> a < length (vnodes s') \<and> patchFlag (vnodes s' ! a) = pf"
  using assms by (auto simp: createBaseVNode_compiled update_vnode_def new_vnode_def)

lemma setupBlock_arrays:
  assumes "currentBlock (closeBlock s) \<noteq> Some b"
  shows "arrays (snd (setupBlock a s)) ! b = arrays s ! b"
  using assms by (auto simp: setupBlock_def Let_def push_block_items split: option.splits)

lemma createElementBlock_snapshot:
  assumes nc: "\<not> COMPAT e"
    and en: "0 < isBlockTreeEnabled s" and cb: "currentBlock s = Some b"
    and par: "currentBlock (closeBlock s) \<noteq> Some b"
    and res: "createElementBlock e ty ps ch pf dps sf s = Inr (a, s')"
  shows "dynamicChildren (vnodes s' ! a) = DynArr b
     \<and> dynamicChildren_of s' a = Some (items (arrays s ! b))"
proof -
  from res obtain a1 s1 where r0: "createBaseVNode e ty ps ch pf dps sf True False s = Inr (a1, s1)"
    and sb0: "setupBlock a1 s1 = (a, s')"
    by (auto simp: createElementBlock_def setupBlock_result_def split: sum.splits prod.splits)
  from sb0 have a1: "a1 = a" using setupBlock_fields(1) [of a1 s1] by simp
  from r0 a1 have r1: "createBaseVNode e ty ps ch pf dps sf True False s = Inr (a, s1)" by simp
  from sb0 a1 have s': "s' = snd (setupBlock a s1)" by simp
  from createBaseVNode_tracks [OF nc _ r1] obtain s3 where "same_blocks s s3"
    and "s1 = track_vnode e a
                  (case sf of None \<Rightarrow> if ty = TSymbol Fragment then 0 else ELEMENT (ShapeFlags e)
                   | Some f \<Rightarrow> f) True s3"
    by auto
  then have sb: "same_blocks s s1" by (simp add: track_vnode_def split: option.splits)
  from createBaseVNode_compiled_patchFlag [OF nc r1] have a: "a < length (vnodes s1)" by blast
  from sb en cb par have 1: "0 < isBlockTreeEnabled s1" "currentBlock s1 = Some b"
    "currentBlock (closeBlock s1) \<noteq> Some b" "arrays s1 = arrays s"
    by (auto simp: same_blocks_def split: if_splits)
  have d: "dynamicChildren (vnodes s' ! a) = DynArr b"
    unfolding s' using 1(1,2) a by (simp add: setupBlock_snapshot)
  have "arrays s' ! b = arrays s ! b"
    unfolding s' using setupBlock_arrays [OF 1(3)] 1(4) by simp
  with d show ?thesis by (simp add: dynamicChildren_of_def)
qed

lemma createBaseVNode_createElementVNode:
  "createBaseVNode e ty ps ch pf dps sf ibn False s =
     Inr (length (vnodes s), createElementVNode e ty ps ch pf dps sf ibn s)"
  by (simp add: createElementVNode_def createBaseVNode_compiled)




end
